theory Spec2Isabelle
  imports Complex_Main "HOL-Library.Word"
begin

unbundle bit_operations_syntax

section \<open>The polymorphism-aware substitution model (model/modelpomo.cpp)\<close>

text \<open>
  Conventions of the embedding.
  \<^item> A C++ \<open>int\<close> that holds a state id, an allele, an allele count or the virtual
    population size is an \<open>int\<close>; the unknown allele is \<open>-1\<close>, as in the source.
  \<^item> A \<open>double\<close> is a \<open>real\<close>: arithmetic is exact, there is no rounding. A division
    whose divisor is zero gives an infinity or a NaN in the source; the model reports it
    as the error value \<open>NonFinite\<close> at the point of the division and does not follow
    the computation further.
  \<^item> An array reached through a pointer (\<open>double *\<close>) is a function from the index
    to the element; a store \<open>a[i] = v\<close> is \<open>a(i := v)\<close>.
  \<^item> \<open>outError\<close> throws, \<open>ASSERT\<close> aborts: both are error values (\<open>Inl\<close>).
  \<^item> The counters that add up observation counts of the data (\<open>int\<close>,
    \<open>unsigned int\<close>, the \<open>uint32_t\<close> state codes) are 32-bit words: \<open>+\<close> wraps,
    \<open>sint\<close> reads a word as an \<open>int\<close>, \<open>unat\<close> and \<open>uint\<close> as unsigned.
\<close>

datatype error =
    OutError string
  | AssertFailed
  | NonFinite

type_synonym 'a array = "int \<Rightarrow> 'a"

definition and_then :: "error + 'a \<Rightarrow> ('a \<Rightarrow> error + 'b) \<Rightarrow> error + 'b" where
  "and_then m f = (case m of Inl e \<Rightarrow> Inl e | Inr x \<Rightarrow> f x)"

definition fdiv :: "real \<Rightarrow> real \<Rightarrow> error + real" where
  "fdiv x y = (if y = 0 then Inl NonFinite else Inr (x / y))"

subsection \<open>Model constants (ModelPoMo::init)\<close>

definition n_alleles :: int where
  "n_alleles = 4"

definition num_states_of :: "int \<Rightarrow> int" where
  "num_states_of n = n_alleles + (n_alleles * (n_alleles - 1) div 2 * (n - 1))"

subsection \<open>State codec (decomposeState, isBoundary, isPolymorphic)\<close>

definition decomposeState :: "int \<Rightarrow> int \<Rightarrow> error + (int \<times> int \<times> int)" where
  "decomposeState n state =
    (if state < 4 then Inr (n, state, -1)
     else if state < 4 + (n - 1) then Inr (state - 3, 0, 1)
     else if state < 4 + 2 * (n - 1) then Inr (state - 3 - (n - 1), 0, 2)
     else if state < 4 + 3 * (n - 1) then Inr (state - 3 - 2 * (n - 1), 0, 3)
     else if state < 4 + 4 * (n - 1) then Inr (state - 3 - 3 * (n - 1), 1, 2)
     else if state < 4 + 5 * (n - 1) then Inr (state - 3 - 4 * (n - 1), 1, 3)
     else if state < 4 + 6 * (n - 1) then Inr (state - 3 - 5 * (n - 1), 2, 3)
     else Inl (OutError ''State exceeds limit''))"

definition isBoundary :: "int \<Rightarrow> bool" where
  "isBoundary state = (state < 4)"

definition isPolymorphic :: "int \<Rightarrow> bool" where
  "isPolymorphic state = (\<not> isBoundary state)"

text \<open>
  The composition of a state id is not a function of the source; it follows the
  specification's data model: a boundary state of allele \<open>a\<close> has id \<open>a\<close>, a polymorphic
  state \<open>(i, a, b)\<close> has id \<open>4 + pair_index * (N - 1) + (i - 1)\<close>, the pairs in the
  order AC, AG, AT, CG, CT, GT.
\<close>

definition spec_allele_pairs :: "(int \<times> int) list" where
  "spec_allele_pairs = [(0, 1), (0, 2), (0, 3), (1, 2), (1, 3), (2, 3)]"

definition spec_pair_index :: "int \<Rightarrow> int \<Rightarrow> int" where
  "spec_pair_index a b =
    (if (a, b) = (0, 1) then 0 else if (a, b) = (0, 2) then 1
     else if (a, b) = (0, 3) then 2 else if (a, b) = (1, 2) then 3
     else if (a, b) = (1, 3) then 4 else 5)"

definition spec_compose :: "int \<Rightarrow> int \<times> int \<times> int \<Rightarrow> int" where
  "spec_compose n t =
    (case t of (i, a, b) \<Rightarrow>
       if b = -1 then a else 4 + spec_pair_index a b * (n - 1) + (i - 1))"

definition spec_valid_triple :: "int \<Rightarrow> int \<times> int \<times> int \<Rightarrow> bool" where
  "spec_valid_triple n t =
    (case t of (i, a, b) \<Rightarrow>
       (i = n \<and> 0 \<le> a \<and> a < 4 \<and> b = -1)
       \<or> (1 \<le> i \<and> i \<le> n - 1 \<and> (a, b) \<in> set spec_allele_pairs))"

subsection \<open>Loops\<close>

text \<open>
  A counting loop \<open>for (i = a; i < b; i++)\<close> runs its body over the list \<open>[a..b - 1]\<close>:
  with \<open>fold\<close> when the body cannot fail, with \<open>for_each\<close> when it can, which stops at
  the first error.
\<close>

fun for_each :: "'a list \<Rightarrow> ('a \<Rightarrow> 's \<Rightarrow> error + 's) \<Rightarrow> 's \<Rightarrow> error + 's" where
  "for_each [] body s = Inr s"
| "for_each (x # xs) body s = and_then (body x s) (for_each xs body)"

subsection \<open>The model object\<close>

text \<open>
  The underlying nucleotide model (\<open>mutation_model\<close>, a ModelMarkov defined outside this
  file) is seen through what this file reads from it: its frequency array, the matrix
  that \<open>getQMatrix\<close> stores, its reversibility flag and its number of free parameters.
  Its own \<open>getVariables\<close> and \<open>setVariables\<close> are parameters of the functions that
  call them.
\<close>

record mutation_model =
  mm_state_freq :: "real array"
  mm_Q :: "real array"
  mm_is_reversible :: bool
  mm_ndim :: int

datatype call = Eigensystem_nonrev | Eigensystem_sym

record pomo =
  N :: int
  mutation_model :: mutation_model
  is_reversible :: bool
  fixed_theta :: bool
  theta :: real
  mutation_rate_matrix :: "real array"
  mutation_rate_matrix_sym :: "real array"
  mutation_rate_matrix_asy :: "real array"
  state_freq :: "real array"
  rate_matrix :: "real array"
  trace :: "call list"

text \<open>
  \<open>num_states\<close> is a field of the base class; \<open>init\<close> asserts that it is
  \<open>n_alleles + n_alleles (n_alleles - 1) / 2 (N - 1)\<close>, and the model takes it so.
  \<open>freq_boundary_states\<close> is a pointer that \<open>init_boundary_frequencies\<close> sets to the
  underlying model's frequency array and nothing moves afterwards: the two are one array.
\<close>

definition num_states :: "pomo \<Rightarrow> int" where
  "num_states st = num_states_of (N st)"

definition freq_boundary_states :: "pomo \<Rightarrow> real array" where
  "freq_boundary_states st = mm_state_freq (mutation_model st)"

definition getQMatrix :: "mutation_model \<Rightarrow> real array \<Rightarrow> real array" where
  \<comment> \<open>stores the 4 x 4 rate matrix of the underlying model, row by row\<close>
  "getQMatrix mm q = (\<lambda>k. if 0 \<le> k \<and> k < n_alleles * n_alleles then mm_Q mm k else q k)"

subsection \<open>Normalisation constants\<close>

definition computeSumFreqBoundaryStates :: "pomo \<Rightarrow> real" where
  "computeSumFreqBoundaryStates st =
    fold (\<lambda>i norm_boundary. norm_boundary + freq_boundary_states st i) [0..4 - 1] 0"

definition harmonic :: "int \<Rightarrow> real" where
  "harmonic n = fold (\<lambda>i h. h + 1 / real_of_int i) [1..n] 0"

definition computeSumFreqPolyStatesNoMut :: "pomo \<Rightarrow> real" where
  "computeSumFreqPolyStatesNoMut st =
    fold (\<lambda>i norm_polymorphic.
            fold (\<lambda>j norm_polymorphic.
                    norm_polymorphic
                    + 2 * freq_boundary_states st i * freq_boundary_states st j)
              [0..i - 1] norm_polymorphic)
      [0..4 - 1] 0
    * harmonic (N st - 1)"

definition computeSumFreqPolyStates :: "pomo \<Rightarrow> real" where
  "computeSumFreqPolyStates st =
    fold (\<lambda>i norm_polymorphic.
            fold (\<lambda>j norm_polymorphic.
                    norm_polymorphic
                    + 2 * freq_boundary_states st i * freq_boundary_states st j
                      * mutation_rate_matrix_sym st (i * n_alleles + j))
              [0..i - 1] norm_polymorphic)
      [0..n_alleles - 1] 0
    * harmonic (N st - 1)"

definition computeNormConst :: "pomo \<Rightarrow> error + real" where
  "computeNormConst st =
    (let norm_boundary = computeSumFreqBoundaryStates st;
         norm_polymorphic = computeSumFreqPolyStates st
     in fdiv 1 (norm_boundary + norm_polymorphic))"

subsection \<open>Stationary frequencies (computeStateFreq)\<close>

definition stateFreq_step :: "pomo \<Rightarrow> real \<Rightarrow> int \<Rightarrow> real array \<Rightarrow> error + real array" where
  \<comment> \<open>the body of the loop over the states\<close>
  "stateFreq_step st nrm state sf =
    (let r = mutation_rate_matrix_sym st; f = mutation_rate_matrix_asy st;
         pi_b = freq_boundary_states st; n = n_alleles
     in if isBoundary state then Inr (sf(state := pi_b state * nrm))
        else and_then (decomposeState (N st) state) (\<lambda>(i, a, b).
             and_then (fdiv 1 (real_of_int i)) (\<lambda>inv_i.
             and_then (fdiv 1 (real_of_int (N st - i))) (\<lambda>inv_ni.
               let sym = r (a * n + b) * (inv_i + inv_ni);
                   asy = - f (a * n + b) * (inv_i - inv_ni)
               in Inr (sf(state := nrm * pi_b a * pi_b b * (sym + asy)))))))"

definition computeStateFreq :: "pomo \<Rightarrow> error + pomo" where
  "computeStateFreq st =
    and_then (computeNormConst st) (\<lambda>nrm.
    and_then (for_each [0..num_states st - 1] (stateFreq_step st nrm) (state_freq st))
      (\<lambda>sf. Inr (st\<lparr>state_freq := sf\<rparr>)))"

text \<open>
  The value that the loop stores for a state, given the normalisation constant; and the
  stationary frequency as the specification words it, with its constant \<open>Z\<close> and the
  harmonic number \<open>H\<close>.
\<close>

definition stateFreq_value :: "pomo \<Rightarrow> real \<Rightarrow> int \<Rightarrow> real" where
  "stateFreq_value st nrm state =
    (if isBoundary state then freq_boundary_states st state * nrm
     else case decomposeState (N st) state of
       Inl e \<Rightarrow> 0
     | Inr (i, a, b) \<Rightarrow>
         nrm * freq_boundary_states st a * freq_boundary_states st b
         * (mutation_rate_matrix_sym st (a * n_alleles + b)
              * (1 / real_of_int i + 1 / real_of_int (N st - i))
            + - mutation_rate_matrix_asy st (a * n_alleles + b)
              * (1 / real_of_int i - 1 / real_of_int (N st - i))))"

definition spec_H :: "int \<Rightarrow> real" where
  "spec_H k = (\<Sum>i = 1..k. 1 / real_of_int i)"

definition spec_Z :: "pomo \<Rightarrow> real" where
  "spec_Z st =
    (\<Sum>a = 0..3. freq_boundary_states st a)
    + (\<Sum>(a, b)\<leftarrow>spec_allele_pairs.
         2 * freq_boundary_states st a * freq_boundary_states st b
         * mutation_rate_matrix_sym st (a * 4 + b) * spec_H (N st - 1))"

definition spec_stateFrequency :: "pomo \<Rightarrow> int \<times> int \<times> int \<Rightarrow> real" where
  "spec_stateFrequency st t =
    (case t of (i, a, b) \<Rightarrow>
       if b = -1 then freq_boundary_states st a / spec_Z st
       else freq_boundary_states st a * freq_boundary_states st b / spec_Z st
            * (mutation_rate_matrix_sym st (a * 4 + b)
                 * (1 / real_of_int i + 1 / real_of_int (N st - i))
               - mutation_rate_matrix_asy st (a * 4 + b)
                 * (1 / real_of_int i - 1 / real_of_int (N st - i))))"

definition symmetric_rates :: "real array \<Rightarrow> bool" where
  "symmetric_rates r = (\<forall>(a, b)\<in>set spec_allele_pairs. r (a * 4 + b) = r (b * 4 + a))"

subsection \<open>Transition rates (mutCoeff, computeProbBoundaryMutation)\<close>

definition mutCoeff :: "pomo \<Rightarrow> int \<Rightarrow> int \<Rightarrow> real" where
  "mutCoeff st nt1 nt2 = mutation_rate_matrix st (nt1 * n_alleles + nt2)"

definition computeProbBoundaryMutation :: "pomo \<Rightarrow> int \<Rightarrow> int \<Rightarrow> error + real" where
  "computeProbBoundaryMutation st state1 state2 =
    (if state1 = state2 then Inl AssertFailed
     else
       and_then (decomposeState (N st) state1) (\<lambda>(i1, nt1, nt2).
       and_then (decomposeState (N st) state2) (\<lambda>(i2, nt3, nt4).
         if nt1 = nt3 \<and> (nt2 = nt4 \<or> nt2 = -1 \<or> nt4 = -1) then
           (if i1 = i2 then Inl AssertFailed
            else if i1 + 1 = i2 then
              fdiv (real_of_int (i1 * (N st - i1))) (real_of_int (N st))
            else if i1 - 1 = i2 then
              (if nt2 = -1 then
                 Inr (mutCoeff st nt1 nt4 * freq_boundary_states st nt4)
               else fdiv (real_of_int (i1 * (N st - i1))) (real_of_int (N st)))
            else Inr 0)
         else if nt1 = nt4 \<and> nt2 = -1 \<and> i2 = 1 then
           Inr (mutCoeff st nt1 nt3 * freq_boundary_states st nt3)
         else if nt2 = nt3 \<and> i1 = 1 \<and> nt4 = -1 then
           fdiv (real_of_int (i1 * (N st - i1))) (real_of_int (N st))
         else Inr 0)))"

text \<open>
  The relations between two decomposed states that the specification names: a drift
  step (same allele pair and adjacent counts, or a polymorphic state whose rare allele
  has count 1 losing it), and a mutation step (a boundary state gaining a second allele
  at count 1). They follow the specification's words and examples
  (2A8C to 3A7C, 9A1C to 10A, 1A9G to 10G; 10A to 9A1C, 10G to 1A9G).
\<close>

definition spec_drift_step :: "int \<Rightarrow> int \<times> int \<times> int \<Rightarrow> int \<times> int \<times> int \<Rightarrow> bool" where
  "spec_drift_step n t1 t2 =
    (case t1 of (i1, a1, b1) \<Rightarrow> case t2 of (i2, a2, b2) \<Rightarrow>
       b1 \<noteq> -1
       \<and> ((b2 \<noteq> -1 \<and> a1 = a2 \<and> b1 = b2 \<and> (i2 = i1 + 1 \<or> i2 = i1 - 1))
          \<or> (b2 = -1 \<and> ((a2 = a1 \<and> i1 = n - 1) \<or> (a2 = b1 \<and> i1 = 1)))))"

definition spec_mutation_step :: "int \<Rightarrow> int \<times> int \<times> int \<Rightarrow> int \<times> int \<times> int \<Rightarrow> bool" where
  "spec_mutation_step n t1 t2 =
    (case t1 of (i1, a1, b1) \<Rightarrow> case t2 of (i2, a2, b2) \<Rightarrow>
       b1 = -1 \<and> b2 \<noteq> -1 \<and> ((a2 = a1 \<and> i2 = n - 1) \<or> (b2 = a1 \<and> i2 = 1)))"

definition spec_new_allele :: "int \<times> int \<times> int \<Rightarrow> int \<times> int \<times> int \<Rightarrow> int" where
  \<comment> \<open>the allele of the polymorphic state \<open>t2\<close> that the boundary state \<open>t1\<close> does not have\<close>
  "spec_new_allele t1 t2 =
    (case t1 of (i1, a1, b1) \<Rightarrow> case t2 of (i2, a2, b2) \<Rightarrow> if a2 = a1 then b2 else a2)"

subsection \<open>The rate matrix (updatePoMoStatesAndRateMatrix)\<close>

definition rateMatrix_col :: "pomo \<Rightarrow> int \<Rightarrow> int \<Rightarrow> real array \<times> real \<Rightarrow> error + real array \<times> real" where
  \<comment> \<open>the body of the loop over the columns \<open>j\<close> of row \<open>i\<close>\<close>
  "rateMatrix_col st i j s =
    (case s of (rm, row_sum) \<Rightarrow>
       if i \<noteq> j then
         and_then (computeProbBoundaryMutation st i j)
           (\<lambda>p. Inr (rm(i * num_states st + j := p), row_sum + p))
       else Inr (rm, row_sum))"

definition rateMatrix_row :: "pomo \<Rightarrow> int \<Rightarrow> real array \<times> real \<Rightarrow> error + real array \<times> real" where
  \<comment> \<open>the body of the loop over the rows \<open>i\<close>\<close>
  "rateMatrix_row st i s =
    (case s of (rm, tot_sum) \<Rightarrow>
       and_then (for_each [0..num_states st - 1] (rateMatrix_col st i) (rm, 0))
         (\<lambda>(rm, row_sum).
            let tot_sum = tot_sum + state_freq st i * row_sum
            in Inr (rm(i * num_states st + i := - row_sum), tot_sum)))"

definition rateMatrix_scale :: "pomo \<Rightarrow> real \<Rightarrow> real array \<Rightarrow> error + real array" where
  \<comment> \<open>the second pair of loops: every entry divided by \<open>tot_sum\<close>\<close>
  "rateMatrix_scale st tot_sum =
    for_each [0..num_states st - 1] (\<lambda>i.
      for_each [0..num_states st - 1] (\<lambda>j rm.
        and_then (fdiv (rm (i * num_states st + j)) tot_sum)
          (\<lambda>q. Inr (rm(i * num_states st + j := q)))))"

definition updatePoMoStatesAndRateMatrix :: "pomo \<Rightarrow> error + pomo" where
  "updatePoMoStatesAndRateMatrix st0 =
    and_then (computeStateFreq st0) (\<lambda>st.
    and_then (for_each [0..num_states st - 1] (rateMatrix_row st) (rate_matrix st, 0))
      (\<lambda>(rm, tot_sum).
    and_then (rateMatrix_scale st tot_sum rm)
      (\<lambda>rm. Inr (st\<lparr>rate_matrix := rm\<rparr>))))"

text \<open>
  Names for what the loops accumulate: the rate that computeProbBoundaryMutation returns
  for a pair of states, the sum of a row's off-diagonal rates, and the total rate.
\<close>

definition transition_rate :: "pomo \<Rightarrow> int \<Rightarrow> int \<Rightarrow> real" where
  "transition_rate st i j =
    (case computeProbBoundaryMutation st i j of Inl e \<Rightarrow> 0 | Inr p \<Rightarrow> p)"

definition row_sum_of :: "pomo \<Rightarrow> int \<Rightarrow> real" where
  "row_sum_of st i = (\<Sum>j\<in>{0..num_states st - 1} - {i}. transition_rate st i j)"

definition rate_entry :: "pomo \<Rightarrow> int \<Rightarrow> int \<Rightarrow> real" where
  \<comment> \<open>the entry that the first pair of loops leaves at row \<open>i\<close>, column \<open>j\<close>\<close>
  "rate_entry st i j = (if i = j then - row_sum_of st i else transition_rate st i j)"

definition tot_sum_of :: "pomo \<Rightarrow> real" where
  "tot_sum_of st = (\<Sum>i = 0..num_states st - 1. state_freq st i * row_sum_of st i)"

subsection \<open>Rescaling the mutation rates (normalizeMutationRates)\<close>

definition divide_columns :: "real array \<Rightarrow> real array \<Rightarrow> error + real array" where
  \<comment> \<open>the first pair of loops: \<open>m[i*n+j] /= pi[j]\<close>\<close>
  "divide_columns pi_m =
    for_each [0..n_alleles - 1] (\<lambda>i.
      for_each [0..n_alleles - 1] (\<lambda>j m.
        and_then (fdiv (m (i * n_alleles + j)) (pi_m j))
          (\<lambda>q. Inr (m(i * n_alleles + j := q)))))"

definition symmetric_part :: "real array \<Rightarrow> real array \<Rightarrow> real array" where
  \<comment> \<open>the second pair of loops: \<open>r[i*n+j] = m[i*n+j] + m[j*n+i]; r[i*n+j] /= 2.0\<close>\<close>
  "symmetric_part m =
    fold (\<lambda>i. fold (\<lambda>j r.
        r(i * n_alleles + j := (m (i * n_alleles + j) + m (j * n_alleles + i)) / 2))
      [0..n_alleles - 1]) [0..n_alleles - 1]"

definition antisymmetric_part :: "real array \<Rightarrow> real array \<Rightarrow> real array" where
  \<comment> \<open>the loops run when the model is not reversible\<close>
  "antisymmetric_part m =
    fold (\<lambda>i. fold (\<lambda>j f.
        if i = j then f(i * n_alleles + j := 0)
        else f(i * n_alleles + j := (m (i * n_alleles + j) - m (j * n_alleles + i)) / 2))
      [0..n_alleles - 1]) [0..n_alleles - 1]"

definition scale_rates ::
  "real \<Rightarrow> real array \<times> real array \<times> real array \<Rightarrow> real array \<times> real array \<times> real array" where
  \<comment> \<open>the last pair of loops: \<open>m\<close>, \<open>r\<close> and \<open>f\<close> times \<open>m_norm\<close>\<close>
  "scale_rates m_norm =
    fold (\<lambda>i. fold (\<lambda>j (m, r, f).
        (m(i * n_alleles + j := m (i * n_alleles + j) * m_norm),
         r(i * n_alleles + j := r (i * n_alleles + j) * m_norm),
         f(i * n_alleles + j := f (i * n_alleles + j) * m_norm)))
      [0..n_alleles - 1]) [0..n_alleles - 1]"

definition raw_mutation_rates :: "pomo \<Rightarrow> error + pomo" where
  \<comment> \<open>the first part of normalizeMutationRates: \<open>m\<close>, \<open>r\<close> and \<open>f\<close> from the matrix
      of the underlying model, before any scaling\<close>
  "raw_mutation_rates st0 =
    (let pi_m = mm_state_freq (mutation_model st0);
         m = getQMatrix (mutation_model st0) (mutation_rate_matrix st0)
     in and_then (divide_columns pi_m m) (\<lambda>m.
        let r = symmetric_part m (mutation_rate_matrix_sym st0);
            f = (if \<not> is_reversible st0
                 then antisymmetric_part m (mutation_rate_matrix_asy st0)
                 else mutation_rate_matrix_asy st0)
        in Inr (st0\<lparr>mutation_rate_matrix := m, mutation_rate_matrix_sym := r,
                     mutation_rate_matrix_asy := f\<rparr>)))"

definition normalizeMutationRates :: "pomo \<Rightarrow> error + pomo" where
  "normalizeMutationRates st0 =
    and_then (raw_mutation_rates st0) (\<lambda>st1.
    and_then (computeStateFreq st1) (\<lambda>st2.
      let poly = computeSumFreqPolyStates st2
      in and_then (fdiv poly (harmonic (N st2 - 1))) (\<lambda>theta_bm.
         let correction = 1
         in and_then (fdiv (theta st2)
                        (theta_bm * (correction - harmonic (N st2 - 1) * theta st2)))
              (\<lambda>m_norm.
            case scale_rates m_norm
                   (mutation_rate_matrix st2, mutation_rate_matrix_sym st2,
                    mutation_rate_matrix_asy st2) of
              (m, r, f) \<Rightarrow>
                computeStateFreq
                  (st2\<lparr>mutation_rate_matrix := m, mutation_rate_matrix_sym := r,
                        mutation_rate_matrix_asy := f\<rparr>)))))"

definition rescaled :: "real \<Rightarrow> pomo \<Rightarrow> pomo" where
  \<comment> \<open>the model with the first 16 entries of \<open>m\<close>, \<open>r\<close> and \<open>f\<close> multiplied by \<open>c\<close>:
      what the scaling loops leave\<close>
  "rescaled c st =
    st\<lparr>mutation_rate_matrix :=
         (\<lambda>k. if k div 4 \<in> {0..3} then mutation_rate_matrix st k * c
               else mutation_rate_matrix st k),
       mutation_rate_matrix_sym :=
         (\<lambda>k. if k div 4 \<in> {0..3} then mutation_rate_matrix_sym st k * c
               else mutation_rate_matrix_sym st k),
       mutation_rate_matrix_asy :=
         (\<lambda>k. if k div 4 \<in> {0..3} then mutation_rate_matrix_asy st k * c
               else mutation_rate_matrix_asy st k)\<rparr>"

subsection \<open>Setting up the rates (setInitialMutCoeff)\<close>

text \<open>
  \<open>outWarning\<close> prints and returns, \<open>outError\<close> throws: the function gives the warnings
  it printed together with its result.
\<close>

definition setInitialMutCoeff :: "pomo \<Rightarrow> string list \<times> (error + pomo)" where
  "setInitialMutCoeff st0 =
    (let st = st0\<lparr>mutation_rate_matrix := (\<lambda>k. 0), mutation_rate_matrix_sym := (\<lambda>k. 0),
                   mutation_rate_matrix_asy := (\<lambda>k. 0)\<rparr>;
         lambda_poly_sum_no_mu = computeSumFreqPolyStatesNoMut st
     in if \<not> fixed_theta st \<and> lambda_poly_sum_no_mu \<le> 0 then
          ([''We strongly discourage to use PoMo on data without polymorphisms.''],
           Inl (OutError
             ''Setting the level of polymorphism without population data is not yet supported.''))
        else ([], normalizeMutationRates st))"

subsection \<open>The parameter interface (getNDim, getVariables, setVariables)\<close>

definition getNDim :: "pomo \<Rightarrow> int" where
  "getNDim st =
    (if fixed_theta st then mm_ndim (mutation_model st)
     else mm_ndim (mutation_model st) + 1)"

text \<open>
  \<open>getVariables\<close> returns its flag whatever the rebuild does, so the model gives the flag
  and the outcome of the rebuild side by side. \<open>mm_getVariables\<close> is the underlying
  model's \<open>getVariables\<close>: it reads the vector, updates that model and returns its flag.
\<close>

definition getVariables ::
  "(real array \<Rightarrow> mutation_model \<Rightarrow> bool \<times> mutation_model) \<Rightarrow> real array \<Rightarrow> pomo
   \<Rightarrow> bool \<times> (error + pomo)" where
  "getVariables mm_getVariables variables st0 =
    (case mm_getVariables variables (mutation_model st0) of (changed, mm) \<Rightarrow>
       let st = st0\<lparr>mutation_model := mm\<rparr> in
       case (if \<not> fixed_theta st then
               let ndim = getNDim st
               in (changed \<or> theta st \<noteq> variables (ndim + 1), st\<lparr>theta := variables ndim\<rparr>)
             else (changed, st)) of
         (changed, st) \<Rightarrow>
           (changed, and_then (normalizeMutationRates st) updatePoMoStatesAndRateMatrix))"

text \<open>
  \<open>setVariables\<close> writes into the caller's vector; the model returns the vector.
  \<open>mm_setVariables\<close> is the underlying model's \<open>setVariables\<close>.
\<close>

definition setVariables ::
  "(mutation_model \<Rightarrow> real array \<Rightarrow> real array) \<Rightarrow> real array \<Rightarrow> pomo \<Rightarrow> real array" where
  "setVariables mm_setVariables variables0 st =
    (let variables = mm_setVariables (mutation_model st) variables0
     in if \<not> fixed_theta st then
          let ndim = getNDim st in variables(ndim := theta st)
        else variables)"

subsection \<open>Eigendecomposition dispatch (decomposeRateMatrix, targetFunk)\<close>

text \<open>
  The techniques are the values of an enumeration declared outside this file; \<open>MET_other\<close>
  stands for any value besides the four that the source names. The two eigensystem
  routines are library calls: the model records that they ran, in \<open>trace\<close>.

  The rebuild at the head of decomposeRateMatrix returns nothing and never throws: after
  a division by zero the arrays hold non-finite doubles and the function goes on to the
  dispatch, which reads the flag \<open>is_reversible\<close> and the technique only. So the model
  gives the library calls that this invocation made, whatever the rebuild gave, beside
  the outcome: the error that the dispatch threw, or else what the rebuild left (with the
  calls recorded) when its arithmetic stayed finite, and \<open>NonFinite\<close> when it did not. The
  rebuild does not write \<open>is_reversible\<close>, which is read from the rebuilt state, or from the
  state passed in when the rebuilt arrays are not finite.
\<close>

datatype MatrixExpTechnique =
    MET_SCALING_SQUARING
  | MET_EIGEN3LIB_DECOMPOSITION
  | MET_EIGEN_DECOMPOSITION
  | MET_LIE_MARKOV_DECOMPOSITION
  | MET_other int

definition decomposeRateMatrix ::
  "MatrixExpTechnique \<Rightarrow> pomo \<Rightarrow> call list \<times> (error + pomo)" where
  "decomposeRateMatrix matrix_exp_technique st0 =
    (let rebuilt = updatePoMoStatesAndRateMatrix st0;
         reversible = (case rebuilt of Inr st \<Rightarrow> is_reversible st
                                     | Inl e \<Rightarrow> is_reversible st0)
     in if \<not> reversible then
          (if matrix_exp_technique = MET_EIGEN_DECOMPOSITION then
             ([Eigensystem_nonrev],
              and_then rebuilt (\<lambda>st. Inr (st\<lparr>trace := trace st @ [Eigensystem_nonrev]\<rparr>)))
           else if matrix_exp_technique = MET_SCALING_SQUARING then ([], rebuilt)
           else if matrix_exp_technique = MET_EIGEN3LIB_DECOMPOSITION then
             ([], Inl (OutError ''MET_EIGEN3LIB_DECOMPOSITION does not work with PoMo.''))
           else if matrix_exp_technique = MET_LIE_MARKOV_DECOMPOSITION then
             ([], Inl (OutError ''Matrix decomposition in closed form not available for PoMo.''))
           else ([], Inl (OutError ''Matrix decomposition method unknown.'')))
        else
          ([Eigensystem_sym],
           and_then rebuilt (\<lambda>st. Inr (st\<lparr>trace := trace st @ [Eigensystem_sym]\<rparr>))))"

definition targetFunk ::
  "(real array \<Rightarrow> mutation_model \<Rightarrow> bool \<times> mutation_model) \<Rightarrow> MatrixExpTechnique
   \<Rightarrow> (pomo \<Rightarrow> real) \<Rightarrow> real array \<Rightarrow> pomo \<Rightarrow> error + real \<times> pomo" where
  \<comment> \<open>\<open>computeLikelihood\<close> is the tree's likelihood of the rebuilt model\<close>
  "targetFunk mm_getVariables matrix_exp_technique computeLikelihood x st0 =
    and_then (snd (getVariables mm_getVariables x st0)) (\<lambda>st.
    and_then (snd (decomposeRateMatrix matrix_exp_technique st)) (\<lambda>st.
      Inr (- computeLikelihood st, st)))"

subsection \<open>Watterson's estimator (estimateEmpiricalWattersonTheta)\<close>

text \<open>
  The alignment is defined outside this file. The model holds what this function reads
  from it: the array that \<open>computeAbsoluteStateFreq\<close> fills (\<open>unsigned int\<close>), the
  patterns (each a vector of state codes with an \<open>int\<close> frequency), the table
  \<open>pomo_states\<close> of packed allele counts and the code \<open>STATE_UNKNOWN\<close>.
\<close>

datatype SamplingType = SAMPLING_WEIGHTED | SAMPLING_SAMPLED

record pattern =
  frequency :: "32 word"
  entries :: "32 word list"

record alignment =
  abs_state_freq :: "32 word array"
  patterns :: "pattern list"
  pomo_states :: "32 word list"
  STATE_UNKNOWN :: "32 word"

definition watterson_entry ::
  "pomo \<Rightarrow> alignment \<Rightarrow> 32 word \<Rightarrow> 32 word \<Rightarrow> 32 word \<times> 32 word \<times> real
   \<Rightarrow> error + 32 word \<times> 32 word \<times> real" where
  \<comment> \<open>the body of the loop over the entries of one pattern, of frequency \<open>freq\<close>\<close>
  "watterson_entry st aln freq code s =
    (case s of (sum_fix, sum_pol, sum_theta_w) \<Rightarrow>
       let state = sint code in
       if state < num_states st then Inl (OutError ''Unknown PoMo state in pattern.'')
       else if code = STATE_UNKNOWN aln then Inr (sum_fix, sum_pol, sum_theta_w)
       else
         let state = state - num_states st in
         if \<not> (state < int (length (pomo_states aln))) then Inl AssertFailed
         else
           let j1 = uint (drop_bit 2 (pomo_states aln ! nat state) AND 16383);
               j2 = uint (drop_bit 18 (pomo_states aln ! nat state))
           in if j2 = 0 then Inr (sum_fix + freq, sum_pol, sum_theta_w)
              else and_then (fdiv (real_of_int (sint freq)) (harmonic (j1 + j2 - 1)))
                     (\<lambda>q. Inr (sum_fix, sum_pol + freq, sum_theta_w + q)))"

definition estimateEmpiricalWattersonTheta ::
  "SamplingType \<Rightarrow> alignment \<Rightarrow> pomo \<Rightarrow> error + real" where
  "estimateEmpiricalWattersonTheta sampling_method aln st =
    (if sampling_method = SAMPLING_SAMPLED then
       let sum_fix = fold (\<lambda>i sum_fix. sum_fix + abs_state_freq aln i) [0..n_alleles - 1] 0;
           sum_pol = fold (\<lambda>i sum_pol. sum_pol + abs_state_freq aln i)
                       [n_alleles..num_states st - 1] 0
       in fdiv (real_of_int (sint sum_pol)) (real_of_int (sint (sum_fix + sum_pol)))
     else
       and_then
         (for_each (patterns aln)
            (\<lambda>it. for_each (entries it) (watterson_entry st aln (frequency it)))
            (0, 0, 0))
         (\<lambda>(sum_fix, sum_pol, sum_theta_w).
            fdiv sum_theta_w (real_of_int (sint (sum_fix + sum_pol)))))"








subsection \<open>A small instance\<close>

text \<open>
  An instance to run the functions on: population size 3 (16 states), equal boundary
  frequencies, every mutation rate equal to 1, theta to be estimated and set to 1/10.
\<close>

definition example_mm :: mutation_model where
  "example_mm =
    \<lparr>mm_state_freq = (\<lambda>k. 1 / 4),
     mm_Q = (\<lambda>k. if k mod 5 = 0 then - 3 / 4 else 1 / 4),
     mm_is_reversible = True, mm_ndim = 0\<rparr>"

definition example_pomo :: pomo where
  "example_pomo =
    \<lparr>N = 3, mutation_model = example_mm, is_reversible = True, fixed_theta = False,
     theta = 1 / 10,
     mutation_rate_matrix = (\<lambda>k. if k mod 5 = 0 then - 3 else 1),
     mutation_rate_matrix_sym = (\<lambda>k. if k mod 5 = 0 then - 3 else 1),
     mutation_rate_matrix_asy = (\<lambda>k. 0), state_freq = (\<lambda>k. 0), rate_matrix = (\<lambda>k. 0),
     trace = []\<rparr>"

text \<open>
  For the parameter interface: an underlying model without free parameters, whose
  \<open>getVariables\<close> reads nothing and reports no change and whose \<open>setVariables\<close> writes
  nothing; and a parameter vector with 1/5 at index 1 and 1/10 elsewhere.
\<close>

definition example_mm_getVariables :: "real array \<Rightarrow> mutation_model \<Rightarrow> bool \<times> mutation_model" where
  "example_mm_getVariables variables mm = (False, mm)"

definition example_mm_setVariables :: "mutation_model \<Rightarrow> real array \<Rightarrow> real array" where
  "example_mm_setVariables mm variables = variables"

definition example_variables :: "real array" where
  "example_variables = (\<lambda>k. if k = 1 then 1 / 5 else 1 / 10)"

text \<open>
  An instance whose mutation rates are all zero, as normalizeMutationRates leaves them
  when theta is 0: population size 2, equal boundary frequencies.
\<close>

definition zero_rates_pomo :: pomo where
  "zero_rates_pomo =
    \<lparr>N = 2, mutation_model = example_mm, is_reversible = True, fixed_theta = True,
     theta = 0, mutation_rate_matrix = (\<lambda>k. 0), mutation_rate_matrix_sym = (\<lambda>k. 0),
     mutation_rate_matrix_asy = (\<lambda>k. 0), state_freq = (\<lambda>k. 0), rate_matrix = (\<lambda>k. 0),
     trace = []\<rparr>"

text \<open>
  Data without a polymorphic observation, as the sampled mode counts it: eight
  observations of the first two boundary states, none of any other state.
\<close>

definition fixed_sites_alignment :: alignment where
  "fixed_sites_alignment =
    \<lparr>abs_state_freq = (\<lambda>i. if i = 0 then 5 else if i = 1 then 3 else 0),
     patterns = [], pomo_states = [], STATE_UNKNOWN = - 1\<rparr>"


section \<open>Loops and sums\<close>

lemma and_then_Inr [simp]: "and_then (Inr x) f = f x"
  by (simp add: and_then_def)

lemma and_then_Inl [simp]: "and_then (Inl e) f = Inl e"
  by (simp add: and_then_def)

lemma fdiv_Inr: "y \<noteq> 0 \<Longrightarrow> fdiv x y = Inr (x / y)"
  by (simp add: fdiv_def)

lemma for_each_Inr:
  assumes "\<And>x s. x \<in> set xs \<Longrightarrow> body x s = Inr (g x s)"
  shows "for_each xs body s = Inr (fold g xs s)"
  using assms by (induction xs arbitrary: s) simp_all

lemma fold_plus_sum_list:
  fixes a :: "'b::comm_monoid_add"
  shows "fold (\<lambda>x acc. acc + f x) xs a = a + sum_list (map f xs)"
  by (induction xs arbitrary: a) (simp_all add: add.assoc)

lemma sum_list_upto: "sum_list (map f [i..j]) = sum f {i..j}"
  by (simp add: sum_list_distinct_conv_sum_set)

lemma fold_upto_sum:
  fixes a :: "'b::comm_monoid_add"
  shows "fold (\<lambda>x acc. acc + f x) [i..j] a = a + sum f {i..j}"
  by (simp add: fold_plus_sum_list sum_list_upto)

lemma fold_point_update:
  "fold (\<lambda>x a. a(x := v x)) xs a = (\<lambda>k. if k \<in> set xs then v k else a k)"
  by (induction xs arbitrary: a) auto

lemma upto_0_3: "[0..3] = [0, 1, 2, 3::int]"
  by (simp add: upto.simps)

lemma harmonic_sum: "harmonic n = (\<Sum>i = 1..n. 1 / real_of_int i)"
  by (simp add: harmonic_def fold_upto_sum)

lemma computeSumFreqBoundaryStates_eq:
  "computeSumFreqBoundaryStates st
   = freq_boundary_states st 0 + freq_boundary_states st 1
     + freq_boundary_states st 2 + freq_boundary_states st 3"
  by (simp add: computeSumFreqBoundaryStates_def upto_0_3)

lemma computeSumFreqPolyStates_eq:
  "computeSumFreqPolyStates st
   = (2 * freq_boundary_states st 1 * freq_boundary_states st 0 * mutation_rate_matrix_sym st 4
    + 2 * freq_boundary_states st 2 * freq_boundary_states st 0 * mutation_rate_matrix_sym st 8
    + 2 * freq_boundary_states st 2 * freq_boundary_states st 1 * mutation_rate_matrix_sym st 9
    + 2 * freq_boundary_states st 3 * freq_boundary_states st 0 * mutation_rate_matrix_sym st 12
    + 2 * freq_boundary_states st 3 * freq_boundary_states st 1 * mutation_rate_matrix_sym st 13
    + 2 * freq_boundary_states st 3 * freq_boundary_states st 2 * mutation_rate_matrix_sym st 14)
     * harmonic (N st - 1)"
  by (simp add: computeSumFreqPolyStates_def n_alleles_def upto_0_3 upto.simps)

lemma computeSumFreqPolyStatesNoMut_eq:
  "computeSumFreqPolyStatesNoMut st
   = (2 * freq_boundary_states st 1 * freq_boundary_states st 0
    + 2 * freq_boundary_states st 2 * freq_boundary_states st 0
    + 2 * freq_boundary_states st 2 * freq_boundary_states st 1
    + 2 * freq_boundary_states st 3 * freq_boundary_states st 0
    + 2 * freq_boundary_states st 3 * freq_boundary_states st 1
    + 2 * freq_boundary_states st 3 * freq_boundary_states st 2)
     * harmonic (N st - 1)"
  by (simp add: computeSumFreqPolyStatesNoMut_def upto_0_3 upto.simps)

section \<open>State codec: decomposition and composition\<close>

lemma num_states_of_eq: "num_states_of n = 4 + 6 * (n - 1)"
  by (simp add: num_states_of_def n_alleles_def)

lemma decomposeState_boundary:
  "state < 4 \<Longrightarrow> decomposeState n state = Inr (n, state, -1)"
  by (simp add: decomposeState_def)

lemma decomposeState_valid:
  assumes "1 \<le> n" "0 \<le> s" "s < num_states_of n"
  shows "\<exists>t. decomposeState n s = Inr t \<and> spec_valid_triple n t \<and> spec_compose n t = s"
  using assms
  by (auto simp add: num_states_of_eq decomposeState_def spec_valid_triple_def
      spec_compose_def spec_pair_index_def spec_allele_pairs_def)

lemma decomposeState_compose:
  assumes "1 \<le> n" "spec_valid_triple n t"
  shows "0 \<le> spec_compose n t \<and> spec_compose n t < num_states_of n
         \<and> decomposeState n (spec_compose n t) = Inr t"
proof -
  obtain i a b where t: "t = (i, a, b)" by (cases t)
  from assms(2) consider
      (bnd) "i = n" "0 \<le> a" "a < 4" "b = -1"
    | (pol) "1 \<le> i" "i \<le> n - 1" "(a, b) \<in> set spec_allele_pairs"
    by (auto simp add: t spec_valid_triple_def)
  then show ?thesis
  proof cases
    case bnd
    with assms(1) show ?thesis
      by (simp add: t spec_compose_def decomposeState_def num_states_of_eq)
  next
    case pol
    from pol(3) have "(a, b) = (0, 1) \<or> (a, b) = (0, 2) \<or> (a, b) = (0, 3)
        \<or> (a, b) = (1, 2) \<or> (a, b) = (1, 3) \<or> (a, b) = (2, 3)"
      by (simp add: spec_allele_pairs_def)
    with pol(1,2) show ?thesis
      by (elim disjE)
        (simp_all add: t spec_compose_def spec_pair_index_def decomposeState_def
          num_states_of_eq)
  qed
qed

lemma decomposeState_exceeds:
  assumes "1 \<le> n" "num_states_of n - 1 < s"
  shows "decomposeState n s = Inl (OutError ''State exceeds limit'')"
  using assms by (simp add: decomposeState_def num_states_of_eq)

text \<open>
  C5. For a population size \<open>N \<ge> 1\<close>, decomposition and composition are mutually
  inverse between the state ids \<open>0 \<le> s < 4 + 6 (N - 1)\<close> and the valid triples:
  a state below 4 decomposes to \<open>(N, s, -1)\<close>; every valid id decomposes to a valid
  triple (count in \<open>[1, N - 1]\<close>, pair among AC, AG, AT, CG, CT, GT) whose composed id
  is the input, and that triple is the only valid one composing to it; every valid
  triple composes to a valid id that decomposes back to it; and every id above
  \<open>4 + 6 (N - 1) - 1\<close> fails with the out-of-range error.
\<close>

theorem C5_codec_bijection:
  assumes "1 \<le> n"
  shows "(0 \<le> s \<and> s < num_states_of n \<longrightarrow>
            (\<exists>t. decomposeState n s = Inr t \<and> spec_valid_triple n t
                 \<and> spec_compose n t = s
                 \<and> (s < 4 \<longrightarrow> t = (n, s, -1))
                 \<and> (\<forall>u. spec_valid_triple n u \<and> spec_compose n u = s \<longrightarrow> u = t)))
       \<and> (spec_valid_triple n t' \<longrightarrow>
            0 \<le> spec_compose n t' \<and> spec_compose n t' < num_states_of n
            \<and> decomposeState n (spec_compose n t') = Inr t')
       \<and> num_states_of n = 4 + 6 * (n - 1)
       \<and> (num_states_of n - 1 < s' \<longrightarrow>
            decomposeState n s' = Inl (OutError ''State exceeds limit''))"
proof (intro conjI impI)
  assume s: "0 \<le> s \<and> s < num_states_of n"
  with assms obtain t where t: "decomposeState n s = Inr t" "spec_valid_triple n t"
      "spec_compose n t = s"
    using decomposeState_valid by blast
  have bnd: "s < 4 \<longrightarrow> t = (n, s, -1)"
    using t(1) by (auto simp add: decomposeState_boundary)
  have uniq: "\<forall>u. spec_valid_triple n u \<and> spec_compose n u = s \<longrightarrow> u = t"
  proof (intro allI impI)
    fix u assume u: "spec_valid_triple n u \<and> spec_compose n u = s"
    with assms have "decomposeState n s = Inr u"
      using decomposeState_compose by blast
    with t(1) show "u = t" by simp
  qed
  from t bnd uniq
  show "\<exists>t. decomposeState n s = Inr t \<and> spec_valid_triple n t \<and> spec_compose n t = s
      \<and> (s < 4 \<longrightarrow> t = (n, s, -1))
      \<and> (\<forall>u. spec_valid_triple n u \<and> spec_compose n u = s \<longrightarrow> u = t)"
    by blast
next
  assume "spec_valid_triple n t'"
  with assms show "0 \<le> spec_compose n t'" "spec_compose n t' < num_states_of n"
      "decomposeState n (spec_compose n t') = Inr t'"
    using decomposeState_compose by blast+
next
  show "num_states_of n = 4 + 6 * (n - 1)" by (rule num_states_of_eq)
next
  assume "num_states_of n - 1 < s'"
  with assms show "decomposeState n s' = Inl (OutError ''State exceeds limit'')"
    by (rule decomposeState_exceeds)
qed

theorem C5_codec_bijection_witness:
  "decomposeState 3 7 = Inr (2, 0, 2) \<and> spec_compose 3 (2, 0, 2) = 7
   \<and> decomposeState 3 (spec_compose 3 (1, 1, 3)) = Inr (1, 1, 3)
   \<and> num_states_of 3 = 16
   \<and> decomposeState 3 16 = Inl (OutError ''State exceeds limit'')"
  using C5_codec_bijection [of 3 7 "(1, 1, 3)" 16]
  by (simp add: decomposeState_def spec_compose_def spec_pair_index_def
      spec_valid_triple_def spec_allele_pairs_def num_states_of_eq)

section \<open>Transition rates\<close>

lemma spec_pair_facts:
  "(a, b) \<in> set spec_allele_pairs \<Longrightarrow> 0 \<le> a \<and> a < b \<and> b < 4"
  by (auto simp add: spec_allele_pairs_def)

lemma valid_triple_cases:
  assumes "spec_valid_triple n (i, a, b)"
  shows "(i = n \<and> 0 \<le> a \<and> a < 4 \<and> b = -1)
       \<or> (1 \<le> i \<and> i \<le> n - 1 \<and> 0 \<le> a \<and> a < b \<and> b < 4)"
  using assms spec_pair_facts [of a b] by (auto simp add: spec_valid_triple_def)

lemma computeProbBoundaryMutation_decomposed:
  assumes "s1 \<noteq> s2" "decomposeState (N st) s1 = Inr (i1, a1, b1)"
     "decomposeState (N st) s2 = Inr (i2, a2, b2)" "N st \<noteq> 0"
  shows "computeProbBoundaryMutation st s1 s2 =
     (if a1 = a2 \<and> (b1 = b2 \<or> b1 = -1 \<or> b2 = -1) then
           (if i1 = i2 then Inl AssertFailed
            else if i1 + 1 = i2 then
              Inr (real_of_int (i1 * (N st - i1)) / real_of_int (N st))
            else if i1 - 1 = i2 then
              (if b1 = -1 then
                 Inr (mutCoeff st a1 b2 * freq_boundary_states st b2)
               else Inr (real_of_int (i1 * (N st - i1)) / real_of_int (N st)))
            else Inr 0)
         else if a1 = b2 \<and> b1 = -1 \<and> i2 = 1 then
           Inr (mutCoeff st a1 a2 * freq_boundary_states st a2)
         else if b1 = a2 \<and> i1 = 1 \<and> b2 = -1 then
           Inr (real_of_int (i1 * (N st - i1)) / real_of_int (N st))
         else Inr 0)"
proof -
  have nz: "real_of_int (N st) \<noteq> 0" using assms(4) by simp
  show ?thesis
    unfolding computeProbBoundaryMutation_def assms(2,3) and_then_Inr prod.case
      fdiv_Inr [OF nz]
    using assms(1) by (simp only: if_False)
qed

text \<open>
  C2. For a population size \<open>N \<ge> 2\<close> and two distinct valid states, decomposed into
  \<open>t1\<close> and \<open>t2\<close>: if both are polymorphic states of the same allele pair with counts
  that differ by one, or the first is a polymorphic state whose rare allele has count 1
  and the second is the boundary state of its other allele, the rate is
  \<open>count1 (N - count1) / N\<close>; if the first is a boundary state and the second a
  polymorphic state that holds the first's allele and one copy of another allele, the
  rate is \<open>mutCoeff(from, to) * freq_boundary_states(to)\<close>; for every other pair the
  rate is 0.
\<close>

theorem C2_transition_rates:
  assumes n: "2 \<le> N st"
    and s: "0 \<le> s1" "s1 < num_states st" "0 \<le> s2" "s2 < num_states st" "s1 \<noteq> s2"
    and d: "decomposeState (N st) s1 = Inr t1" "decomposeState (N st) s2 = Inr t2"
  shows "(spec_drift_step (N st) t1 t2 \<longrightarrow>
            computeProbBoundaryMutation st s1 s2
            = Inr (real_of_int (fst t1 * (N st - fst t1)) / real_of_int (N st)))
       \<and> (spec_mutation_step (N st) t1 t2 \<longrightarrow>
            computeProbBoundaryMutation st s1 s2
            = Inr (mutCoeff st (fst (snd t1)) (spec_new_allele t1 t2)
                   * freq_boundary_states st (spec_new_allele t1 t2)))
       \<and> (\<not> spec_drift_step (N st) t1 t2 \<and> \<not> spec_mutation_step (N st) t1 t2 \<longrightarrow>
            computeProbBoundaryMutation st s1 s2 = Inr 0)"
proof -
  from n have n1: "1 \<le> N st" and n0: "N st \<noteq> 0" by simp_all
  obtain i1 a1 b1 where t1: "t1 = (i1, a1, b1)" by (cases t1)
  obtain i2 a2 b2 where t2: "t2 = (i2, a2, b2)" by (cases t2)
  from decomposeState_valid [OF n1 s(1)] s(2) d(1)
  have v1: "spec_valid_triple (N st) t1" "spec_compose (N st) t1 = s1"
    by (auto simp add: num_states_def)
  from decomposeState_valid [OF n1 s(3)] s(4) d(2)
  have v2: "spec_valid_triple (N st) t2" "spec_compose (N st) t2 = s2"
    by (auto simp add: num_states_def)
  from v1(2) v2(2) s(5) have ne: "i1 = i2 \<and> a1 = a2 \<and> b1 = b2 \<Longrightarrow> False"
    by (auto simp add: t1 t2)
  note cp = computeProbBoundaryMutation_decomposed
    [OF s(5) d(1) [unfolded t1] d(2) [unfolded t2] n0]
  have thesis_eq: "?thesis \<longleftrightarrow>
      (spec_drift_step (N st) (i1, a1, b1) (i2, a2, b2) \<longrightarrow>
         computeProbBoundaryMutation st s1 s2
         = Inr (real_of_int (i1 * (N st - i1)) / real_of_int (N st)))
    \<and> (spec_mutation_step (N st) (i1, a1, b1) (i2, a2, b2) \<longrightarrow>
         computeProbBoundaryMutation st s1 s2
         = Inr (mutCoeff st a1 (if a2 = a1 then b2 else a2)
                * freq_boundary_states st (if a2 = a1 then b2 else a2)))
    \<and> (\<not> spec_drift_step (N st) (i1, a1, b1) (i2, a2, b2)
        \<and> \<not> spec_mutation_step (N st) (i1, a1, b1) (i2, a2, b2) \<longrightarrow>
         computeProbBoundaryMutation st s1 s2 = Inr 0)"
    by (simp add: t1 t2 spec_new_allele_def)
  consider (bb) "i1 = N st" "0 \<le> a1" "a1 < 4" "b1 = -1" "i2 = N st" "0 \<le> a2" "a2 < 4" "b2 = -1"
    | (bp) "i1 = N st" "0 \<le> a1" "a1 < 4" "b1 = -1"
           "1 \<le> i2" "i2 \<le> N st - 1" "0 \<le> a2" "a2 < b2" "b2 < 4"
    | (pb) "1 \<le> i1" "i1 \<le> N st - 1" "0 \<le> a1" "a1 < b1" "b1 < 4"
           "i2 = N st" "0 \<le> a2" "a2 < 4" "b2 = -1"
    | (pp) "1 \<le> i1" "i1 \<le> N st - 1" "0 \<le> a1" "a1 < b1" "b1 < 4"
           "1 \<le> i2" "i2 \<le> N st - 1" "0 \<le> a2" "a2 < b2" "b2 < 4"
    using valid_triple_cases [OF v1(1) [unfolded t1]] valid_triple_cases [OF v2(1) [unfolded t2]]
    by blast
  then have main:
     "(spec_drift_step (N st) (i1, a1, b1) (i2, a2, b2) \<longrightarrow>
         computeProbBoundaryMutation st s1 s2
         = Inr (real_of_int (i1 * (N st - i1)) / real_of_int (N st)))
    \<and> (spec_mutation_step (N st) (i1, a1, b1) (i2, a2, b2) \<longrightarrow>
         computeProbBoundaryMutation st s1 s2
         = Inr (mutCoeff st a1 (if a2 = a1 then b2 else a2)
                * freq_boundary_states st (if a2 = a1 then b2 else a2)))
    \<and> (\<not> spec_drift_step (N st) (i1, a1, b1) (i2, a2, b2)
        \<and> \<not> spec_mutation_step (N st) (i1, a1, b1) (i2, a2, b2) \<longrightarrow>
         computeProbBoundaryMutation st s1 s2 = Inr 0)"
  proof cases
    case bb
    with ne have "a1 \<noteq> a2" by blast
    with bb show ?thesis
      unfolding cp by (simp add: spec_drift_step_def spec_mutation_step_def)
  next
    case bp
    show ?thesis
    proof (cases "a1 = a2")
      case True
      with bp n show ?thesis
        unfolding cp by (simp add: spec_drift_step_def spec_mutation_step_def)
    next
      case False
      with bp n show ?thesis
        unfolding cp by (simp add: spec_drift_step_def spec_mutation_step_def)
    qed
  next
    case pb
    show ?thesis
    proof (cases "a1 = a2")
      case True
      with pb n show ?thesis
        unfolding cp by (simp add: spec_drift_step_def spec_mutation_step_def)
    next
      case False
      with pb n show ?thesis
        unfolding cp by (simp add: spec_drift_step_def spec_mutation_step_def)
    qed
  next
    case pp
    show ?thesis
    proof (cases "a1 = a2 \<and> b1 = b2")
      case True
      with ne have "i1 \<noteq> i2" by blast
      with True pp show ?thesis
        unfolding cp by (simp add: spec_drift_step_def spec_mutation_step_def)
    next
      case False
      with pp show ?thesis
        unfolding cp by (simp add: spec_drift_step_def spec_mutation_step_def)
    qed
  qed
  with thesis_eq show ?thesis by (rule iffD2)
qed

theorem C2_transition_rates_witness:
  "2 \<le> N example_pomo \<and> (5::int) < num_states example_pomo
   \<and> decomposeState (N example_pomo) 5 = Inr (2, 0, 1)
   \<and> decomposeState (N example_pomo) 4 = Inr (1, 0, 1)
   \<and> spec_drift_step (N example_pomo) (2, 0, 1) (1, 0, 1)
   \<and> computeProbBoundaryMutation example_pomo 5 4 = Inr (2 / 3)"
  using C2_transition_rates [of example_pomo 5 4 "(2, 0, 1)" "(1, 0, 1)"]
  by (simp add: example_pomo_def num_states_def num_states_of_eq decomposeState_def
      spec_drift_step_def)

section \<open>Stationary frequencies\<close>

lemma harmonic_reflect:
  "(\<Sum>i = 1..n - 1. 1 / real_of_int (n - i)) = (\<Sum>i = 1..n - 1. 1 / real_of_int i)"
  by (rule sum.reindex_bij_witness [of _ "\<lambda>i. n - i" "\<lambda>i. n - i"]) auto

lemma sum_linear2:
  fixes A B :: "int \<Rightarrow> real"
  shows "(\<Sum>i\<in>S. c * (r * A i + - f * B i)) = c * (r * sum A S + - f * sum B S)"
proof -
  have "(\<Sum>i\<in>S. c * (r * A i + - f * B i)) = c * (\<Sum>i\<in>S. r * A i + - f * B i)"
    by (rule sum_distrib_left [symmetric])
  also have "\<dots> = c * ((\<Sum>i\<in>S. r * A i) + (\<Sum>i\<in>S. - f * B i))"
    by (simp only: sum.distrib)
  also have "\<dots> = c * (r * sum A S + - f * sum B S)"
    by (simp only: sum_distrib_left)
  finally show ?thesis .
qed

lemma band_sum:
  "(\<Sum>i = 1..n - 1. c * (r * (1 / real_of_int i + 1 / real_of_int (n - i))
                          + - f * (1 / real_of_int i - 1 / real_of_int (n - i))))
   = c * r * 2 * (\<Sum>i = 1..n - 1. 1 / real_of_int i)"
proof -
  have A: "(\<Sum>i = 1..n - 1. 1 / real_of_int i + 1 / real_of_int (n - i))
      = 2 * (\<Sum>i = 1..n - 1. 1 / real_of_int i)"
    by (simp only: sum.distrib harmonic_reflect)
  have B: "(\<Sum>i = 1..n - 1. 1 / real_of_int i - 1 / real_of_int (n - i)) = 0"
    by (simp only: sum_subtractf harmonic_reflect diff_self)
  show ?thesis
    unfolding sum_linear2 [of c r "\<lambda>i. 1 / real_of_int i + 1 / real_of_int (n - i)" f
        "\<lambda>i. 1 / real_of_int i - 1 / real_of_int (n - i)"] A B
    by simp
qed

lemma sum_shift_int:
  fixes g :: "int \<Rightarrow> real"
  shows "(\<Sum>s = c + a..c + b. g (s - c)) = (\<Sum>i = a..b. g i)"
  by (rule sum.reindex_bij_witness [of _ "\<lambda>i. i + c" "\<lambda>s. s - c"]) auto

lemma sum_split_int:
  fixes g :: "int \<Rightarrow> real"
  assumes "a \<le> b + 1" "b \<le> c"
  shows "sum g {a..c} = sum g {a..b} + sum g {b + 1..c}"
proof -
  have "{a..c} = {a..b} \<union> {b + 1..c}" using assms by auto
  moreover have "{a..b} \<inter> {b + 1..c} = {}" by auto
  ultimately show ?thesis by (simp add: sum.union_disjoint)
qed


lemma decomposeState_poly:
  assumes "1 \<le> n" "4 \<le> s" "s < num_states_of n"
  shows "\<exists>i a b. decomposeState n s = Inr (i, a, b) \<and> 1 \<le> i \<and> i \<le> n - 1"
  using assms by (auto simp add: decomposeState_def num_states_of_eq)

lemma stateFreq_step_Inr:
  assumes "1 \<le> N st" "0 \<le> s" "s < num_states st"
  shows "stateFreq_step st nrm s sf = Inr (sf(s := stateFreq_value st nrm s))"
proof (cases "s < 4")
  case True
  then show ?thesis
    by (simp add: stateFreq_step_def stateFreq_value_def isBoundary_def)
next
  case False
  with assms obtain i a b where d: "decomposeState (N st) s = Inr (i, a, b)"
      and i: "1 \<le> i" "i \<le> N st - 1"
    using decomposeState_poly [of "N st" s] by (auto simp add: num_states_def)
  from i have nz: "real_of_int i \<noteq> 0" "real_of_int (N st - i) \<noteq> 0" by simp_all
  from False show ?thesis
    by (simp add: stateFreq_step_def stateFreq_value_def isBoundary_def d
        fdiv_Inr [OF nz(1)] fdiv_Inr [OF nz(2)] Let_def del: of_int_diff)
qed

lemma computeStateFreq_Inr:
  assumes "1 \<le> N st"
    and "computeSumFreqBoundaryStates st + computeSumFreqPolyStates st \<noteq> 0"
  shows "computeStateFreq st =
     Inr (st\<lparr>state_freq := (\<lambda>k. if k \<in> {0..num_states st - 1}
        then stateFreq_value st
               (1 / (computeSumFreqBoundaryStates st + computeSumFreqPolyStates st)) k
        else state_freq st k)\<rparr>)"
proof -
  let ?nrm = "1 / (computeSumFreqBoundaryStates st + computeSumFreqPolyStates st)"
  have nc: "computeNormConst st = Inr ?nrm"
    using assms(2) by (simp add: computeNormConst_def fdiv_Inr)
  have loop: "for_each [0..num_states st - 1] (stateFreq_step st ?nrm) (state_freq st)
      = Inr (fold (\<lambda>s sf. sf(s := stateFreq_value st ?nrm s)) [0..num_states st - 1]
               (state_freq st))"
    by (rule for_each_Inr) (simp add: stateFreq_step_Inr [OF assms(1)])
  show ?thesis
    by (simp add: computeStateFreq_def nc loop fold_point_update)
qed


lemma band_total:
  assumes "\<And>s. c + 1 \<le> s \<Longrightarrow> s \<le> c + (N st - 1)
             \<Longrightarrow> 4 \<le> s \<and> decomposeState (N st) s = Inr (s - c, a, b)"
  shows "(\<Sum>s = c + 1..c + (N st - 1). stateFreq_value st nrm s)
       = nrm * freq_boundary_states st a * freq_boundary_states st b
         * mutation_rate_matrix_sym st (a * 4 + b) * 2 * spec_H (N st - 1)"
proof -
  let ?G = "\<lambda>i. nrm * freq_boundary_states st a * freq_boundary_states st b
         * (mutation_rate_matrix_sym st (a * 4 + b)
              * (1 / real_of_int i + 1 / real_of_int (N st - i))
            + - mutation_rate_matrix_asy st (a * 4 + b)
              * (1 / real_of_int i - 1 / real_of_int (N st - i)))"
  have "(\<Sum>s = c + 1..c + (N st - 1). stateFreq_value st nrm s)
      = (\<Sum>s = c + 1..c + (N st - 1). ?G (s - c))"
  proof (rule sum.cong [OF refl])
    fix s assume "s \<in> {c + 1..c + (N st - 1)}"
    then have "4 \<le> s \<and> decomposeState (N st) s = Inr (s - c, a, b)"
      using assms by simp
    then show "stateFreq_value st nrm s = ?G (s - c)"
      by (simp add: stateFreq_value_def isBoundary_def n_alleles_def del: of_int_diff)
  qed
  also have "\<dots> = (\<Sum>i = 1..N st - 1. ?G i)"
    by (rule sum_shift_int)
  also have "\<dots> = nrm * freq_boundary_states st a * freq_boundary_states st b
         * mutation_rate_matrix_sym st (a * 4 + b) * 2 * spec_H (N st - 1)"
    unfolding spec_H_def by (rule band_sum)
  finally show ?thesis .
qed


lemma sum_0_3: "sum g {0..3::int} = g 0 + g 1 + g 2 + (g 3 :: real)"
  by (simp only: sum_list_upto [symmetric] upto_0_3) simp

lemma stateFreq_value_total:
  assumes n: "1 \<le> N st"
  shows "(\<Sum>s = 0..num_states st - 1. stateFreq_value st nrm s)
       = nrm * ((\<Sum>a = 0..3. freq_boundary_states st a)
               + (\<Sum>(a, b)\<leftarrow>spec_allele_pairs.
                    2 * freq_boundary_states st a * freq_boundary_states st b
                    * mutation_rate_matrix_sym st (a * 4 + b) * spec_H (N st - 1)))"
proof -
  define M where "M = N st - 1"
  have M: "0 \<le> M" and NM: "N st = M + 1" using n by (simp_all add: M_def)
  let ?V = "stateFreq_value st nrm"
  have ns: "num_states st - 1 = 3 + 6 * M"
    by (simp add: num_states_def num_states_of_eq M_def)
  have b0: "sum ?V {3 + 1..3 + (N st - 1)}
      = nrm * freq_boundary_states st 0 * freq_boundary_states st 1
         * mutation_rate_matrix_sym st (0 * 4 + 1) * 2 * spec_H (N st - 1)"
    by (rule band_total) (simp add: decomposeState_def)
  have b1: "sum ?V {(3 + M) + 1..(3 + M) + (N st - 1)}
      = nrm * freq_boundary_states st 0 * freq_boundary_states st 2
         * mutation_rate_matrix_sym st (0 * 4 + 2) * 2 * spec_H (N st - 1)"
    by (rule band_total) (use M in \<open>simp add: decomposeState_def NM\<close>)
  have b2: "sum ?V {(3 + 2 * M) + 1..(3 + 2 * M) + (N st - 1)}
      = nrm * freq_boundary_states st 0 * freq_boundary_states st 3
         * mutation_rate_matrix_sym st (0 * 4 + 3) * 2 * spec_H (N st - 1)"
    by (rule band_total) (use M in \<open>simp add: decomposeState_def NM\<close>)
  have b3: "sum ?V {(3 + 3 * M) + 1..(3 + 3 * M) + (N st - 1)}
      = nrm * freq_boundary_states st 1 * freq_boundary_states st 2
         * mutation_rate_matrix_sym st (1 * 4 + 2) * 2 * spec_H (N st - 1)"
    by (rule band_total) (use M in \<open>simp add: decomposeState_def NM\<close>)
  have b4: "sum ?V {(3 + 4 * M) + 1..(3 + 4 * M) + (N st - 1)}
      = nrm * freq_boundary_states st 1 * freq_boundary_states st 3
         * mutation_rate_matrix_sym st (1 * 4 + 3) * 2 * spec_H (N st - 1)"
    by (rule band_total) (use M in \<open>simp add: decomposeState_def NM\<close>)
  have b5: "sum ?V {(3 + 5 * M) + 1..(3 + 5 * M) + (N st - 1)}
      = nrm * freq_boundary_states st 2 * freq_boundary_states st 3
         * mutation_rate_matrix_sym st (2 * 4 + 3) * 2 * spec_H (N st - 1)"
    by (rule band_total) (use M in \<open>simp add: decomposeState_def NM\<close>)
  have bnd: "sum ?V {0..3} = nrm * (\<Sum>a = 0..3. freq_boundary_states st a)"
    by (simp add: sum_0_3 stateFreq_value_def isBoundary_def algebra_simps)
  have split: "sum ?V {0..3 + 6 * M}
      = sum ?V {0..3} + sum ?V {3 + 1..3 + M} + sum ?V {(3 + M) + 1..(3 + M) + M}
        + sum ?V {(3 + 2 * M) + 1..(3 + 2 * M) + M}
        + sum ?V {(3 + 3 * M) + 1..(3 + 3 * M) + M}
        + sum ?V {(3 + 4 * M) + 1..(3 + 4 * M) + M}
        + sum ?V {(3 + 5 * M) + 1..(3 + 5 * M) + M}"
  proof -
    have "sum ?V {0..3 + 6 * M} = sum ?V {0..3} + sum ?V {3 + 1..3 + 6 * M}"
      using M by (intro sum_split_int) simp_all
    moreover have "sum ?V {3 + 1..3 + 6 * M}
        = sum ?V {3 + 1..3 + M} + sum ?V {(3 + M) + 1..3 + 6 * M}"
      using M by (intro sum_split_int) simp_all
    moreover have "sum ?V {(3 + M) + 1..3 + 6 * M}
        = sum ?V {(3 + M) + 1..(3 + M) + M} + sum ?V {((3 + M) + M) + 1..3 + 6 * M}"
      using M by (intro sum_split_int) simp_all
    moreover have "sum ?V {((3 + M) + M) + 1..3 + 6 * M}
        = sum ?V {(3 + 2 * M) + 1..(3 + 2 * M) + M}
          + sum ?V {((3 + 2 * M) + M) + 1..3 + 6 * M}"
      using M sum_split_int [of "(3 + 2 * M) + 1" "(3 + 2 * M) + M" "3 + 6 * M" ?V]
      by (simp add: algebra_simps)
    moreover have "sum ?V {((3 + 2 * M) + M) + 1..3 + 6 * M}
        = sum ?V {(3 + 3 * M) + 1..(3 + 3 * M) + M}
          + sum ?V {((3 + 3 * M) + M) + 1..3 + 6 * M}"
      using M sum_split_int [of "(3 + 3 * M) + 1" "(3 + 3 * M) + M" "3 + 6 * M" ?V]
      by (simp add: algebra_simps)
    moreover have "sum ?V {((3 + 3 * M) + M) + 1..3 + 6 * M}
        = sum ?V {(3 + 4 * M) + 1..(3 + 4 * M) + M}
          + sum ?V {(3 + 5 * M) + 1..(3 + 5 * M) + M}"
      using M sum_split_int [of "(3 + 4 * M) + 1" "(3 + 4 * M) + M" "3 + 6 * M" ?V]
      by (simp add: algebra_simps)
    ultimately show ?thesis by simp
  qed
  have pairs: "(\<Sum>(a, b)\<leftarrow>spec_allele_pairs.
                    2 * freq_boundary_states st a * freq_boundary_states st b
                    * mutation_rate_matrix_sym st (a * 4 + b) * spec_H (N st - 1))
     = 2 * freq_boundary_states st 0 * freq_boundary_states st 1
         * mutation_rate_matrix_sym st (0 * 4 + 1) * spec_H (N st - 1)
     + 2 * freq_boundary_states st 0 * freq_boundary_states st 2
         * mutation_rate_matrix_sym st (0 * 4 + 2) * spec_H (N st - 1)
     + 2 * freq_boundary_states st 0 * freq_boundary_states st 3
         * mutation_rate_matrix_sym st (0 * 4 + 3) * spec_H (N st - 1)
     + 2 * freq_boundary_states st 1 * freq_boundary_states st 2
         * mutation_rate_matrix_sym st (1 * 4 + 2) * spec_H (N st - 1)
     + 2 * freq_boundary_states st 1 * freq_boundary_states st 3
         * mutation_rate_matrix_sym st (1 * 4 + 3) * spec_H (N st - 1)
     + 2 * freq_boundary_states st 2 * freq_boundary_states st 3
         * mutation_rate_matrix_sym st (2 * 4 + 3) * spec_H (N st - 1)"
    by (simp add: spec_allele_pairs_def)
  show ?thesis
    unfolding ns split pairs bnd
    using b0 b1 b2 b3 b4 b5
    by (simp add: M_def [symmetric] NM algebra_simps)
qed


lemma spec_Z_eq:
  assumes "symmetric_rates (mutation_rate_matrix_sym st)"
  shows "computeSumFreqBoundaryStates st + computeSumFreqPolyStates st = spec_Z st"
proof -
  from assms have sym: "mutation_rate_matrix_sym st 4 = mutation_rate_matrix_sym st 1"
    "mutation_rate_matrix_sym st 8 = mutation_rate_matrix_sym st 2"
    "mutation_rate_matrix_sym st 12 = mutation_rate_matrix_sym st 3"
    "mutation_rate_matrix_sym st 9 = mutation_rate_matrix_sym st 6"
    "mutation_rate_matrix_sym st 13 = mutation_rate_matrix_sym st 7"
    "mutation_rate_matrix_sym st 14 = mutation_rate_matrix_sym st 11"
    by (simp_all add: symmetric_rates_def spec_allele_pairs_def)
  show ?thesis
    by (simp add: computeSumFreqBoundaryStates_eq computeSumFreqPolyStates_eq spec_Z_def
        sum_0_3 spec_allele_pairs_def sym harmonic_sum spec_H_def algebra_simps)
qed

lemma spec_H_nonneg: "0 \<le> spec_H k"
  unfolding spec_H_def by (rule sum_nonneg) simp

lemma spec_Z_ge_one:
  assumes pi: "\<forall>a\<in>{0..3}. 0 \<le> freq_boundary_states st a"
    and one: "(\<Sum>a = 0..3. freq_boundary_states st a) = 1"
    and r: "\<forall>(a, b)\<in>set spec_allele_pairs. 0 \<le> mutation_rate_matrix_sym st (a * 4 + b)"
  shows "1 \<le> spec_Z st"
proof -
  have "0 \<le> (\<Sum>(a, b)\<leftarrow>spec_allele_pairs.
         2 * freq_boundary_states st a * freq_boundary_states st b
         * mutation_rate_matrix_sym st (a * 4 + b) * spec_H (N st - 1))"
  proof (rule sum_list_nonneg)
    fix x
    assume "x \<in> set (map (\<lambda>(a, b). 2 * freq_boundary_states st a * freq_boundary_states st b
         * mutation_rate_matrix_sym st (a * 4 + b) * spec_H (N st - 1)) spec_allele_pairs)"
    then obtain a b where ab: "(a, b) \<in> set spec_allele_pairs"
      and x: "x = 2 * freq_boundary_states st a * freq_boundary_states st b
         * mutation_rate_matrix_sym st (a * 4 + b) * spec_H (N st - 1)"
      by auto
    from ab have "a \<in> {0..3}" "b \<in> {0..3}" by (auto simp add: spec_allele_pairs_def)
    with pi have "0 \<le> freq_boundary_states st a" "0 \<le> freq_boundary_states st b" by blast+
    moreover from r ab have "0 \<le> mutation_rate_matrix_sym st (a * 4 + b)" by blast
    ultimately show "0 \<le> x" unfolding x
      by (intro mult_nonneg_nonneg spec_H_nonneg) simp_all
  qed
  with one show ?thesis by (simp add: spec_Z_def)
qed

lemma computeStateFreq_sums_to_one:
  assumes n: "2 \<le> N st"
    and sym: "symmetric_rates (mutation_rate_matrix_sym st)"
    and z: "spec_Z st \<noteq> 0"
  shows "\<exists>st'. computeStateFreq st = Inr st'
      \<and> (\<forall>s t. 0 \<le> s \<and> s < num_states st \<and> decomposeState (N st) s = Inr t
             \<longrightarrow> state_freq st' s = spec_stateFrequency st t)
      \<and> (\<Sum>s = 0..num_states st - 1. state_freq st' s) = 1"
proof -
  from n have n1: "1 \<le> N st" by simp
  let ?sf = "\<lambda>k. if k \<in> {0..num_states st - 1}
        then stateFreq_value st (1 / spec_Z st) k else state_freq st k"
  have z': "computeSumFreqBoundaryStates st + computeSumFreqPolyStates st \<noteq> 0"
    using z by (simp add: spec_Z_eq [OF sym])
  have run: "computeStateFreq st = Inr (st\<lparr>state_freq := ?sf\<rparr>)"
    using computeStateFreq_Inr [OF n1 z'] unfolding spec_Z_eq [OF sym] .
  have entries: "state_freq (st\<lparr>state_freq := ?sf\<rparr>) s = spec_stateFrequency st t"
    if "0 \<le> s \<and> s < num_states st \<and> decomposeState (N st) s = Inr t" for s t
  proof (cases "s < 4")
    case True
    with that have "t = (N st, s, -1)" by (simp add: decomposeState_def)
    with that True show ?thesis
      by (simp add: stateFreq_value_def isBoundary_def spec_stateFrequency_def)
  next
    case False
    obtain i a b where t: "t = (i, a, b)" by (cases t)
    from that False n1 have "spec_valid_triple (N st) t" "spec_compose (N st) t = s"
      using decomposeState_valid [of "N st" s] by (auto simp add: num_states_def)
    with False have "b \<noteq> -1"
      by (auto simp add: t spec_compose_def spec_valid_triple_def spec_allele_pairs_def
          split: if_splits)
    with that False show ?thesis
      by (simp add: stateFreq_value_def isBoundary_def spec_stateFrequency_def t
          n_alleles_def algebra_simps del: of_int_diff)
  qed
  have "(\<Sum>s = 0..num_states st - 1. state_freq (st\<lparr>state_freq := ?sf\<rparr>) s)
      = (\<Sum>s = 0..num_states st - 1. stateFreq_value st (1 / spec_Z st) s)"
    by (rule sum.cong) simp_all
  also have "\<dots> = 1 / spec_Z st * spec_Z st"
    unfolding stateFreq_value_total [OF n1] by (simp add: spec_Z_def)
  also have "\<dots> = 1" using z by simp
  finally have total: "(\<Sum>s = 0..num_states st - 1. state_freq (st\<lparr>state_freq := ?sf\<rparr>) s) = 1" .
  from run entries total show ?thesis by blast
qed

text \<open>
  C3. For a population size \<open>N \<ge> 2\<close>, a symmetric rate component \<open>r\<close> and any component
  \<open>f\<close>: with boundary frequencies that are non-negative and sum to 1 and rates \<open>r\<close> that
  are not negative, as the rates are that the program derives from a rate matrix, and
  more generally whenever the normalisation constant
  \<open>Z = \<Sum> pi + \<Sum>\<^bsub>a<b\<^esub> 2 pi a pi b r a b H(N - 1)\<close> is not zero, as it is for the rescaled
  rates, computeStateFreq succeeds, stores \<open>pi s / Z\<close> for a boundary state and
  \<open>pi a pi b / Z (r a b (1/i + 1/(N - i)) - f a b (1/i - 1/(N - i)))\<close> for a
  polymorphic state, and the stored frequencies sum to 1 (the \<open>f\<close> terms cancel).
\<close>

theorem C3_state_freq_sums_to_one:
  assumes n: "2 \<le> N st"
    and sym: "symmetric_rates (mutation_rate_matrix_sym st)"
    and z: "(\<forall>a\<in>{0..3}. 0 \<le> freq_boundary_states st a)
            \<and> (\<Sum>a = 0..3. freq_boundary_states st a) = 1
            \<and> (\<forall>(a, b)\<in>set spec_allele_pairs. 0 \<le> mutation_rate_matrix_sym st (a * 4 + b))
          \<or> spec_Z st \<noteq> 0"
  shows "spec_Z st \<noteq> 0
      \<and> (\<exists>st'. computeStateFreq st = Inr st'
      \<and> (\<forall>s t. 0 \<le> s \<and> s < num_states st \<and> decomposeState (N st) s = Inr t
             \<longrightarrow> state_freq st' s = spec_stateFrequency st t)
      \<and> (\<Sum>s = 0..num_states st - 1. state_freq st' s) = 1)"
proof -
  from z have z': "spec_Z st \<noteq> 0"
  proof
    assume "(\<forall>a\<in>{0..3}. 0 \<le> freq_boundary_states st a)
            \<and> (\<Sum>a = 0..3. freq_boundary_states st a) = 1
            \<and> (\<forall>(a, b)\<in>set spec_allele_pairs. 0 \<le> mutation_rate_matrix_sym st (a * 4 + b))"
    then have "1 \<le> spec_Z st" by (intro spec_Z_ge_one) simp_all
    then show ?thesis by simp
  qed
  from z' computeStateFreq_sums_to_one [OF n sym z'] show ?thesis by (rule conjI)
qed

theorem C3_state_freq_sums_to_one_witness:
  "2 \<le> N example_pomo \<and> symmetric_rates (mutation_rate_matrix_sym example_pomo)
   \<and> 0 \<le> freq_boundary_states example_pomo 0 \<and> 0 \<le> freq_boundary_states example_pomo 1
   \<and> 0 \<le> freq_boundary_states example_pomo 2 \<and> 0 \<le> freq_boundary_states example_pomo 3
   \<and> (\<Sum>a = 0..3. freq_boundary_states example_pomo a) = 1
   \<and> 0 \<le> mutation_rate_matrix_sym example_pomo (0 * 4 + 1)
   \<and> 0 \<le> mutation_rate_matrix_sym example_pomo (0 * 4 + 2)
   \<and> 0 \<le> mutation_rate_matrix_sym example_pomo (0 * 4 + 3)
   \<and> 0 \<le> mutation_rate_matrix_sym example_pomo (1 * 4 + 2)
   \<and> 0 \<le> mutation_rate_matrix_sym example_pomo (1 * 4 + 3)
   \<and> 0 \<le> mutation_rate_matrix_sym example_pomo (2 * 4 + 3)
   \<and> spec_Z example_pomo = 17 / 8
   \<and> (\<exists>st'. computeStateFreq example_pomo = Inr st'
          \<and> state_freq st' 0 = 2 / 17
          \<and> (\<Sum>s = 0..num_states example_pomo - 1. state_freq st' s) = 1)"
proof -
  have h1: "2 \<le> N example_pomo" by (simp add: example_pomo_def)
  have h2: "symmetric_rates (mutation_rate_matrix_sym example_pomo)"
    by (simp add: example_pomo_def symmetric_rates_def spec_allele_pairs_def)
  have p: "0 \<le> freq_boundary_states example_pomo 0 \<and> 0 \<le> freq_boundary_states example_pomo 1
      \<and> 0 \<le> freq_boundary_states example_pomo 2 \<and> 0 \<le> freq_boundary_states example_pomo 3"
    by (simp add: example_pomo_def example_mm_def freq_boundary_states_def)
  have pa: "\<forall>a\<in>{0..3}. 0 \<le> freq_boundary_states example_pomo a"
    by (simp add: example_pomo_def example_mm_def freq_boundary_states_def)
  have s1: "(\<Sum>a = 0..3. freq_boundary_states example_pomo a) = 1"
    by (simp add: example_pomo_def example_mm_def freq_boundary_states_def sum_0_3)
  have r: "0 \<le> mutation_rate_matrix_sym example_pomo (0 * 4 + 1)
      \<and> 0 \<le> mutation_rate_matrix_sym example_pomo (0 * 4 + 2)
      \<and> 0 \<le> mutation_rate_matrix_sym example_pomo (0 * 4 + 3)
      \<and> 0 \<le> mutation_rate_matrix_sym example_pomo (1 * 4 + 2)
      \<and> 0 \<le> mutation_rate_matrix_sym example_pomo (1 * 4 + 3)
      \<and> 0 \<le> mutation_rate_matrix_sym example_pomo (2 * 4 + 3)"
    by (simp add: example_pomo_def)
  then have ra: "\<forall>(a, b)\<in>set spec_allele_pairs.
      0 \<le> mutation_rate_matrix_sym example_pomo (a * 4 + b)"
    by (simp add: spec_allele_pairs_def)
  have z: "spec_Z example_pomo = 17 / 8"
    by (simp add: spec_Z_def example_pomo_def example_mm_def freq_boundary_states_def
        sum_0_3 spec_allele_pairs_def spec_H_def upto.simps
        sum_list_upto [symmetric])
  have d: "(0::int) \<le> 0 \<and> 0 < num_states example_pomo
      \<and> decomposeState (N example_pomo) 0 = Inr (3, 0, -1)"
    by (simp add: example_pomo_def num_states_def num_states_of_eq decomposeState_def)
  have v: "spec_stateFrequency example_pomo (3, 0, -1) = 2 / 17"
    by (simp add: spec_stateFrequency_def z)
       (simp add: example_pomo_def example_mm_def freq_boundary_states_def)
  from C3_state_freq_sums_to_one [OF h1 h2 disjI1 [OF conjI [OF pa conjI [OF s1 ra]]]]
  obtain st' where run: "computeStateFreq example_pomo = Inr st'"
    and e: "\<forall>s t. 0 \<le> s \<and> s < num_states example_pomo
              \<and> decomposeState (N example_pomo) s = Inr t
             \<longrightarrow> state_freq st' s = spec_stateFrequency example_pomo t"
    and t: "(\<Sum>s = 0..num_states example_pomo - 1. state_freq st' s) = 1"
    by blast
  from e d have "state_freq st' 0 = spec_stateFrequency example_pomo (3, 0, -1)" by blast
  with v have v': "state_freq st' 0 = 2 / 17" by simp
  from run v' t have ex: "\<exists>st'. computeStateFreq example_pomo = Inr st'
          \<and> state_freq st' 0 = 2 / 17
          \<and> (\<Sum>s = 0..num_states example_pomo - 1. state_freq st' s) = 1"
    by blast
  from h1 h2 p s1 r z ex show ?thesis by (intro conjI) simp_all
qed

section \<open>The rate matrix\<close>

lemma if_chain_defined:
  "\<not> (c1 \<and> c2) \<Longrightarrow>
   \<exists>p. (if c1 then (if c2 then Inl e else if c3 then Inr x1
                     else if c4 then (if c5 then Inr x2 else Inr x3) else Inr x4)
        else if c6 then Inr x5 else if c7 then Inr x6 else Inr x7) = Inr p"
  by auto

lemma computeProbBoundaryMutation_defined:
  assumes n: "1 \<le> N st"
    and s: "0 \<le> s1" "s1 < num_states st" "0 \<le> s2" "s2 < num_states st" "s1 \<noteq> s2"
  shows "computeProbBoundaryMutation st s1 s2 = Inr (transition_rate st s1 s2)"
proof -
  from n have n0: "N st \<noteq> 0" by simp
  from decomposeState_valid [OF n s(1)] s(2)
  obtain t1 where d1: "decomposeState (N st) s1 = Inr t1"
    and v1: "spec_valid_triple (N st) t1" "spec_compose (N st) t1 = s1"
    by (auto simp add: num_states_def)
  from decomposeState_valid [OF n s(3)] s(4)
  obtain t2 where d2: "decomposeState (N st) s2 = Inr t2"
    and v2: "spec_valid_triple (N st) t2" "spec_compose (N st) t2 = s2"
    by (auto simp add: num_states_def)
  obtain i1 a1 b1 where t1: "t1 = (i1, a1, b1)" by (cases t1)
  obtain i2 a2 b2 where t2: "t2 = (i2, a2, b2)" by (cases t2)
  from v1(2) v2(2) s(5) have ne: "i1 = i2 \<and> a1 = a2 \<and> b1 = b2 \<Longrightarrow> False"
    by (auto simp add: t1 t2)
  note cp = computeProbBoundaryMutation_decomposed
    [OF s(5) d1 [unfolded t1] d2 [unfolded t2] n0]
  have c1: "(i1 = N st \<and> b1 = -1) \<or> (i1 \<le> N st - 1 \<and> 0 \<le> a1 \<and> a1 < b1)"
    using valid_triple_cases [OF v1(1) [unfolded t1]] by blast
  have c2: "(i2 = N st \<and> b2 = -1) \<or> (i2 \<le> N st - 1 \<and> 0 \<le> a2 \<and> a2 < b2)"
    using valid_triple_cases [OF v2(1) [unfolded t2]] by blast
  have "\<not> ((a1 = a2 \<and> (b1 = b2 \<or> b1 = -1 \<or> b2 = -1)) \<and> i1 = i2)"
  proof
    assume h: "(a1 = a2 \<and> (b1 = b2 \<or> b1 = -1 \<or> b2 = -1)) \<and> i1 = i2"
    with c1 c2 have "b1 = b2" by linarith
    with h ne show False by blast
  qed
  then have "\<exists>p. computeProbBoundaryMutation st s1 s2 = Inr p"
    unfolding cp by (rule if_chain_defined)
  then show ?thesis by (auto simp add: transition_rate_def)
qed

lemma rateMatrix_col_fold:
  fixes c :: int and T :: "int \<Rightarrow> real" and rm :: "int \<Rightarrow> real"
  shows "fold (\<lambda>j (rm, rs). if i \<noteq> j then (rm(c + j := T j), rs + T j) else (rm, rs)) ys (rm, rs)
   = (\<lambda>k. if k - c \<in> set ys - {i} then T (k - c) else rm k,
      rs + sum_list (map T (filter (\<lambda>j. j \<noteq> i) ys)))"
proof (induction ys arbitrary: rm rs)
  case Nil
  show ?case by simp
next
  case (Cons y ys)
  show ?case
  proof (cases "i = y")
    case True
    then have y: "y = i" by simp
    show ?thesis unfolding y by (simp add: Cons.IH)
  next
    case False
    have fn: "(\<lambda>k. if k - c \<in> set ys - {i} then T (k - c) else (rm(c + y := T y)) k)
        = (\<lambda>k. if k - c \<in> set (y # ys) - {i} then T (k - c) else rm k)"
    proof (rule ext)
      fix k :: int
      have "k = c + y \<longleftrightarrow> k - c = y" by auto
      with False show "(if k - c \<in> set ys - {i} then T (k - c) else (rm(c + y := T y)) k)
          = (if k - c \<in> set (y # ys) - {i} then T (k - c) else rm k)"
        by auto
    qed
    from False show ?thesis
      by (simp add: Cons.IH fn [simplified] add.assoc)
  qed
qed

lemma idx_div:
  fixes k i ns :: int
  assumes "0 < ns"
  shows "(0 \<le> k - i * ns \<and> k - i * ns \<le> ns - 1) \<longleftrightarrow> k div ns = i"
proof
  assume h: "0 \<le> k - i * ns \<and> k - i * ns \<le> ns - 1"
  have e: "k = ns * i + (k - i * ns)" by (simp add: algebra_simps)
  from h have b: "0 \<le> k - i * ns" "k - i * ns < ns" by simp_all
  show "k div ns = i"
    by (rule int_div_pos_eq [OF e b])
next
  assume h: "k div ns = i"
  have "k = ns * (k div ns) + k mod ns" by simp
  then have "k - i * ns = k mod ns" unfolding h by (simp add: algebra_simps)
  moreover have "0 \<le> k mod ns" "k mod ns < ns" using assms by simp_all
  ultimately show "0 \<le> k - i * ns \<and> k - i * ns \<le> ns - 1" by simp
qed

lemma idx_mod:
  fixes k ns :: int
  shows "k - (k div ns) * ns = k mod ns"
  by (simp add: minus_div_mult_eq_mod)

lemma idx_row_col:
  fixes i j ns :: int
  assumes "0 \<le> j" "j < ns"
  shows "(i * ns + j) div ns = i" "(i * ns + j) mod ns = j"
  using assms by simp_all

lemma rateMatrix_row_Inr:
  assumes n: "1 \<le> N st" and i: "0 \<le> i" "i < num_states st"
  shows "rateMatrix_row st i (rm, tot)
     = Inr (\<lambda>k. if k div num_states st = i then rate_entry st i (k mod num_states st)
                 else rm k,
            tot + state_freq st i * row_sum_of st i)"
proof -
  let ?ns = "num_states st"
  let ?T = "transition_rate st i"
  let ?g = "\<lambda>j (rm, rs). if i \<noteq> j then (rm(i * ?ns + j := ?T j), rs + ?T j) else (rm, rs)"
  have ns: "0 < ?ns" using i by simp
  have col: "rateMatrix_col st i j s = Inr (?g j s)" if "j \<in> set [0..?ns - 1]" for j s
  proof (cases "i = j")
    case True
    then show ?thesis by (cases s) (simp add: rateMatrix_col_def)
  next
    case False
    with that n i have "computeProbBoundaryMutation st i j = Inr (?T j)"
      by (intro computeProbBoundaryMutation_defined) simp_all
    with False show ?thesis by (cases s) (simp add: rateMatrix_col_def)
  qed
  have inner: "for_each [0..?ns - 1] (rateMatrix_col st i) (rm, 0)
      = Inr (fold ?g [0..?ns - 1] (rm, 0))"
    by (rule for_each_Inr) (rule col)
  have sum: "sum_list (map ?T (filter (\<lambda>j. j \<noteq> i) [0..?ns - 1])) = row_sum_of st i"
  proof -
    have "set (filter (\<lambda>j. j \<noteq> i) [0..?ns - 1]) = {0..?ns - 1} - {i}" by auto
    then show ?thesis
      by (simp add: sum_list_distinct_conv_sum_set row_sum_of_def)
  qed
  have fn: "(\<lambda>k. if k - i * ?ns \<in> set [0..?ns - 1] - {i} then ?T (k - i * ?ns) else rm k)
       (i * ?ns + i := - row_sum_of st i)
     = (\<lambda>k. if k div ?ns = i then rate_entry st i (k mod ?ns) else rm k)"
  proof (rule ext)
    fix k
    show "((\<lambda>k. if k - i * ?ns \<in> set [0..?ns - 1] - {i} then ?T (k - i * ?ns) else rm k)
       (i * ?ns + i := - row_sum_of st i)) k
     = (if k div ?ns = i then rate_entry st i (k mod ?ns) else rm k)"
    proof (cases "k div ?ns = i")
      case True
      then have m: "k - i * ?ns = k mod ?ns" using idx_mod [of k ?ns] by simp
      have r: "0 \<le> k mod ?ns" "k mod ?ns < ?ns" using ns by simp_all
      have mem: "k - i * ?ns \<in> set [0..?ns - 1]" using r by (simp add: m)
      have eq: "k = i * ?ns + i \<longleftrightarrow> k mod ?ns = i" using m by auto
      show ?thesis
      proof (cases "k mod ?ns = i")
        case True
        with eq have "k = i * ?ns + i" by simp
        with \<open>k div ?ns = i\<close> True show ?thesis by (simp add: rate_entry_def)
      next
        case False
        with eq have "k \<noteq> i * ?ns + i" by simp
        moreover from False mem have "k - i * ?ns \<in> set [0..?ns - 1] - {i}"
          by (simp add: m)
        ultimately show ?thesis
          using \<open>k div ?ns = i\<close> False by (simp add: rate_entry_def m del: set_upto)
      qed
    next
      case False
      then have "\<not> (0 \<le> k - i * ?ns \<and> k - i * ?ns \<le> ?ns - 1)"
        using idx_div [OF ns, of k i] by simp
      moreover have "k \<noteq> i * ?ns + i" using False idx_row_col(1) [OF i, of i] by auto
      ultimately show ?thesis using False by auto
    qed
  qed
  show ?thesis
    unfolding rateMatrix_row_def prod.case inner and_then_Inr
      rateMatrix_col_fold [of i "i * ?ns" ?T] sum Let_def
    using fn by simp
qed

lemma rateMatrix_rows_fold:
  fixes ns :: int and rm :: "int \<Rightarrow> real" and w :: "int \<Rightarrow> real"
  shows "fold (\<lambda>i (rm, tot). (\<lambda>k. if k div ns = i then E i (k mod ns) else rm k, tot + w i))
           xs (rm, tot)
       = (\<lambda>k. if k div ns \<in> set xs then E (k div ns) (k mod ns) else rm k,
          tot + sum_list (map w xs))"
proof (induction xs arbitrary: rm tot)
  case Nil
  show ?case by simp
next
  case (Cons x xs)
  have fn: "(\<lambda>k. if k div ns \<in> set xs then E (k div ns) (k mod ns)
                 else if k div ns = x then E x (k mod ns) else rm k)
      = (\<lambda>k. if k div ns \<in> set (x # xs) then E (k div ns) (k mod ns) else rm k)"
    by (rule ext) auto
  show ?case
    by (simp add: Cons.IH fn [simplified] add.assoc)
qed

lemma rateMatrix_rows_Inr:
  assumes n: "1 \<le> N st"
  shows "for_each [0..num_states st - 1] (rateMatrix_row st) (rm, 0)
     = Inr (\<lambda>k. if k div num_states st \<in> {0..num_states st - 1}
                 then rate_entry st (k div num_states st) (k mod num_states st)
                 else rm k,
            tot_sum_of st)"
proof -
  let ?ns = "num_states st"
  let ?g = "\<lambda>i (rm, tot). (\<lambda>k. if k div ?ns = i then rate_entry st i (k mod ?ns) else rm k,
                           tot + state_freq st i * row_sum_of st i)"
  have row: "rateMatrix_row st i s = Inr (?g i s)" if "i \<in> set [0..?ns - 1]" for i s
    using that rateMatrix_row_Inr [OF n, of i] by (cases s) simp
  have "for_each [0..?ns - 1] (rateMatrix_row st) (rm, 0) = Inr (fold ?g [0..?ns - 1] (rm, 0))"
    by (rule for_each_Inr) (rule row)
  then show ?thesis
    by (simp add: rateMatrix_rows_fold [of ?ns "rate_entry st"] sum_list_upto tot_sum_of_def)
qed

lemma scale_col_fold:
  fixes c :: int and rm :: "int \<Rightarrow> real"
  assumes "distinct ys"
  shows "fold (\<lambda>j rm. rm(c + j := rm (c + j) / t)) ys rm
       = (\<lambda>k. if k - c \<in> set ys then rm k / t else rm k)"
  using assms
proof (induction ys arbitrary: rm)
  case Nil
  show ?case by simp
next
  case (Cons y ys)
  then have y: "y \<notin> set ys" and d: "distinct ys" by simp_all
  have fn: "(\<lambda>k. if k - c \<in> set ys then (rm(c + y := rm (c + y) / t)) k / t
                 else (rm(c + y := rm (c + y) / t)) k)
      = (\<lambda>k. if k - c \<in> set (y # ys) then rm k / t else rm k)"
  proof (rule ext)
    fix k :: int
    have "k = c + y \<longleftrightarrow> k - c = y" by auto
    with y show "(if k - c \<in> set ys then (rm(c + y := rm (c + y) / t)) k / t
                 else (rm(c + y := rm (c + y) / t)) k)
      = (if k - c \<in> set (y # ys) then rm k / t else rm k)"
      by auto
  qed
  show ?case
    unfolding fold.simps(2) comp_apply Cons.IH [OF d] by (rule fn)
qed

lemma scale_rows_fold:
  fixes ns :: int and rm :: "int \<Rightarrow> real"
  assumes "distinct xs"
  shows "fold (\<lambda>i rm. (\<lambda>k. if k div ns = i then rm k / t else rm k)) xs rm
       = (\<lambda>k. if k div ns \<in> set xs then rm k / t else rm k)"
  using assms
proof (induction xs arbitrary: rm)
  case Nil
  show ?case by simp
next
  case (Cons x xs)
  then have x: "x \<notin> set xs" and d: "distinct xs" by simp_all
  have fn: "(\<lambda>k. if k div ns \<in> set xs then (if k div ns = x then rm k / t else rm k) / t
                 else if k div ns = x then rm k / t else rm k)
      = (\<lambda>k. if k div ns \<in> set (x # xs) then rm k / t else rm k)"
    using x by (intro ext) auto
  show ?case
    by (simp add: Cons.IH [OF d] fn [simplified])
qed

lemma rateMatrix_scale_Inr:
  assumes ns: "0 < num_states st" and t: "t \<noteq> 0"
  shows "rateMatrix_scale st t rm
     = Inr (\<lambda>k. if k div num_states st \<in> {0..num_states st - 1} then rm k / t else rm k)"
proof -
  let ?ns = "num_states st"
  have col: "for_each [0..?ns - 1]
        (\<lambda>j rm. and_then (fdiv (rm (i * ?ns + j)) t) (\<lambda>q. Inr (rm(i * ?ns + j := q)))) rm
      = Inr (\<lambda>k. if k div ?ns = i then rm k / t else rm k)" for i rm
  proof -
    have "for_each [0..?ns - 1]
        (\<lambda>j rm. and_then (fdiv (rm (i * ?ns + j)) t) (\<lambda>q. Inr (rm(i * ?ns + j := q)))) rm
      = Inr (fold (\<lambda>j rm. rm(i * ?ns + j := rm (i * ?ns + j) / t)) [0..?ns - 1] rm)"
      by (rule for_each_Inr) (simp add: fdiv_Inr [OF t])
    also have "fold (\<lambda>j rm. rm(i * ?ns + j := rm (i * ?ns + j) / t)) [0..?ns - 1] rm
        = (\<lambda>k. if k - i * ?ns \<in> set [0..?ns - 1] then rm k / t else rm k)"
      by (rule scale_col_fold) simp
    also have "\<dots> = (\<lambda>k. if k div ?ns = i then rm k / t else rm k)"
      using idx_div [OF ns, of _ i] by (intro ext) simp
    finally show ?thesis .
  qed
  have "rateMatrix_scale st t rm
      = Inr (fold (\<lambda>i rm. (\<lambda>k. if k div ?ns = i then rm k / t else rm k)) [0..?ns - 1] rm)"
    unfolding rateMatrix_scale_def by (rule for_each_Inr) (rule col)
  then show ?thesis by (simp add: scale_rows_fold)
qed

lemma rateMatrix_scale_zero:
  assumes ns: "0 < num_states st"
  shows "rateMatrix_scale st 0 rm = Inl NonFinite"
proof -
  have "[0..num_states st - 1] = 0 # [1..num_states st - 1]"
    using ns by (simp add: upto_rec1)
  then show ?thesis
    by (simp add: rateMatrix_scale_def fdiv_def)
qed

lemma computeStateFreq_frame:
  assumes "computeStateFreq st0 = Inr st"
  shows "\<exists>sf. st = st0\<lparr>state_freq := sf\<rparr>"
  using assms by (auto simp add: computeStateFreq_def and_then_def split: sum.splits)

lemma updatePoMoStatesAndRateMatrix_Inr:
  assumes csf: "computeStateFreq st0 = Inr st" and n: "1 \<le> N st"
    and t: "tot_sum_of st \<noteq> 0"
  shows "updatePoMoStatesAndRateMatrix st0
     = Inr (st\<lparr>rate_matrix := (\<lambda>k. if k div num_states st \<in> {0..num_states st - 1}
              then rate_entry st (k div num_states st) (k mod num_states st) / tot_sum_of st
              else rate_matrix st k)\<rparr>)"
proof -
  have ns: "0 < num_states st" using n by (simp add: num_states_def num_states_of_eq)
  show ?thesis
    unfolding updatePoMoStatesAndRateMatrix_def csf and_then_Inr
      rateMatrix_rows_Inr [OF n] prod.case rateMatrix_scale_Inr [OF ns t]
    by (simp cong: if_cong)
qed

lemma updatePoMoStatesAndRateMatrix_NonFinite:
  assumes csf: "computeStateFreq st0 = Inr st" and n: "1 \<le> N st"
    and t: "tot_sum_of st = 0"
  shows "updatePoMoStatesAndRateMatrix st0 = Inl NonFinite"
proof -
  have ns: "0 < num_states st" using n by (simp add: num_states_def num_states_of_eq)
  show ?thesis
    unfolding updatePoMoStatesAndRateMatrix_def csf and_then_Inr
      rateMatrix_rows_Inr [OF n] prod.case t rateMatrix_scale_zero [OF ns]
    by simp
qed

lemma row_sum_of_list:
  "row_sum_of st i
   = sum_list (map (transition_rate st i) (filter (\<lambda>j. j \<noteq> i) [0..num_states st - 1]))"
proof -
  have "set (filter (\<lambda>j. j \<noteq> i) [0..num_states st - 1]) = {0..num_states st - 1} - {i}"
    by auto
  then show ?thesis
    by (simp add: sum_list_distinct_conv_sum_set row_sum_of_def)
qed

lemma example_rev_stateFreq:
  "computeStateFreq (example_pomo\<lparr>is_reversible := b\<rparr>)
   = Inr (example_pomo\<lparr>is_reversible := b,
        state_freq := (\<lambda>k. if k \<in> {0..num_states example_pomo - 1}
        then stateFreq_value example_pomo (8 / 17) k else state_freq example_pomo k)\<rparr>)"
proof -
  let ?e = "example_pomo\<lparr>is_reversible := b\<rparr>"
  have z: "computeSumFreqBoundaryStates ?e + computeSumFreqPolyStates ?e = 17 / 8"
    by (simp add: computeSumFreqBoundaryStates_eq computeSumFreqPolyStates_eq harmonic_sum
        example_pomo_def example_mm_def freq_boundary_states_def upto.simps
        sum_list_upto [symmetric])
  have n: "1 \<le> N ?e" by (simp add: example_pomo_def)
  have nz: "computeSumFreqBoundaryStates ?e + computeSumFreqPolyStates ?e \<noteq> 0"
    unfolding z by simp
  have e: "(1::real) / (17 / 8) = 8 / 17" by simp
  have v: "stateFreq_value ?e = stateFreq_value example_pomo"
    by (simp add: fun_eq_iff stateFreq_value_def freq_boundary_states_def
        split: sum.splits prod.splits)
  have sfq: "state_freq ?e = state_freq example_pomo" by simp
  have nse: "num_states ?e = num_states example_pomo" by (simp add: num_states_def)
  show ?thesis
    using computeStateFreq_Inr [OF n nz] unfolding z e v sfq nse .
qed

lemma example_rev_tot:
  "tot_sum_of (example_pomo\<lparr>is_reversible := b,
        state_freq := (\<lambda>k. if k \<in> {0..num_states example_pomo - 1}
        then stateFreq_value example_pomo (8 / 17) k else state_freq example_pomo k)\<rparr>)
   = 18 / 17"
  by (simp add: tot_sum_of_def row_sum_of_list sum_list_upto [symmetric]
     num_states_def num_states_of_eq upto.simps stateFreq_value_def isBoundary_def
     transition_rate_def computeProbBoundaryMutation_def decomposeState_def
     example_pomo_def example_mm_def mutCoeff_def freq_boundary_states_def n_alleles_def fdiv_def)

lemma example_pomo_rev: "example_pomo\<lparr>is_reversible := True\<rparr> = example_pomo"
  by (simp add: example_pomo_def)

lemmas example_stateFreq = example_rev_stateFreq [of True, unfolded example_pomo_rev]

lemmas example_tot = example_rev_tot [of True, unfolded example_pomo_rev]

lemma zero_rates_stateFreq:
  "computeStateFreq zero_rates_pomo
   = Inr (zero_rates_pomo\<lparr>state_freq := (\<lambda>k. if k \<in> {0..num_states zero_rates_pomo - 1}
        then stateFreq_value zero_rates_pomo 1 k else state_freq zero_rates_pomo k)\<rparr>)"
proof -
  have z: "computeSumFreqBoundaryStates zero_rates_pomo
      + computeSumFreqPolyStates zero_rates_pomo = 1"
    by (simp add: computeSumFreqBoundaryStates_eq computeSumFreqPolyStates_eq
        zero_rates_pomo_def example_mm_def freq_boundary_states_def)
  have n: "1 \<le> N zero_rates_pomo" by (simp add: zero_rates_pomo_def)
  have nz: "computeSumFreqBoundaryStates zero_rates_pomo
      + computeSumFreqPolyStates zero_rates_pomo \<noteq> 0"
    unfolding z by simp
  have e: "(1::real) / 1 = 1" by simp
  show ?thesis
    using computeStateFreq_Inr [OF n nz] unfolding z e .
qed

lemma zero_rates_tot:
  "tot_sum_of (zero_rates_pomo\<lparr>state_freq := (\<lambda>k. if k \<in> {0..num_states zero_rates_pomo - 1}
        then stateFreq_value zero_rates_pomo 1 k else state_freq zero_rates_pomo k)\<rparr>)
   = 0"
  by (simp add: tot_sum_of_def row_sum_of_list sum_list_upto [symmetric]
     num_states_def num_states_of_eq upto.simps stateFreq_value_def isBoundary_def
     transition_rate_def computeProbBoundaryMutation_def decomposeState_def
     zero_rates_pomo_def example_mm_def mutCoeff_def freq_boundary_states_def n_alleles_def
     fdiv_def)

text \<open>
  With every mutation rate zero the accumulated total rate is zero, and the final
  division of the entries by it is not finite.
\<close>

theorem C1_counterexample:
  "updatePoMoStatesAndRateMatrix zero_rates_pomo = Inl NonFinite"
  by (rule updatePoMoStatesAndRateMatrix_NonFinite [OF zero_rates_stateFreq _ zero_rates_tot])
     (simp add: zero_rates_pomo_def)

lemma sum_rate_entry_row:
  assumes "0 \<le> i" "i < num_states st"
  shows "(\<Sum>j = 0..num_states st - 1. rate_entry st i j) = 0"
proof -
  have fin: "finite {0..num_states st - 1}" and mem: "i \<in> {0..num_states st - 1}"
    using assms by simp_all
  have "(\<Sum>j = 0..num_states st - 1. rate_entry st i j)
      = rate_entry st i i + (\<Sum>j\<in>{0..num_states st - 1} - {i}. rate_entry st i j)"
    by (rule sum.remove [OF fin mem])
  also have "(\<Sum>j\<in>{0..num_states st - 1} - {i}. rate_entry st i j) = row_sum_of st i"
    unfolding row_sum_of_def by (rule sum.cong) (simp_all add: rate_entry_def)
  finally show ?thesis by (simp add: rate_entry_def)
qed

text \<open>
  C1. When computeStateFreq succeeds and the accumulated total rate
  \<open>\<Sum>\<^sub>i state_freq i * row_sum i\<close> is not zero, updatePoMoStatesAndRateMatrix succeeds
  and, for all states \<open>i\<close>, \<open>j\<close> below \<open>num_states\<close>: the off-diagonal entry is the rate
  of computeProbBoundaryMutation divided by the total rate, the diagonal entry is minus
  the sum of the off-diagonal entries of its row, every row sums to zero, and the
  frequency-weighted sum of the off-diagonal row sums is 1.
\<close>

theorem C1_rate_matrix:
  assumes csf: "computeStateFreq st0 = Inr st" and n: "1 \<le> N st"
    and t: "tot_sum_of st \<noteq> 0"
  shows "\<exists>st'. updatePoMoStatesAndRateMatrix st0 = Inr st'
      \<and> state_freq st' = state_freq st
      \<and> (\<forall>i j. 0 \<le> i \<and> i < num_states st \<and> 0 \<le> j \<and> j < num_states st \<longrightarrow>
           (i \<noteq> j \<longrightarrow>
              computeProbBoundaryMutation st i j = Inr (transition_rate st i j)
              \<and> rate_matrix st' (i * num_states st + j)
                = transition_rate st i j / tot_sum_of st)
           \<and> rate_matrix st' (i * num_states st + i)
             = - (\<Sum>j\<in>{0..num_states st - 1} - {i}. rate_matrix st' (i * num_states st + j))
           \<and> (\<Sum>j = 0..num_states st - 1. rate_matrix st' (i * num_states st + j)) = 0)
      \<and> tot_sum_of st
        = (\<Sum>i = 0..num_states st - 1.
             state_freq st i * (\<Sum>j\<in>{0..num_states st - 1} - {i}. transition_rate st i j))
      \<and> (\<Sum>i = 0..num_states st - 1.
           state_freq st' i
           * (\<Sum>j\<in>{0..num_states st - 1} - {i}. rate_matrix st' (i * num_states st + j)))
        = 1"
proof -
  let ?ns = "num_states st"
  let ?tot = "tot_sum_of st"
  define st' where "st' = st\<lparr>rate_matrix := (\<lambda>k. if k div ?ns \<in> {0..?ns - 1}
              then rate_entry st (k div ?ns) (k mod ?ns) / ?tot else rate_matrix st k)\<rparr>"
  have run: "updatePoMoStatesAndRateMatrix st0 = Inr st'"
    unfolding st'_def by (rule updatePoMoStatesAndRateMatrix_Inr [OF csf n t])
  have sf: "state_freq st' = state_freq st" by (simp add: st'_def)
  have entry: "rate_matrix st' (i * ?ns + j) = rate_entry st i j / ?tot"
    if "0 \<le> i" "i < ?ns" "0 \<le> j" "j < ?ns" for i j
    using that by (simp add: st'_def idx_row_col)
  have offdiag: "(\<Sum>j\<in>{0..?ns - 1} - {i}. rate_matrix st' (i * ?ns + j))
      = row_sum_of st i / ?tot" if i: "0 \<le> i" "i < ?ns" for i
  proof -
    have "(\<Sum>j\<in>{0..?ns - 1} - {i}. rate_matrix st' (i * ?ns + j))
        = (\<Sum>j\<in>{0..?ns - 1} - {i}. transition_rate st i j / ?tot)"
    proof (rule sum.cong [OF refl])
      fix j assume "j \<in> {0..?ns - 1} - {i}"
      then have j: "0 \<le> j" "j < ?ns" "i \<noteq> j" by auto
      show "rate_matrix st' (i * ?ns + j) = transition_rate st i j / ?tot"
        using entry [OF i j(1,2)] j(3) by (simp add: rate_entry_def)
    qed
    then show ?thesis by (simp add: row_sum_of_def sum_divide_distrib)
  qed
  have rowzero: "(\<Sum>j = 0..?ns - 1. rate_matrix st' (i * ?ns + j)) = 0"
    if i: "0 \<le> i" "i < ?ns" for i
  proof -
    have "(\<Sum>j = 0..?ns - 1. rate_matrix st' (i * ?ns + j))
        = (\<Sum>j = 0..?ns - 1. rate_entry st i j / ?tot)"
    proof (rule sum.cong [OF refl])
      fix j assume "j \<in> {0..?ns - 1}"
      then have j: "0 \<le> j" "j < ?ns" by auto
      show "rate_matrix st' (i * ?ns + j) = rate_entry st i j / ?tot"
        by (rule entry [OF i j])
    qed
    also have "\<dots> = (\<Sum>j = 0..?ns - 1. rate_entry st i j) / ?tot"
      by (simp add: sum_divide_distrib)
    finally show ?thesis using sum_rate_entry_row [OF i] by simp
  qed
  have entries: "(i \<noteq> j \<longrightarrow>
              computeProbBoundaryMutation st i j = Inr (transition_rate st i j)
              \<and> rate_matrix st' (i * ?ns + j) = transition_rate st i j / ?tot)
           \<and> rate_matrix st' (i * ?ns + i)
             = - (\<Sum>j\<in>{0..?ns - 1} - {i}. rate_matrix st' (i * ?ns + j))
           \<and> (\<Sum>j = 0..?ns - 1. rate_matrix st' (i * ?ns + j)) = 0"
    if "0 \<le> i \<and> i < ?ns \<and> 0 \<le> j \<and> j < ?ns" for i j
  proof (intro conjI impI)
    from that have i: "0 \<le> i" "i < ?ns" and j: "0 \<le> j" "j < ?ns" by simp_all
    {
      assume ne: "i \<noteq> j"
      show "computeProbBoundaryMutation st i j = Inr (transition_rate st i j)"
        by (rule computeProbBoundaryMutation_defined [OF n i j ne])
      show "rate_matrix st' (i * ?ns + j) = transition_rate st i j / ?tot"
        using entry [OF i j] ne by (simp add: rate_entry_def)
    }
    have "rate_matrix st' (i * ?ns + i) = rate_entry st i i / ?tot"
      by (rule entry [OF i i])
    also have "\<dots> = - (row_sum_of st i / ?tot)"
      by (simp add: rate_entry_def)
    also have "\<dots> = - (\<Sum>j\<in>{0..?ns - 1} - {i}. rate_matrix st' (i * ?ns + j))"
      by (simp only: offdiag [OF i])
    finally show "rate_matrix st' (i * ?ns + i)
             = - (\<Sum>j\<in>{0..?ns - 1} - {i}. rate_matrix st' (i * ?ns + j))" .
    show "(\<Sum>j = 0..?ns - 1. rate_matrix st' (i * ?ns + j)) = 0"
      by (rule rowzero [OF i])
  qed
  have tot: "?tot = (\<Sum>i = 0..?ns - 1.
             state_freq st i * (\<Sum>j\<in>{0..?ns - 1} - {i}. transition_rate st i j))"
    by (simp add: tot_sum_of_def row_sum_of_def)
  have "(\<Sum>i = 0..?ns - 1. state_freq st' i
           * (\<Sum>j\<in>{0..?ns - 1} - {i}. rate_matrix st' (i * ?ns + j)))
      = (\<Sum>i = 0..?ns - 1. state_freq st i * row_sum_of st i / ?tot)"
  proof (rule sum.cong [OF refl])
    fix i assume "i \<in> {0..?ns - 1}"
    then have i: "0 \<le> i" "i < ?ns" by auto
    show "state_freq st' i * (\<Sum>j\<in>{0..?ns - 1} - {i}. rate_matrix st' (i * ?ns + j))
        = state_freq st i * row_sum_of st i / ?tot"
      by (simp only: offdiag [OF i] sf times_divide_eq_right)
  qed
  also have "\<dots> = (\<Sum>i = 0..?ns - 1. state_freq st i * row_sum_of st i) / ?tot"
    by (rule sum_divide_distrib [symmetric])
  also have "\<dots> = ?tot / ?tot"
    by (simp only: tot_sum_of_def)
  also have "\<dots> = 1" using t by simp
  finally have one: "(\<Sum>i = 0..?ns - 1. state_freq st' i
           * (\<Sum>j\<in>{0..?ns - 1} - {i}. rate_matrix st' (i * ?ns + j))) = 1" .
  from run sf entries tot one show ?thesis by blast
qed


theorem C1_rate_matrix_witness:
  "\<exists>st. computeStateFreq example_pomo = Inr st \<and> 1 \<le> N st \<and> tot_sum_of st = 18 / 17
     \<and> (\<exists>st'. updatePoMoStatesAndRateMatrix example_pomo = Inr st'
           \<and> rate_matrix st' (0 * num_states st + 5) = (1 / 4) / (18 / 17)
           \<and> (\<Sum>j = 0..num_states st - 1. rate_matrix st' (0 * num_states st + j)) = 0
           \<and> (\<Sum>i = 0..num_states st - 1.
                 state_freq st' i
                 * (\<Sum>j\<in>{0..num_states st - 1} - {i}. rate_matrix st' (i * num_states st + j)))
              = 1)"
proof -
  define st where "st = example_pomo\<lparr>state_freq := (\<lambda>k. if k \<in> {0..num_states example_pomo - 1}
        then stateFreq_value example_pomo (8 / 17) k else state_freq example_pomo k)\<rparr>"
  have csf: "computeStateFreq example_pomo = Inr st"
    unfolding st_def by (rule example_stateFreq)
  have n: "1 \<le> N st" by (simp add: st_def example_pomo_def)
  have tot: "tot_sum_of st = 18 / 17" unfolding st_def by (rule example_tot)
  then have t: "tot_sum_of st \<noteq> 0" by simp
  have ns: "num_states st = 16" by (simp add: st_def num_states_def num_states_of_eq example_pomo_def)
  have r: "transition_rate st 0 5 = 1 / 4"
    by (simp add: st_def transition_rate_def computeProbBoundaryMutation_def decomposeState_def
     example_pomo_def example_mm_def mutCoeff_def freq_boundary_states_def n_alleles_def fdiv_def)
  from C1_rate_matrix [OF csf n t] obtain st' where
    run: "updatePoMoStatesAndRateMatrix example_pomo = Inr st'"
    and ent: "\<forall>i j. 0 \<le> i \<and> i < num_states st \<and> 0 \<le> j \<and> j < num_states st \<longrightarrow>
           (i \<noteq> j \<longrightarrow>
              computeProbBoundaryMutation st i j = Inr (transition_rate st i j)
              \<and> rate_matrix st' (i * num_states st + j)
                = transition_rate st i j / tot_sum_of st)
           \<and> rate_matrix st' (i * num_states st + i)
             = - (\<Sum>j\<in>{0..num_states st - 1} - {i}. rate_matrix st' (i * num_states st + j))
           \<and> (\<Sum>j = 0..num_states st - 1. rate_matrix st' (i * num_states st + j)) = 0"
    and one: "(\<Sum>i = 0..num_states st - 1.
           state_freq st' i
           * (\<Sum>j\<in>{0..num_states st - 1} - {i}. rate_matrix st' (i * num_states st + j)))
        = 1"
    by blast
  from ent [rule_format, of 0 5] have
    e1: "rate_matrix st' (0 * num_states st + 5) = (1 / 4) / (18 / 17)"
    and e2: "(\<Sum>j = 0..num_states st - 1. rate_matrix st' (0 * num_states st + j)) = 0"
    by (simp_all add: ns r tot)
  from csf n tot run e1 e2 one show ?thesis by blast
qed

section \<open>Rescaling the mutation rates\<close>

lemma pointwise_col_fold:
  fixes c :: int and a :: "int \<Rightarrow> real"
  assumes "distinct ys"
  shows "fold (\<lambda>j a. a(c + j := h j (a (c + j)))) ys a
       = (\<lambda>k. if k - c \<in> set ys then h (k - c) (a k) else a k)"
  using assms
proof (induction ys arbitrary: a)
  case Nil
  show ?case by simp
next
  case (Cons y ys)
  then have y: "y \<notin> set ys" and d: "distinct ys" by simp_all
  have fn: "(\<lambda>k. if k - c \<in> set ys then h (k - c) ((a(c + y := h y (a (c + y)))) k)
                 else (a(c + y := h y (a (c + y)))) k)
      = (\<lambda>k. if k - c \<in> set (y # ys) then h (k - c) (a k) else a k)"
  proof (rule ext)
    fix k :: int
    have "k = c + y \<longleftrightarrow> k - c = y" by auto
    with y show "(if k - c \<in> set ys then h (k - c) ((a(c + y := h y (a (c + y)))) k)
                 else (a(c + y := h y (a (c + y)))) k)
      = (if k - c \<in> set (y # ys) then h (k - c) (a k) else a k)"
      by auto
  qed
  show ?case
    unfolding fold.simps(2) comp_apply Cons.IH [OF d] by (rule fn)
qed

lemma pointwise_rows_fold:
  fixes ns :: int and a :: "int \<Rightarrow> real"
  assumes "distinct xs"
  shows "fold (\<lambda>i a. (\<lambda>k. if k div ns = i then h i (k mod ns) (a k) else a k)) xs a
       = (\<lambda>k. if k div ns \<in> set xs then h (k div ns) (k mod ns) (a k) else a k)"
  using assms
proof (induction xs arbitrary: a)
  case Nil
  show ?case by simp
next
  case (Cons x xs)
  then have x: "x \<notin> set xs" and d: "distinct xs" by simp_all
  have fn: "(\<lambda>k. if k div ns \<in> set xs
                 then h (k div ns) (k mod ns)
                        (if k div ns = x then h x (k mod ns) (a k) else a k)
                 else if k div ns = x then h x (k mod ns) (a k) else a k)
      = (\<lambda>k. if k div ns \<in> set (x # xs) then h (k div ns) (k mod ns) (a k) else a k)"
    using x by (intro ext) auto
  show ?case
    unfolding fold.simps(2) comp_apply Cons.IH [OF d] by (rule fn)
qed

lemma nested_fold_pointwise:
  fixes ns :: int and a :: "int \<Rightarrow> real"
  assumes ns: "0 < ns"
  shows "fold (\<lambda>i. fold (\<lambda>j a. a(i * ns + j := h i j (a (i * ns + j)))) [0..ns - 1])
           [0..ns - 1] a
       = (\<lambda>k. if k div ns \<in> {0..ns - 1} then h (k div ns) (k mod ns) (a k) else a k)"
proof -
  have col: "fold (\<lambda>j a. a(i * ns + j := h i j (a (i * ns + j)))) [0..ns - 1]
      = (\<lambda>a k. if k div ns = i then h i (k mod ns) (a k) else a k)" for i
  proof (rule ext)
    fix a :: "int \<Rightarrow> real"
    have "fold (\<lambda>j a. a(i * ns + j := h i j (a (i * ns + j)))) [0..ns - 1] a
        = (\<lambda>k. if k - i * ns \<in> set [0..ns - 1] then h i (k - i * ns) (a k) else a k)"
      by (rule pointwise_col_fold) simp
    also have "\<dots> = (\<lambda>k. if k div ns = i then h i (k mod ns) (a k) else a k)"
    proof (rule ext)
      fix k
      show "(if k - i * ns \<in> set [0..ns - 1] then h i (k - i * ns) (a k) else a k)
          = (if k div ns = i then h i (k mod ns) (a k) else a k)"
        using idx_div [OF ns, of k i] idx_mod [of k ns] by auto
    qed
    finally show "fold (\<lambda>j a. a(i * ns + j := h i j (a (i * ns + j)))) [0..ns - 1] a
        = (\<lambda>k. if k div ns = i then h i (k mod ns) (a k) else a k)" .
  qed
  show ?thesis
    unfolding col by (simp add: pointwise_rows_fold)
qed

lemma fold_triple:
  "fold (\<lambda>j (m, r, f). (Fm j m, Fr j r, Ff j f)) ys (m, r, f)
   = (fold Fm ys m, fold Fr ys r, fold Ff ys f)"
  by (induction ys arbitrary: m r f) simp_all

lemma nested_fold_triple:
  "fold (\<lambda>i. fold (\<lambda>j (m, r, f). (Fm i j m, Fr i j r, Ff i j f)) ys) xs (m, r, f)
   = (fold (\<lambda>i. fold (Fm i) ys) xs m, fold (\<lambda>i. fold (Fr i) ys) xs r,
      fold (\<lambda>i. fold (Ff i) ys) xs f)"
  by (induction xs arbitrary: m r f) (simp_all add: fold_triple)

lemma upto_4_1: "[0..4 - 1] = [0..3::int]"
  by simp

lemma scale_rates_eq:
  "scale_rates c (m, r, f)
   = ((\<lambda>k. if k div 4 \<in> {0..3} then m k * c else m k),
      (\<lambda>k. if k div 4 \<in> {0..3} then r k * c else r k),
      (\<lambda>k. if k div 4 \<in> {0..3} then f k * c else f k))"
proof -
  have p: "fold (\<lambda>i. fold (\<lambda>j a. a(i * 4 + j := a (i * 4 + j) * c)) [0..4 - 1]) [0..4 - 1] a
      = (\<lambda>k. if k div 4 \<in> {0..4 - 1} then a k * c else a k)" for a :: "int \<Rightarrow> real"
    by (rule nested_fold_pointwise [of 4 "\<lambda>i j x. x * c"]) simp
  show ?thesis
    unfolding scale_rates_def n_alleles_def
      nested_fold_triple [of "\<lambda>i j m. m(i * 4 + j := m (i * 4 + j) * c)"
        "\<lambda>i j r. r(i * 4 + j := r (i * 4 + j) * c)"
        "\<lambda>i j f. f(i * 4 + j := f (i * 4 + j) * c)"] p
    by simp
qed

lemma divide_columns_Inr:
  assumes "pi_m 0 \<noteq> 0" "pi_m 1 \<noteq> 0" "pi_m 2 \<noteq> 0" "pi_m 3 \<noteq> 0"
  shows "divide_columns pi_m m
       = Inr (\<lambda>k. if k div 4 \<in> {0..3} then m k / pi_m (k mod 4) else m k)"
proof -
  have nz: "pi_m j \<noteq> 0" if "j \<in> set [0..4 - 1]" for j
  proof -
    from that have "j = 0 \<or> j = 1 \<or> j = 2 \<or> j = 3" by auto
    with assms show ?thesis by auto
  qed
  have col: "for_each [0..4 - 1]
        (\<lambda>j m. and_then (fdiv (m (i * 4 + j)) (pi_m j)) (\<lambda>q. Inr (m(i * 4 + j := q)))) m
      = Inr (fold (\<lambda>j m. m(i * 4 + j := m (i * 4 + j) / pi_m j)) [0..4 - 1] m)" for i m
    by (rule for_each_Inr) (simp add: fdiv_Inr [OF nz] del: upto_4_1)
  have "divide_columns pi_m m
      = Inr (fold (\<lambda>i. fold (\<lambda>j m. m(i * 4 + j := m (i * 4 + j) / pi_m j)) [0..4 - 1])
               [0..4 - 1] m)"
    unfolding divide_columns_def n_alleles_def by (rule for_each_Inr) (rule col)
  also have "fold (\<lambda>i. fold (\<lambda>j m. m(i * 4 + j := m (i * 4 + j) / pi_m j)) [0..4 - 1])
               [0..4 - 1] m
      = (\<lambda>k. if k div 4 \<in> {0..4 - 1} then m k / pi_m (k mod 4) else m k)"
    by (rule nested_fold_pointwise [of 4 "\<lambda>i j x. x / pi_m j"]) simp
  finally show ?thesis by simp
qed

lemma symmetric_part_eq:
  "symmetric_part m r
   = (\<lambda>k. if k div 4 \<in> {0..3}
           then (m (k div 4 * 4 + k mod 4) + m (k mod 4 * 4 + k div 4)) / 2 else r k)"
proof -
  have "symmetric_part m r
      = (\<lambda>k. if k div 4 \<in> {0..4 - 1}
           then (m (k div 4 * 4 + k mod 4) + m (k mod 4 * 4 + k div 4)) / 2 else r k)"
    unfolding symmetric_part_def n_alleles_def
    by (rule nested_fold_pointwise [of 4 "\<lambda>i j x. (m (i * 4 + j) + m (j * 4 + i)) / 2"]) simp
  then show ?thesis by simp
qed

lemma if_fun_upd: "(if c then f(x := a) else f(x := b)) = f(x := (if c then a else b))"
  by simp

lemma antisymmetric_part_eq:
  "antisymmetric_part m f
   = (\<lambda>k. if k div 4 \<in> {0..3}
           then (if k div 4 = k mod 4 then 0
                 else (m (k div 4 * 4 + k mod 4) - m (k mod 4 * 4 + k div 4)) / 2)
           else f k)"
proof -
  have "antisymmetric_part m f
      = (\<lambda>k. if k div 4 \<in> {0..4 - 1}
           then (if k div 4 = k mod 4 then 0
                 else (m (k div 4 * 4 + k mod 4) - m (k mod 4 * 4 + k div 4)) / 2)
           else f k)"
    unfolding antisymmetric_part_def n_alleles_def if_fun_upd
    by (rule nested_fold_pointwise
        [of 4 "\<lambda>i j x. if i = j then 0 else (m (i * 4 + j) - m (j * 4 + i)) / 2"]) simp
  then show ?thesis by simp
qed

lemma harmonic_pos:
  assumes "1 \<le> n"
  shows "0 < harmonic n"
proof -
  have "0 < (\<Sum>i = 1..n. 1 / real_of_int i)"
    by (rule sum_pos) (use assms in auto)
  then show ?thesis by (simp add: harmonic_sum)
qed

lemma symmetric_part_symmetric: "symmetric_rates (symmetric_part m r)"
  by (simp add: symmetric_rates_def spec_allele_pairs_def symmetric_part_eq)

lemma raw_mutation_rates_result:
  assumes "raw_mutation_rates st0 = Inr st1"
  shows "\<exists>m f. st1 = st0\<lparr>mutation_rate_matrix := m,
                   mutation_rate_matrix_sym := symmetric_part m (mutation_rate_matrix_sym st0),
                   mutation_rate_matrix_asy := f\<rparr>"
  using assms
  by (auto simp add: raw_mutation_rates_def Let_def and_then_def split: sum.splits)

lemma raw_mutation_rates_Inr:
  assumes "mm_state_freq (mutation_model st0) 0 \<noteq> 0" "mm_state_freq (mutation_model st0) 1 \<noteq> 0"
    "mm_state_freq (mutation_model st0) 2 \<noteq> 0" "mm_state_freq (mutation_model st0) 3 \<noteq> 0"
  shows "raw_mutation_rates st0
     = Inr (st0\<lparr>mutation_rate_matrix :=
                  (\<lambda>k. if k div 4 \<in> {0..3}
                        then getQMatrix (mutation_model st0) (mutation_rate_matrix st0) k
                             / mm_state_freq (mutation_model st0) (k mod 4)
                        else getQMatrix (mutation_model st0) (mutation_rate_matrix st0) k),
                mutation_rate_matrix_sym :=
                  symmetric_part
                    (\<lambda>k. if k div 4 \<in> {0..3}
                        then getQMatrix (mutation_model st0) (mutation_rate_matrix st0) k
                             / mm_state_freq (mutation_model st0) (k mod 4)
                        else getQMatrix (mutation_model st0) (mutation_rate_matrix st0) k)
                    (mutation_rate_matrix_sym st0),
                mutation_rate_matrix_asy :=
                  (if \<not> is_reversible st0
                   then antisymmetric_part
                    (\<lambda>k. if k div 4 \<in> {0..3}
                        then getQMatrix (mutation_model st0) (mutation_rate_matrix st0) k
                             / mm_state_freq (mutation_model st0) (k mod 4)
                        else getQMatrix (mutation_model st0) (mutation_rate_matrix st0) k)
                    (mutation_rate_matrix_asy st0)
                   else mutation_rate_matrix_asy st0)\<rparr>)"
  by (simp add: raw_mutation_rates_def Let_def divide_columns_Inr [OF assms])

lemma poly_mass:
  assumes n: "1 \<le> N st" and sym: "symmetric_rates (mutation_rate_matrix_sym st)"
  shows "(\<Sum>s = 4..num_states st - 1. stateFreq_value st nrm s)
       = nrm * computeSumFreqPolyStates st"
proof -
  let ?V = "stateFreq_value st nrm"
  have ns: "3 \<le> num_states st - 1"
    using n by (simp add: num_states_def num_states_of_eq)
  have split: "sum ?V {0..num_states st - 1} = sum ?V {0..3} + sum ?V {3 + 1..num_states st - 1}"
    using ns by (intro sum_split_int) simp_all
  have bnd: "sum ?V {0..3} = nrm * (\<Sum>a = 0..3. freq_boundary_states st a)"
    by (simp add: sum_0_3 stateFreq_value_def isBoundary_def algebra_simps)
  have tot: "sum ?V {0..num_states st - 1} = nrm * spec_Z st"
    unfolding stateFreq_value_total [OF n] by (simp add: spec_Z_def)
  have z: "spec_Z st = (\<Sum>a = 0..3. freq_boundary_states st a) + computeSumFreqPolyStates st"
    unfolding spec_Z_eq [OF sym, symmetric] by (simp add: computeSumFreqBoundaryStates_eq sum_0_3)
  from split bnd tot z show ?thesis by (simp add: algebra_simps)
qed


lemma computeSumFreqPolyStates_scaled:
  assumes "freq_boundary_states st' = freq_boundary_states st" "N st' = N st"
    "mutation_rate_matrix_sym st'
     = (\<lambda>k. if k div 4 \<in> {0..3} then mutation_rate_matrix_sym st k * c
             else mutation_rate_matrix_sym st k)"
  shows "computeSumFreqPolyStates st' = c * computeSumFreqPolyStates st"
  by (simp add: computeSumFreqPolyStates_eq assms algebra_simps)

lemma symmetric_scaled:
  assumes "symmetric_rates r"
  shows "symmetric_rates (\<lambda>k. if k div 4 \<in> {0..3} then r k * c else r k)"
  using assms by (simp add: symmetric_rates_def spec_allele_pairs_def)

lemma normalizeMutationRates_Inr:
  assumes raw: "raw_mutation_rates st0 = Inr st1"
    and n: "2 \<le> N st0"
    and b: "computeSumFreqBoundaryStates st0 = 1"
    and p: "computeSumFreqPolyStates st1 \<noteq> 0"
    and z: "1 + computeSumFreqPolyStates st1 \<noteq> 0"
    and h: "harmonic (N st0 - 1) * theta st0 \<noteq> 1"
  shows "\<exists>st'. normalizeMutationRates st0 = Inr st'
      \<and> theta st' = theta st0 \<and> N st' = N st0
      \<and> computeSumFreqPolyStates st'
        = harmonic (N st0 - 1) * theta st0 / (1 - harmonic (N st0 - 1) * theta st0)
      \<and> computeNormConst st' = Inr (1 - harmonic (N st0 - 1) * theta st0)
      \<and> (\<Sum>s = 4..num_states st' - 1. state_freq st' s) = harmonic (N st0 - 1) * theta st0
      \<and> (\<exists>sf. st' = (rescaled (theta st0 / (computeSumFreqPolyStates st1 / harmonic (N st0 - 1)
                                   * (1 - harmonic (N st0 - 1) * theta st0))) st1)
                         \<lparr>state_freq := sf\<rparr>)"
proof -
  define H where "H = harmonic (N st0 - 1)"
  define P where "P = computeSumFreqPolyStates st1"
  define c where "c = theta st0 / (P / H * (1 - H * theta st0))"
  have Hpos: "0 < H" unfolding H_def using n by (intro harmonic_pos) simp
  have h': "1 - H * theta st0 \<noteq> 0" using h by (simp add: H_def)
  have P0: "P \<noteq> 0" using p by (simp add: P_def)
  from raw_mutation_rates_result [OF raw] obtain m f where
    st1: "st1 = st0\<lparr>mutation_rate_matrix := m,
                   mutation_rate_matrix_sym := symmetric_part m (mutation_rate_matrix_sym st0),
                   mutation_rate_matrix_asy := f\<rparr>"
    by blast
  have fr1: "N st1 = N st0" "theta st1 = theta st0"
      "freq_boundary_states st1 = freq_boundary_states st0"
      "mutation_model st1 = mutation_model st0"
    by (simp_all add: st1 freq_boundary_states_def)
  have sym1: "symmetric_rates (mutation_rate_matrix_sym st1)"
    by (simp add: st1 symmetric_part_symmetric)
  have b1: "computeSumFreqBoundaryStates st1 = 1"
    using b by (simp add: computeSumFreqBoundaryStates_eq fr1)
  have n1: "1 \<le> N st1" using n by (simp add: fr1)
  have z1: "computeSumFreqBoundaryStates st1 + computeSumFreqPolyStates st1 \<noteq> 0"
    using z by (simp add: b1)
  define st2 where "st2 = st1\<lparr>state_freq := (\<lambda>k. if k \<in> {0..num_states st1 - 1}
        then stateFreq_value st1
               (1 / (computeSumFreqBoundaryStates st1 + computeSumFreqPolyStates st1)) k
        else state_freq st1 k)\<rparr>"
  have csf1: "computeStateFreq st1 = Inr st2"
    unfolding st2_def by (rule computeStateFreq_Inr [OF n1 z1])
  have fr2: "N st2 = N st0" "theta st2 = theta st0"
      "freq_boundary_states st2 = freq_boundary_states st0"
      "mutation_rate_matrix_sym st2 = mutation_rate_matrix_sym st1"
      "mutation_model st2 = mutation_model st0"
    by (simp_all add: st2_def fr1 freq_boundary_states_def)
  have P2: "computeSumFreqPolyStates st2 = P"
    by (simp add: computeSumFreqPolyStates_eq fr2 fr1 P_def)
  have d1: "fdiv P H = Inr (P / H)" using Hpos by (simp add: fdiv_def)
  have d2: "fdiv (theta st0) (P / H * (1 - H * theta st0)) = Inr c"
    using Hpos P0 h' by (simp add: fdiv_def c_def)
  define st3 where "st3 = st2\<lparr>
      mutation_rate_matrix := (\<lambda>k. if k div 4 \<in> {0..3} then mutation_rate_matrix st2 k * c
                                   else mutation_rate_matrix st2 k),
      mutation_rate_matrix_sym := (\<lambda>k. if k div 4 \<in> {0..3} then mutation_rate_matrix_sym st2 k * c
                                   else mutation_rate_matrix_sym st2 k),
      mutation_rate_matrix_asy := (\<lambda>k. if k div 4 \<in> {0..3} then mutation_rate_matrix_asy st2 k * c
                                   else mutation_rate_matrix_asy st2 k)\<rparr>"
  have step: "normalizeMutationRates st0 = computeStateFreq st3"
    unfolding normalizeMutationRates_def raw and_then_Inr csf1 Let_def P2 fr2 H_def [symmetric]
      d1 mult_1 d2 scale_rates_eq prod.case st3_def ..
  have fr3a: "N st3 = N st0" "theta st3 = theta st0"
    by (simp_all add: st3_def fr2)
  have "mutation_model st3 = mutation_model st2" by (simp add: st3_def)
  then have fr3b: "freq_boundary_states st3 = freq_boundary_states st1"
    by (simp add: freq_boundary_states_def fr2(5) fr1(4))
  have "mutation_rate_matrix_sym st3
       = (\<lambda>k. if k div 4 \<in> {0..3} then mutation_rate_matrix_sym st2 k * c
               else mutation_rate_matrix_sym st2 k)"
    by (simp add: st3_def)
  then have fr3c: "mutation_rate_matrix_sym st3
       = (\<lambda>k. if k div 4 \<in> {0..3} then mutation_rate_matrix_sym st1 k * c
               else mutation_rate_matrix_sym st1 k)"
    unfolding fr2(4) .
  note fr3 = fr3a fr3b fr3c
  have P3: "computeSumFreqPolyStates st3 = c * P"
    unfolding P_def
    by (rule computeSumFreqPolyStates_scaled [OF fr3(3) _ fr3(4)]) (simp add: fr3 fr1)
  have cP: "c * P = H * theta st0 / (1 - H * theta st0)"
    using Hpos P0 h' by (simp add: c_def field_simps)
  have b3: "computeSumFreqBoundaryStates st3 = 1"
    using b1 by (simp add: computeSumFreqBoundaryStates_eq fr3)
  have Z3: "computeSumFreqBoundaryStates st3 + computeSumFreqPolyStates st3
      = 1 / (1 - H * theta st0)"
    unfolding b3 P3 cP using h' by (simp add: field_simps)
  have z3: "computeSumFreqBoundaryStates st3 + computeSumFreqPolyStates st3 \<noteq> 0"
    unfolding Z3 using h' by simp
  have n3: "1 \<le> N st3" using n by (simp add: fr3)
  have sym3: "symmetric_rates (mutation_rate_matrix_sym st3)"
    unfolding fr3(4) by (rule symmetric_scaled [OF sym1])
  define st' where "st' = st3\<lparr>state_freq := (\<lambda>k. if k \<in> {0..num_states st3 - 1}
        then stateFreq_value st3
               (1 / (computeSumFreqBoundaryStates st3 + computeSumFreqPolyStates st3)) k
        else state_freq st3 k)\<rparr>"
  have csf3: "computeStateFreq st3 = Inr st'"
    unfolding st'_def by (rule computeStateFreq_Inr [OF n3 z3])
  have nrm: "1 / (computeSumFreqBoundaryStates st3 + computeSumFreqPolyStates st3)
      = 1 - H * theta st0"
    unfolding Z3 by simp
  have fr': "N st' = N st0" "theta st' = theta st0" "num_states st' = num_states st3"
    by (simp_all add: st'_def fr3 num_states_def)
  have P': "computeSumFreqPolyStates st' = c * P"
    unfolding P3 [symmetric]
    by (simp add: computeSumFreqPolyStates_eq st'_def freq_boundary_states_def)
  have B': "computeSumFreqBoundaryStates st' = 1"
    unfolding b3 [symmetric]
    by (simp add: computeSumFreqBoundaryStates_eq st'_def freq_boundary_states_def)
  have nc: "computeNormConst st' = Inr (1 - H * theta st0)"
    unfolding computeNormConst_def Let_def B' P' cP
    using h' by (simp add: fdiv_def field_simps)
  have "(\<Sum>s = 4..num_states st' - 1. state_freq st' s)
      = (\<Sum>s = 4..num_states st3 - 1. stateFreq_value st3 (1 - H * theta st0) s)"
    unfolding fr'(3) by (rule sum.cong) (simp_all add: st'_def nrm)
  also have "\<dots> = (1 - H * theta st0) * computeSumFreqPolyStates st3"
    by (rule poly_mass [OF n3 sym3])
  also have "\<dots> = H * theta st0"
    unfolding P3 cP using h' by simp
  finally have mass: "(\<Sum>s = 4..num_states st' - 1. state_freq st' s) = H * theta st0" .
  have m2: "mutation_rate_matrix st2 = mutation_rate_matrix st1"
      "mutation_rate_matrix_asy st2 = mutation_rate_matrix_asy st1"
    by (simp_all add: st2_def)
  have s3: "st3 = (rescaled c st1)\<lparr>state_freq := state_freq st2\<rparr>"
    unfolding st3_def m2 fr2(4) by (simp add: st2_def rescaled_def)
  have "st' = (rescaled c st1)\<lparr>state_freq := state_freq st'\<rparr>"
    by (simp add: st'_def s3)
  then have shape: "\<exists>sf. st' = (rescaled c st1)\<lparr>state_freq := sf\<rparr>"
    by (rule exI [of _ "state_freq st'"])
  from step csf3 fr' P' cP nc mass shape show ?thesis
    unfolding H_def c_def P_def by simp
qed


lemma example_raw:
  obtains st1 where "raw_mutation_rates example_pomo = Inr st1"
    "computeSumFreqPolyStates st1 = 9 / 8"
proof -
  have nz: "mm_state_freq (mutation_model example_pomo) 0 \<noteq> 0"
    "mm_state_freq (mutation_model example_pomo) 1 \<noteq> 0"
    "mm_state_freq (mutation_model example_pomo) 2 \<noteq> 0"
    "mm_state_freq (mutation_model example_pomo) 3 \<noteq> 0"
    by (simp_all add: example_pomo_def example_mm_def)
  define st1 where "st1 = projr (raw_mutation_rates example_pomo)"
  have raw: "raw_mutation_rates example_pomo = Inr st1"
    unfolding st1_def raw_mutation_rates_Inr [OF nz] by simp
  have "computeSumFreqPolyStates st1 = 9 / 8"
    unfolding st1_def raw_mutation_rates_Inr [OF nz] sum.sel
    by (simp add: computeSumFreqPolyStates_eq symmetric_part_eq getQMatrix_def n_alleles_def
        freq_boundary_states_def harmonic_sum)
       (simp add: example_pomo_def example_mm_def sum_list_upto [symmetric] upto.simps)
  with raw show ?thesis by (rule that)
qed

lemma example_hyps:
  "2 \<le> N example_pomo" "computeSumFreqBoundaryStates example_pomo = 1"
  "harmonic (N example_pomo - 1) = 3 / 2" "theta example_pomo = 1 / 10"
  by (simp_all add: example_pomo_def example_mm_def computeSumFreqBoundaryStates_eq
      freq_boundary_states_def harmonic_sum sum_list_upto [symmetric] upto.simps)

text \<open>
  On the small instance (N = 3, theta = 1/10) normalizeMutationRates leaves
  \<open>computeSumFreqPolyStates() / H(N - 1)\<close> at 2/17, which is not the target theta.
\<close>

theorem C4_counterexample:
  "\<exists>st'. normalizeMutationRates example_pomo = Inr st'
      \<and> theta st' = 1 / 10
      \<and> computeSumFreqPolyStates st' / harmonic (N st' - 1) = 2 / 17
      \<and> computeSumFreqPolyStates st' / harmonic (N st' - 1) \<noteq> theta st'"
proof -
  obtain st1 where raw: "raw_mutation_rates example_pomo = Inr st1"
    and p: "computeSumFreqPolyStates st1 = 9 / 8"
    by (rule example_raw)
  have h: "harmonic (N example_pomo - 1) * theta example_pomo \<noteq> 1"
    by (simp add: example_hyps)
  from normalizeMutationRates_Inr [OF raw example_hyps(1,2) _ _ h]
  obtain st' where "normalizeMutationRates example_pomo = Inr st'"
    "theta st' = theta example_pomo" "N st' = N example_pomo"
    "computeSumFreqPolyStates st'
        = harmonic (N example_pomo - 1) * theta example_pomo
          / (1 - harmonic (N example_pomo - 1) * theta example_pomo)"
    unfolding p by auto
  then show ?thesis by (simp add: example_hyps)
qed


text \<open>
  C4. When the raw rates are finite, \<open>N \<ge> 2\<close>, the boundary frequencies sum to 1, the raw
  polymorphism mass is neither 0 nor \<open>-1\<close> and \<open>H(N - 1) theta \<noteq> 1\<close>:
  normalizeMutationRates succeeds and leaves
  \<open>computeSumFreqPolyStates() / H(N - 1) = theta / (1 - H(N - 1) theta)\<close>; it is the
  polymorphism mass times the normalisation constant, which is the total stationary
  frequency of the polymorphic states, that divided by \<open>H(N - 1)\<close> equals theta. The flag
  that fixes theta plays no part.
\<close>

theorem C4_normalized_polymorphism:
  assumes raw: "raw_mutation_rates st0 = Inr st1"
    and n: "2 \<le> N st0"
    and b: "computeSumFreqBoundaryStates st0 = 1"
    and p: "computeSumFreqPolyStates st1 \<noteq> 0"
    and z: "1 + computeSumFreqPolyStates st1 \<noteq> 0"
    and h: "harmonic (N st0 - 1) * theta st0 \<noteq> 1"
  shows "\<exists>st'. normalizeMutationRates st0 = Inr st'
      \<and> computeSumFreqPolyStates st' / harmonic (N st' - 1)
        = theta st0 / (1 - harmonic (N st0 - 1) * theta st0)
      \<and> computeNormConst st' = Inr (1 - harmonic (N st0 - 1) * theta st0)
      \<and> computeSumFreqPolyStates st' * (1 - harmonic (N st0 - 1) * theta st0)
          / harmonic (N st' - 1) = theta st0
      \<and> (\<Sum>s = 4..num_states st' - 1. state_freq st' s) / harmonic (N st' - 1) = theta st0"
proof -
  define H where "H = harmonic (N st0 - 1)"
  have Hpos: "0 < H" unfolding H_def using n by (intro harmonic_pos) simp
  have h': "1 - H * theta st0 \<noteq> 0" using h by (simp add: H_def)
  from normalizeMutationRates_Inr [OF raw n b p z h] obtain st' where
    run: "normalizeMutationRates st0 = Inr st'" and n': "N st' = N st0"
    and P: "computeSumFreqPolyStates st' = H * theta st0 / (1 - H * theta st0)"
    and nc: "computeNormConst st' = Inr (1 - H * theta st0)"
    and mass: "(\<Sum>s = 4..num_states st' - 1. state_freq st' s) = H * theta st0"
    unfolding H_def by blast
  have 1: "computeSumFreqPolyStates st' / harmonic (N st' - 1)
      = theta st0 / (1 - H * theta st0)"
    unfolding n' H_def [symmetric] P using Hpos by simp
  have 2: "computeSumFreqPolyStates st' * (1 - H * theta st0) / harmonic (N st' - 1) = theta st0"
    unfolding n' H_def [symmetric] P using Hpos h' by simp
  have 3: "(\<Sum>s = 4..num_states st' - 1. state_freq st' s) / harmonic (N st' - 1) = theta st0"
    unfolding n' H_def [symmetric] mass using Hpos by simp
  from run 1 nc 2 3 show ?thesis unfolding H_def by blast
qed

theorem C4_normalized_polymorphism_witness:
  "\<exists>st1. raw_mutation_rates example_pomo = Inr st1
      \<and> 2 \<le> N example_pomo \<and> computeSumFreqBoundaryStates example_pomo = 1
      \<and> computeSumFreqPolyStates st1 = 9 / 8
      \<and> harmonic (N example_pomo - 1) * theta example_pomo = 3 / 20
      \<and> (\<exists>st'. normalizeMutationRates example_pomo = Inr st'
            \<and> computeNormConst st' = Inr (17 / 20)
            \<and> computeSumFreqPolyStates st' * (17 / 20) / harmonic (N st' - 1) = 1 / 10
            \<and> (\<Sum>s = 4..num_states st' - 1. state_freq st' s) / harmonic (N st' - 1) = 1 / 10)"
proof -
  obtain st1 where raw: "raw_mutation_rates example_pomo = Inr st1"
    and p: "computeSumFreqPolyStates st1 = 9 / 8"
    by (rule example_raw)
  have ht: "harmonic (N example_pomo - 1) * theta example_pomo = 3 / 20"
    by (simp add: example_hyps)
  then have h: "harmonic (N example_pomo - 1) * theta example_pomo \<noteq> 1" by simp
  have p0: "computeSumFreqPolyStates st1 \<noteq> 0" "1 + computeSumFreqPolyStates st1 \<noteq> 0"
    by (simp_all add: p)
  from C4_normalized_polymorphism [OF raw example_hyps(1,2) p0 h] obtain st' where
    run: "normalizeMutationRates example_pomo = Inr st'"
    and nc: "computeNormConst st'
        = Inr (1 - harmonic (N example_pomo - 1) * theta example_pomo)"
      "computeSumFreqPolyStates st'
         * (1 - harmonic (N example_pomo - 1) * theta example_pomo)
         / harmonic (N st' - 1) = theta example_pomo"
    and mass: "(\<Sum>s = 4..num_states st' - 1. state_freq st' s) / harmonic (N st' - 1)
        = theta example_pomo"
    by blast
  have e: "1 - harmonic (N example_pomo - 1) * (1 / 10) = (17 / 20 :: real)"
    by (simp add: example_hyps(3))
  note nc' = nc [unfolded example_hyps(4), unfolded e]
    and mass' = mass [unfolded example_hyps(4)]
  have inner: "\<exists>st'. normalizeMutationRates example_pomo = Inr st'
            \<and> computeNormConst st' = Inr (17 / 20)
            \<and> computeSumFreqPolyStates st' * (17 / 20) / harmonic (N st' - 1) = 1 / 10
            \<and> (\<Sum>s = 4..num_states st' - 1. state_freq st' s) / harmonic (N st' - 1) = 1 / 10"
    using run nc' mass' by (intro exI [of _ st'] conjI)
  show ?thesis
  proof (rule exI [of _ st1], intro conjI)
  qed (fact raw example_hyps(1,2) p ht inner)+
qed

section \<open>The parameter interface and the decomposition\<close>

lemma example_pipeline:
  obtains st' st'' where
    "normalizeMutationRates (example_pomo\<lparr>theta := 1 / 5\<rparr>) = Inr st'"
    "updatePoMoStatesAndRateMatrix st' = Inr st''"
proof -
  let ?e = "example_pomo\<lparr>theta := 1 / 5\<rparr>"
  have nz: "mm_state_freq (mutation_model ?e) 0 \<noteq> 0"
    "mm_state_freq (mutation_model ?e) 1 \<noteq> 0"
    "mm_state_freq (mutation_model ?e) 2 \<noteq> 0"
    "mm_state_freq (mutation_model ?e) 3 \<noteq> 0"
    by (simp_all add: example_pomo_def example_mm_def)
  define st1 where "st1 = projr (raw_mutation_rates ?e)"
  have raw: "raw_mutation_rates ?e = Inr st1"
    unfolding st1_def raw_mutation_rates_Inr [OF nz] by simp
  have p: "computeSumFreqPolyStates st1 = 9 / 8"
    unfolding st1_def raw_mutation_rates_Inr [OF nz] sum.sel
    by (simp add: computeSumFreqPolyStates_eq symmetric_part_eq getQMatrix_def n_alleles_def
        freq_boundary_states_def harmonic_sum)
       (simp add: example_pomo_def example_mm_def sum_list_upto [symmetric] upto.simps)
  have hy: "2 \<le> N ?e" "computeSumFreqBoundaryStates ?e = 1"
    "harmonic (N ?e - 1) = 3 / 2" "theta ?e = 1 / 5"
    by (simp_all add: example_pomo_def example_mm_def computeSumFreqBoundaryStates_eq
      freq_boundary_states_def harmonic_sum sum_list_upto [symmetric] upto.simps)
  have h: "harmonic (N ?e - 1) * theta ?e \<noteq> 1" unfolding hy by simp
  have p0: "computeSumFreqPolyStates st1 \<noteq> 0" "1 + computeSumFreqPolyStates st1 \<noteq> 0"
    by (simp_all add: p)
  have c: "theta ?e / (computeSumFreqPolyStates st1 / harmonic (N ?e - 1)
                                   * (1 - harmonic (N ?e - 1) * theta ?e)) = 8 / 21"
    unfolding hy p by simp
  from normalizeMutationRates_Inr [OF raw hy(1,2) p0 h] obtain st' sf where
    run: "normalizeMutationRates ?e = Inr st'"
    and nc: "computeNormConst st' = Inr (1 - harmonic (N ?e - 1) * theta ?e)"
    and shape: "st' = (rescaled (8 / 21) st1)\<lparr>state_freq := sf\<rparr>"
    unfolding c by blast
  have nc': "computeNormConst st' = Inr (7 / 10)"
    using nc unfolding hy by simp
  define Z where "Z = computeSumFreqBoundaryStates st' + computeSumFreqPolyStates st'"
  from nc' have Z: "Z \<noteq> 0" "1 / Z = 7 / 10"
    by (auto simp add: computeNormConst_def Let_def fdiv_def Z_def split: if_splits)
  have n': "1 \<le> N st'"
    unfolding shape st1_def raw_mutation_rates_Inr [OF nz] sum.sel
    by (simp add: rescaled_def example_pomo_def)
  define st2 where "st2 = st'\<lparr>state_freq := (\<lambda>k. if k \<in> {0..num_states st' - 1}
        then stateFreq_value st' (7 / 10) k else state_freq st' k)\<rparr>"
  have csf: "computeStateFreq st' = Inr st2"
    using computeStateFreq_Inr [OF n' Z(1) [unfolded Z_def]]
    unfolding Z_def [symmetric] Z(2) st2_def .
  have tot: "tot_sum_of st2 = 3 / 5"
    unfolding st2_def shape st1_def raw_mutation_rates_Inr [OF nz] sum.sel
    by (simp add: tot_sum_of_def row_sum_of_list sum_list_upto [symmetric]
     num_states_def num_states_of_eq upto.simps stateFreq_value_def isBoundary_def
     transition_rate_def computeProbBoundaryMutation_def decomposeState_def
     rescaled_def symmetric_part_eq getQMatrix_def
     example_pomo_def example_mm_def mutCoeff_def freq_boundary_states_def n_alleles_def fdiv_def)
  then have t: "tot_sum_of st2 \<noteq> 0" by simp
  have n2: "1 \<le> N st2" using n' by (simp add: st2_def)
  from updatePoMoStatesAndRateMatrix_Inr [OF csf n2 t] run show ?thesis
    by (rule that [rotated])
qed

lemma and_then_eq_Inr: "and_then m f = Inr y \<longleftrightarrow> (\<exists>x. m = Inr x \<and> f x = Inr y)"
  by (cases m) simp_all

lemma updatePoMoStatesAndRateMatrix_frame:
  assumes "updatePoMoStatesAndRateMatrix st0 = Inr st'"
  shows "\<exists>sf rm. st' = st0\<lparr>state_freq := sf, rate_matrix := rm\<rparr>"
proof -
  from assms obtain st where csf: "computeStateFreq st0 = Inr st"
    and rest: "and_then (for_each [0..num_states st - 1] (rateMatrix_row st) (rate_matrix st, 0))
      (\<lambda>(rm, tot_sum).
    and_then (rateMatrix_scale st tot_sum rm)
      (\<lambda>rm. Inr (st\<lparr>rate_matrix := rm\<rparr>))) = Inr st'"
    unfolding updatePoMoStatesAndRateMatrix_def and_then_eq_Inr by blast
  from rest obtain rm where "st' = st\<lparr>rate_matrix := rm\<rparr>"
    by (auto simp add: and_then_eq_Inr split: prod.splits)
  moreover from computeStateFreq_frame [OF csf] obtain sf where "st = st0\<lparr>state_freq := sf\<rparr>"
    by blast
  ultimately show ?thesis by blast
qed

lemma normalizeMutationRates_frame:
  assumes "normalizeMutationRates st0 = Inr st'"
  shows "\<exists>m r f sf. st' = st0\<lparr>mutation_rate_matrix := m, mutation_rate_matrix_sym := r,
                     mutation_rate_matrix_asy := f, state_freq := sf\<rparr>"
proof -
  from assms obtain st1 st2 theta_bm m_norm where raw: "raw_mutation_rates st0 = Inr st1"
    and csf: "computeStateFreq st1 = Inr st2"
    and fin: "(case scale_rates m_norm
                   (mutation_rate_matrix st2, mutation_rate_matrix_sym st2,
                    mutation_rate_matrix_asy st2) of
              (m, r, f) \<Rightarrow>
                computeStateFreq
                  (st2\<lparr>mutation_rate_matrix := m, mutation_rate_matrix_sym := r,
                        mutation_rate_matrix_asy := f\<rparr>)) = Inr st'"
    unfolding normalizeMutationRates_def and_then_eq_Inr Let_def by blast
  obtain m r f where "scale_rates m_norm
                   (mutation_rate_matrix st2, mutation_rate_matrix_sym st2,
                    mutation_rate_matrix_asy st2) = (m, r, f)"
    by (cases "scale_rates m_norm
                   (mutation_rate_matrix st2, mutation_rate_matrix_sym st2,
                    mutation_rate_matrix_asy st2)") auto
  with fin have "computeStateFreq (st2\<lparr>mutation_rate_matrix := m, mutation_rate_matrix_sym := r,
                        mutation_rate_matrix_asy := f\<rparr>) = Inr st'"
    by simp
  from computeStateFreq_frame [OF this] obtain sf where
    1: "st' = st2\<lparr>mutation_rate_matrix := m, mutation_rate_matrix_sym := r,
                        mutation_rate_matrix_asy := f, state_freq := sf\<rparr>"
    by auto
  from computeStateFreq_frame [OF csf] obtain sf2 where 2: "st2 = st1\<lparr>state_freq := sf2\<rparr>"
    by blast
  from raw_mutation_rates_result [OF raw] obtain m1 f1 where
    3: "st1 = st0\<lparr>mutation_rate_matrix := m1,
                   mutation_rate_matrix_sym := symmetric_part m1 (mutation_rate_matrix_sym st0),
                   mutation_rate_matrix_asy := f1\<rparr>"
    by blast
  have "st' = st0\<lparr>mutation_rate_matrix := m, mutation_rate_matrix_sym := r,
                     mutation_rate_matrix_asy := f, state_freq := sf\<rparr>"
    unfolding 1 2 3 by simp
  then show ?thesis by blast
qed

lemma rebuild_frame:
  assumes "and_then (normalizeMutationRates st0) updatePoMoStatesAndRateMatrix = Inr st'"
  shows "theta st' = theta st0 \<and> trace st' = trace st0
       \<and> mutation_model st' = mutation_model st0 \<and> fixed_theta st' = fixed_theta st0
       \<and> is_reversible st' = is_reversible st0 \<and> N st' = N st0"
proof -
  from assms obtain st1 where 1: "normalizeMutationRates st0 = Inr st1"
    and 2: "updatePoMoStatesAndRateMatrix st1 = Inr st'"
    unfolding and_then_eq_Inr by blast
  from normalizeMutationRates_frame [OF 1] updatePoMoStatesAndRateMatrix_frame [OF 2]
  show ?thesis by auto
qed


lemma getVariables_unfixed:
  assumes "\<not> fixed_theta st" "mm_getVariables variables (mutation_model st) = (changed, mm)"
  shows "getVariables mm_getVariables variables st
     = (changed \<or> theta st \<noteq> variables (getNDim (st\<lparr>mutation_model := mm\<rparr>) + 1),
        and_then (normalizeMutationRates
                    (st\<lparr>mutation_model := mm,
                        theta := variables (getNDim (st\<lparr>mutation_model := mm\<rparr>))\<rparr>))
          updatePoMoStatesAndRateMatrix)"
  using assms by (simp add: getVariables_def Let_def)

lemma getVariables_fixed:
  assumes "fixed_theta st" "mm_getVariables variables (mutation_model st) = (changed, mm)"
  shows "getVariables mm_getVariables variables st
     = (changed,
        and_then (normalizeMutationRates (st\<lparr>mutation_model := mm\<rparr>))
          updatePoMoStatesAndRateMatrix)"
  using assms by (simp add: getVariables_def Let_def)

lemma example_getVariables:
  obtains st' where
    "getVariables example_mm_getVariables example_variables example_pomo = (False, Inr st')"
    "theta st' = 1 / 5" "trace st' = []"
proof -
  have u: "\<not> fixed_theta example_pomo" by (simp add: example_pomo_def)
  have g: "example_mm_getVariables example_variables (mutation_model example_pomo)
      = (False, mutation_model example_pomo)"
    by (simp add: example_mm_getVariables_def)
  have nd: "getNDim (example_pomo\<lparr>mutation_model := mutation_model example_pomo\<rparr>) = 1"
    by (simp add: getNDim_def example_pomo_def example_mm_def)
  have th: "theta example_pomo = example_variables (1 + 1)"
    by (simp add: example_pomo_def example_variables_def)
  have st: "example_pomo\<lparr>mutation_model := mutation_model example_pomo,
                        theta := example_variables 1\<rparr> = example_pomo\<lparr>theta := 1 / 5\<rparr>"
    by (simp add: example_variables_def)
  obtain st1 st' where 1: "normalizeMutationRates (example_pomo\<lparr>theta := 1 / 5\<rparr>) = Inr st1"
    and 2: "updatePoMoStatesAndRateMatrix st1 = Inr st'"
    by (rule example_pipeline)
  have run: "and_then (normalizeMutationRates (example_pomo\<lparr>theta := 1 / 5\<rparr>))
      updatePoMoStatesAndRateMatrix = Inr st'"
    by (simp add: 1 2)
  have "getVariables example_mm_getVariables example_variables example_pomo = (False, Inr st')"
    unfolding getVariables_unfixed
        [where mm_getVariables = example_mm_getVariables and variables = example_variables,
          OF u g] nd st run
    using th by simp
  moreover from rebuild_frame [OF run] have "theta st' = 1 / 5" "trace st' = []"
    by (simp_all add: example_pomo_def)
  ultimately show ?thesis by (rule that)
qed

text \<open>
  C10. When theta is not fixed, for every vector and every prior theta: the flag that
  getVariables returns is the underlying model's flag or'ed with the comparison of the
  prior theta to the entry at index \<open>getNDim() + 1\<close>, while the model's theta after a
  successful rebuild is the entry at index \<open>getNDim()\<close>; and there is an input that
  changes theta while the flag is just the underlying model's flag.
\<close>

theorem C10_theta_flag_mismatch:
  assumes u: "\<not> fixed_theta st"
    and g: "mm_getVariables variables (mutation_model st) = (changed, mm)"
  shows "fst (getVariables mm_getVariables variables st)
         = (changed \<or> theta st \<noteq> variables (getNDim (st\<lparr>mutation_model := mm\<rparr>) + 1))
     \<and> (\<forall>st'. snd (getVariables mm_getVariables variables st) = Inr st'
           \<longrightarrow> theta st' = variables (getNDim (st\<lparr>mutation_model := mm\<rparr>)))
     \<and> (\<exists>v0 st0 st0'. \<not> fixed_theta st0
           \<and> snd (getVariables example_mm_getVariables v0 st0) = Inr st0'
           \<and> theta st0' = v0 (getNDim st0) \<and> theta st0' \<noteq> theta st0
           \<and> fst (getVariables example_mm_getVariables v0 st0)
             = fst (example_mm_getVariables v0 (mutation_model st0)))"
proof (intro conjI allI impI)
  show "fst (getVariables mm_getVariables variables st)
         = (changed \<or> theta st \<noteq> variables (getNDim (st\<lparr>mutation_model := mm\<rparr>) + 1))"
    by (simp add: getVariables_unfixed
        [where mm_getVariables = mm_getVariables and variables = variables, OF u g])
next
  fix st' assume "snd (getVariables mm_getVariables variables st) = Inr st'"
  then have "and_then (normalizeMutationRates
                    (st\<lparr>mutation_model := mm,
                        theta := variables (getNDim (st\<lparr>mutation_model := mm\<rparr>))\<rparr>))
          updatePoMoStatesAndRateMatrix = Inr st'"
    by (simp add: getVariables_unfixed
        [where mm_getVariables = mm_getVariables and variables = variables, OF u g])
  from rebuild_frame [OF this]
  show "theta st' = variables (getNDim (st\<lparr>mutation_model := mm\<rparr>))" by simp
next
  obtain st' where 1: "getVariables example_mm_getVariables example_variables example_pomo
      = (False, Inr st')" and 2: "theta st' = 1 / 5"
    by (rule example_getVariables)
  have f1: "\<not> fixed_theta example_pomo" by (simp add: example_pomo_def)
  have f2: "snd (getVariables example_mm_getVariables example_variables example_pomo) = Inr st'"
    by (simp add: 1)
  have nd: "getNDim example_pomo = 1"
    by (simp add: getNDim_def example_pomo_def example_mm_def)
  have f3: "theta st' = example_variables (getNDim example_pomo)"
    unfolding nd 2 by (simp add: example_variables_def)
  have f4: "theta st' \<noteq> theta example_pomo"
    unfolding 2 by (simp add: example_pomo_def)
  have f5: "fst (getVariables example_mm_getVariables example_variables example_pomo)
             = fst (example_mm_getVariables example_variables (mutation_model example_pomo))"
    by (simp add: 1 example_mm_getVariables_def)
  from f1 f2 f3 f4 f5
  have "\<not> fixed_theta example_pomo
           \<and> snd (getVariables example_mm_getVariables example_variables example_pomo) = Inr st'
           \<and> theta st' = example_variables (getNDim example_pomo)
           \<and> theta st' \<noteq> theta example_pomo
           \<and> fst (getVariables example_mm_getVariables example_variables example_pomo)
             = fst (example_mm_getVariables example_variables (mutation_model example_pomo))"
    by (intro conjI)
  then show "\<exists>v0 st0 st0'. \<not> fixed_theta st0
           \<and> snd (getVariables example_mm_getVariables v0 st0) = Inr st0'
           \<and> theta st0' = v0 (getNDim st0) \<and> theta st0' \<noteq> theta st0
           \<and> fst (getVariables example_mm_getVariables v0 st0)
             = fst (example_mm_getVariables v0 (mutation_model st0))"
    by blast
qed

theorem C10_theta_flag_mismatch_witness:
  "\<not> fixed_theta example_pomo
   \<and> example_mm_getVariables example_variables (mutation_model example_pomo)
     = (False, example_mm)
   \<and> getNDim (example_pomo\<lparr>mutation_model := example_mm\<rparr>) = 1
   \<and> fst (getVariables example_mm_getVariables example_variables example_pomo)
     = (theta example_pomo \<noteq> example_variables 2)
   \<and> \<not> fst (getVariables example_mm_getVariables example_variables example_pomo)
   \<and> (\<exists>st'. snd (getVariables example_mm_getVariables example_variables example_pomo) = Inr st'
          \<and> theta st' = example_variables 1 \<and> theta st' \<noteq> theta example_pomo)"
proof -
  have u: "\<not> fixed_theta example_pomo" by (simp add: example_pomo_def)
  have g: "example_mm_getVariables example_variables (mutation_model example_pomo)
      = (False, example_mm)"
    by (simp add: example_mm_getVariables_def example_pomo_def)
  have nd: "getNDim (example_pomo\<lparr>mutation_model := example_mm\<rparr>) = 1"
    by (simp add: getNDim_def example_pomo_def example_mm_def)
  obtain st' where 1: "getVariables example_mm_getVariables example_variables example_pomo
      = (False, Inr st')"
    by (rule example_getVariables)
  from C10_theta_flag_mismatch
    [where mm_getVariables = example_mm_getVariables and variables = example_variables, OF u g]
  have
    a: "fst (getVariables example_mm_getVariables example_variables example_pomo)
         = (False \<or> theta example_pomo \<noteq> example_variables (1 + 1))"
    and b: "\<forall>st'. snd (getVariables example_mm_getVariables example_variables example_pomo) = Inr st'
           \<longrightarrow> theta st' = example_variables 1"
    unfolding nd by blast+
  from b 1 have c: "theta st' = example_variables 1" by simp
  have d: "theta example_pomo = 1 / 10" "example_variables 1 = 1 / 5" "example_variables 2 = 1 / 10"
    by (simp_all add: example_pomo_def example_variables_def)
  from u g nd a c 1 d show ?thesis by simp
qed

lemma example_rev_update:
  obtains st where "updatePoMoStatesAndRateMatrix (example_pomo\<lparr>is_reversible := b\<rparr>) = Inr st"
    "trace st = []" "is_reversible st = b"
proof -
  let ?st = "example_pomo\<lparr>is_reversible := b,
        state_freq := (\<lambda>k. if k \<in> {0..num_states example_pomo - 1}
        then stateFreq_value example_pomo (8 / 17) k else state_freq example_pomo k)\<rparr>"
  have n: "1 \<le> N ?st" by (simp add: example_pomo_def)
  have t: "tot_sum_of ?st \<noteq> 0" unfolding example_rev_tot by simp
  from updatePoMoStatesAndRateMatrix_Inr [OF example_rev_stateFreq n t]
  obtain st where run: "updatePoMoStatesAndRateMatrix (example_pomo\<lparr>is_reversible := b\<rparr>) = Inr st"
    by blast
  from updatePoMoStatesAndRateMatrix_frame [OF run]
  have "trace st = []" "is_reversible st = b"
    by (auto simp add: example_pomo_def)
  with run show ?thesis by (rule that)
qed

lemma zero_rates_rev_stateFreq:
  "computeStateFreq (zero_rates_pomo\<lparr>is_reversible := b\<rparr>)
   = Inr (zero_rates_pomo\<lparr>is_reversible := b,
        state_freq := (\<lambda>k. if k \<in> {0..num_states zero_rates_pomo - 1}
        then stateFreq_value zero_rates_pomo 1 k else state_freq zero_rates_pomo k)\<rparr>)"
proof -
  let ?e = "zero_rates_pomo\<lparr>is_reversible := b\<rparr>"
  have z: "computeSumFreqBoundaryStates ?e + computeSumFreqPolyStates ?e = 1"
    by (simp add: computeSumFreqBoundaryStates_eq computeSumFreqPolyStates_eq
        zero_rates_pomo_def example_mm_def freq_boundary_states_def)
  have n: "1 \<le> N ?e" by (simp add: zero_rates_pomo_def)
  have nz: "computeSumFreqBoundaryStates ?e + computeSumFreqPolyStates ?e \<noteq> 0"
    unfolding z by simp
  have e: "(1::real) / 1 = 1" by simp
  have v: "stateFreq_value ?e = stateFreq_value zero_rates_pomo"
    by (simp add: fun_eq_iff stateFreq_value_def freq_boundary_states_def
        split: sum.splits prod.splits)
  have sfq: "state_freq ?e = state_freq zero_rates_pomo" by simp
  have nse: "num_states ?e = num_states zero_rates_pomo" by (simp add: num_states_def)
  show ?thesis
    using computeStateFreq_Inr [OF n nz] unfolding z e v sfq nse .
qed

lemma zero_rates_rev_tot:
  "tot_sum_of (zero_rates_pomo\<lparr>is_reversible := b,
        state_freq := (\<lambda>k. if k \<in> {0..num_states zero_rates_pomo - 1}
        then stateFreq_value zero_rates_pomo 1 k else state_freq zero_rates_pomo k)\<rparr>)
   = 0"
  by (simp add: tot_sum_of_def row_sum_of_list sum_list_upto [symmetric]
     num_states_def num_states_of_eq upto.simps stateFreq_value_def isBoundary_def
     transition_rate_def computeProbBoundaryMutation_def decomposeState_def
     zero_rates_pomo_def example_mm_def mutCoeff_def freq_boundary_states_def n_alleles_def
     fdiv_def)

lemma zero_rates_update:
  "updatePoMoStatesAndRateMatrix (zero_rates_pomo\<lparr>is_reversible := b\<rparr>) = Inl NonFinite"
  by (rule updatePoMoStatesAndRateMatrix_NonFinite [OF zero_rates_rev_stateFreq _ zero_rates_rev_tot])
     (simp add: zero_rates_pomo_def)

text \<open>
  C7. Whatever the rebuild at its head leaves, decomposeRateMatrix calls the symmetric
  eigensystem routine, and nothing else, when the model is reversible; when it is not,
  it calls the general eigensystem routine for the eigen-decomposition technique,
  returns without a call for scaling and squaring, and throws an error, without a call,
  for every other technique. Where no error is thrown the outcome is that of the rebuild,
  with the call recorded.
\<close>

theorem C7_decomposition_dispatch:
  "(is_reversible st0 \<longrightarrow>
      decomposeRateMatrix met st0
      = ([Eigensystem_sym],
         and_then (updatePoMoStatesAndRateMatrix st0)
           (\<lambda>st. Inr (st\<lparr>trace := trace st @ [Eigensystem_sym]\<rparr>))))
   \<and> (\<not> is_reversible st0 \<and> met = MET_EIGEN_DECOMPOSITION \<longrightarrow>
      decomposeRateMatrix met st0
      = ([Eigensystem_nonrev],
         and_then (updatePoMoStatesAndRateMatrix st0)
           (\<lambda>st. Inr (st\<lparr>trace := trace st @ [Eigensystem_nonrev]\<rparr>))))
   \<and> (\<not> is_reversible st0 \<and> met = MET_SCALING_SQUARING \<longrightarrow>
      decomposeRateMatrix met st0 = ([], updatePoMoStatesAndRateMatrix st0))
   \<and> (\<not> is_reversible st0 \<and> met \<noteq> MET_EIGEN_DECOMPOSITION \<and> met \<noteq> MET_SCALING_SQUARING \<longrightarrow>
      (\<exists>msg. decomposeRateMatrix met st0 = ([], Inl (OutError msg))))"
proof -
  have rev: "(case updatePoMoStatesAndRateMatrix st0 of Inr st \<Rightarrow> is_reversible st
                | Inl e \<Rightarrow> is_reversible st0) = is_reversible st0"
  proof (cases "updatePoMoStatesAndRateMatrix st0")
    case (Inl e)
    then show ?thesis by simp
  next
    case (Inr st)
    from updatePoMoStatesAndRateMatrix_frame [OF Inr]
    have "is_reversible st = is_reversible st0" by auto
    with Inr show ?thesis by simp
  qed
  show ?thesis by (simp add: decomposeRateMatrix_def Let_def rev)
qed

theorem C7_decomposition_dispatch_witness:
  "(\<exists>st. updatePoMoStatesAndRateMatrix example_pomo = Inr st
        \<and> decomposeRateMatrix MET_EIGEN_DECOMPOSITION example_pomo
          = ([Eigensystem_sym], Inr (st\<lparr>trace := [Eigensystem_sym]\<rparr>)))
   \<and> (\<exists>st. updatePoMoStatesAndRateMatrix (example_pomo\<lparr>is_reversible := False\<rparr>) = Inr st
        \<and> decomposeRateMatrix MET_EIGEN_DECOMPOSITION (example_pomo\<lparr>is_reversible := False\<rparr>)
          = ([Eigensystem_nonrev], Inr (st\<lparr>trace := [Eigensystem_nonrev]\<rparr>))
        \<and> decomposeRateMatrix MET_SCALING_SQUARING (example_pomo\<lparr>is_reversible := False\<rparr>)
          = ([], Inr st))
   \<and> decomposeRateMatrix MET_SCALING_SQUARING zero_rates_pomo
       = ([Eigensystem_sym], Inl NonFinite)
   \<and> decomposeRateMatrix MET_EIGEN_DECOMPOSITION (zero_rates_pomo\<lparr>is_reversible := False\<rparr>)
       = ([Eigensystem_nonrev], Inl NonFinite)
   \<and> decomposeRateMatrix MET_SCALING_SQUARING (zero_rates_pomo\<lparr>is_reversible := False\<rparr>)
       = ([], Inl NonFinite)
   \<and> decomposeRateMatrix MET_EIGEN3LIB_DECOMPOSITION (zero_rates_pomo\<lparr>is_reversible := False\<rparr>)
       = ([], Inl (OutError ''MET_EIGEN3LIB_DECOMPOSITION does not work with PoMo.''))
   \<and> decomposeRateMatrix MET_LIE_MARKOV_DECOMPOSITION (zero_rates_pomo\<lparr>is_reversible := False\<rparr>)
       = ([], Inl (OutError ''Matrix decomposition in closed form not available for PoMo.''))
   \<and> decomposeRateMatrix (MET_other 7) (zero_rates_pomo\<lparr>is_reversible := False\<rparr>)
       = ([], Inl (OutError ''Matrix decomposition method unknown.''))"
proof -
  let ?e = "example_pomo\<lparr>is_reversible := False\<rparr>"
  let ?z = "zero_rates_pomo\<lparr>is_reversible := False\<rparr>"
  have c1: "\<exists>st. updatePoMoStatesAndRateMatrix example_pomo = Inr st
        \<and> decomposeRateMatrix MET_EIGEN_DECOMPOSITION example_pomo
          = ([Eigensystem_sym], Inr (st\<lparr>trace := [Eigensystem_sym]\<rparr>))"
  proof -
    obtain st where run: "updatePoMoStatesAndRateMatrix (example_pomo\<lparr>is_reversible := True\<rparr>) = Inr st"
      and tr: "trace st = []"
      by (rule example_rev_update)
    from run have run': "updatePoMoStatesAndRateMatrix example_pomo = Inr st"
      by (simp add: example_pomo_rev)
    have rev: "is_reversible example_pomo" by (simp add: example_pomo_def)
    from C7_decomposition_dispatch [of example_pomo MET_EIGEN_DECOMPOSITION] rev
    have "decomposeRateMatrix MET_EIGEN_DECOMPOSITION example_pomo
          = ([Eigensystem_sym], Inr (st\<lparr>trace := [Eigensystem_sym]\<rparr>))"
      by (simp add: run' tr)
    with run' show ?thesis by blast
  qed
  have c2: "\<exists>st. updatePoMoStatesAndRateMatrix ?e = Inr st
        \<and> decomposeRateMatrix MET_EIGEN_DECOMPOSITION ?e
          = ([Eigensystem_nonrev], Inr (st\<lparr>trace := [Eigensystem_nonrev]\<rparr>))
        \<and> decomposeRateMatrix MET_SCALING_SQUARING ?e = ([], Inr st)"
  proof -
    obtain st where run: "updatePoMoStatesAndRateMatrix ?e = Inr st"
      and tr: "trace st = []"
      by (rule example_rev_update)
    have rev: "\<not> is_reversible ?e" by simp
    from C7_decomposition_dispatch [of ?e MET_EIGEN_DECOMPOSITION] rev
    have 1: "decomposeRateMatrix MET_EIGEN_DECOMPOSITION ?e
          = ([Eigensystem_nonrev], Inr (st\<lparr>trace := [Eigensystem_nonrev]\<rparr>))"
      by (simp add: run tr)
    from C7_decomposition_dispatch [of ?e MET_SCALING_SQUARING] rev
    have 2: "decomposeRateMatrix MET_SCALING_SQUARING ?e = ([], Inr st)"
      by (simp add: run)
    from run 1 2 show ?thesis by blast
  qed
  have zr: "is_reversible zero_rates_pomo" by (simp add: zero_rates_pomo_def)
  have "zero_rates_pomo\<lparr>is_reversible := True\<rparr> = zero_rates_pomo"
    by (simp add: zero_rates_pomo_def)
  with zero_rates_update [of True]
  have zu: "updatePoMoStatesAndRateMatrix zero_rates_pomo = Inl NonFinite"
    by simp
  have zn: "\<not> is_reversible ?z" by simp
  from C7_decomposition_dispatch [of zero_rates_pomo MET_SCALING_SQUARING] zr
  have c3: "decomposeRateMatrix MET_SCALING_SQUARING zero_rates_pomo
       = ([Eigensystem_sym], Inl NonFinite)"
    by (simp add: zu)
  from C7_decomposition_dispatch [of ?z MET_EIGEN_DECOMPOSITION] zn
  have c4: "decomposeRateMatrix MET_EIGEN_DECOMPOSITION ?z = ([Eigensystem_nonrev], Inl NonFinite)"
    by (simp add: zero_rates_update)
  from C7_decomposition_dispatch [of ?z MET_SCALING_SQUARING] zn
  have c5: "decomposeRateMatrix MET_SCALING_SQUARING ?z = ([], Inl NonFinite)"
    by (simp add: zero_rates_update)
  from C7_decomposition_dispatch [of ?z MET_EIGEN3LIB_DECOMPOSITION] zn
  obtain m1 where m1: "decomposeRateMatrix MET_EIGEN3LIB_DECOMPOSITION ?z = ([], Inl (OutError m1))"
    by auto
  from C7_decomposition_dispatch [of ?z MET_LIE_MARKOV_DECOMPOSITION] zn
  obtain m2 where m2: "decomposeRateMatrix MET_LIE_MARKOV_DECOMPOSITION ?z = ([], Inl (OutError m2))"
    by auto
  from C7_decomposition_dispatch [of ?z "MET_other 7"] zn
  obtain m3 where m3: "decomposeRateMatrix (MET_other 7) ?z = ([], Inl (OutError m3))"
    by auto
  have c6: "decomposeRateMatrix MET_EIGEN3LIB_DECOMPOSITION ?z
       = ([], Inl (OutError ''MET_EIGEN3LIB_DECOMPOSITION does not work with PoMo.''))"
    using m1 by (simp add: decomposeRateMatrix_def Let_def zero_rates_update)
  have c7: "decomposeRateMatrix MET_LIE_MARKOV_DECOMPOSITION ?z
       = ([], Inl (OutError ''Matrix decomposition in closed form not available for PoMo.''))"
    using m2 by (simp add: decomposeRateMatrix_def Let_def zero_rates_update)
  have c8: "decomposeRateMatrix (MET_other 7) ?z
       = ([], Inl (OutError ''Matrix decomposition method unknown.''))"
    using m3 by (simp add: decomposeRateMatrix_def Let_def zero_rates_update)
  from c1 c2 c3 c4 c5 c6 c7 c8 show ?thesis by (intro conjI)
qed

theorem C9_counterexample:
  "\<exists>st'. getVariables example_mm_getVariables example_variables example_pomo = (False, Inr st')
      \<and> trace st' = []"
proof -
  obtain st' where "getVariables example_mm_getVariables example_variables example_pomo
      = (False, Inr st')" "theta st' = 1 / 5" "trace st' = []"
    by (rule example_getVariables)
  then show ?thesis by blast
qed

text \<open>
  C9. The number of free parameters is the underlying model's number, plus one when theta
  is not fixed. setVariables returns the underlying model's vector, with theta written
  at index \<open>getNDim()\<close> when theta is not fixed. getVariables hands the vector to the
  underlying model, reads theta from index \<open>getNDim()\<close> when theta is not fixed, then
  renormalises the mutation rates and rebuilds the rate matrix; a call that succeeds
  leaves the underlying model's result and that theta in place and makes no call to an
  eigensystem routine.
\<close>

theorem C9_parameter_interface:
  assumes g: "mm_getVariables variables (mutation_model st) = (changed, mm)"
  shows "getNDim st = mm_ndim (mutation_model st) + (if fixed_theta st then 0 else 1)
     \<and> (fixed_theta st \<longrightarrow>
          setVariables mm_setVariables variables st = mm_setVariables (mutation_model st) variables)
     \<and> (\<not> fixed_theta st \<longrightarrow>
          setVariables mm_setVariables variables st
          = (mm_setVariables (mutation_model st) variables)(getNDim st := theta st))
     \<and> (fixed_theta st \<longrightarrow>
          snd (getVariables mm_getVariables variables st)
          = and_then (normalizeMutationRates (st\<lparr>mutation_model := mm\<rparr>))
              updatePoMoStatesAndRateMatrix)
     \<and> (\<not> fixed_theta st \<longrightarrow>
          snd (getVariables mm_getVariables variables st)
          = and_then (normalizeMutationRates
                        (st\<lparr>mutation_model := mm,
                            theta := variables (getNDim (st\<lparr>mutation_model := mm\<rparr>))\<rparr>))
              updatePoMoStatesAndRateMatrix)
     \<and> (\<forall>st'. snd (getVariables mm_getVariables variables st) = Inr st' \<longrightarrow>
          mutation_model st' = mm
          \<and> theta st' = (if fixed_theta st then theta st
                          else variables (getNDim (st\<lparr>mutation_model := mm\<rparr>)))
          \<and> trace st' = trace st)"
proof -
  have fx: "snd (getVariables mm_getVariables variables st)
          = and_then (normalizeMutationRates (st\<lparr>mutation_model := mm\<rparr>))
              updatePoMoStatesAndRateMatrix" if f: "fixed_theta st"
    by (simp add: getVariables_fixed
        [where mm_getVariables = mm_getVariables and variables = variables, OF f g])
  have ux: "snd (getVariables mm_getVariables variables st)
          = and_then (normalizeMutationRates
                        (st\<lparr>mutation_model := mm,
                            theta := variables (getNDim (st\<lparr>mutation_model := mm\<rparr>))\<rparr>))
              updatePoMoStatesAndRateMatrix" if u: "\<not> fixed_theta st"
    by (simp add: getVariables_unfixed
        [where mm_getVariables = mm_getVariables and variables = variables, OF u g])
  have fr: "mutation_model st' = mm
          \<and> theta st' = (if fixed_theta st then theta st
                          else variables (getNDim (st\<lparr>mutation_model := mm\<rparr>)))
          \<and> trace st' = trace st \<and> is_reversible st' = is_reversible st"
    if r: "snd (getVariables mm_getVariables variables st) = Inr st'" for st'
  proof (cases "fixed_theta st")
    case True
    from r have "and_then (normalizeMutationRates (st\<lparr>mutation_model := mm\<rparr>))
              updatePoMoStatesAndRateMatrix = Inr st'"
      by (simp only: fx [OF True])
    from rebuild_frame [OF this] True show ?thesis by simp
  next
    case False
    from r have "and_then (normalizeMutationRates
                        (st\<lparr>mutation_model := mm,
                            theta := variables (getNDim (st\<lparr>mutation_model := mm\<rparr>))\<rparr>))
              updatePoMoStatesAndRateMatrix = Inr st'"
      by (simp only: ux [OF False])
    from rebuild_frame [OF this] False show ?thesis by simp
  qed
  have c1: "getNDim st = mm_ndim (mutation_model st) + (if fixed_theta st then 0 else 1)"
    by (simp add: getNDim_def)
  have c2: "fixed_theta st \<longrightarrow>
          setVariables mm_setVariables variables st = mm_setVariables (mutation_model st) variables"
    by (simp add: setVariables_def)
  have c3: "\<not> fixed_theta st \<longrightarrow>
          setVariables mm_setVariables variables st
          = (mm_setVariables (mutation_model st) variables)(getNDim st := theta st)"
    by (simp add: setVariables_def Let_def)
  have c4: "fixed_theta st \<longrightarrow>
          snd (getVariables mm_getVariables variables st)
          = and_then (normalizeMutationRates (st\<lparr>mutation_model := mm\<rparr>))
              updatePoMoStatesAndRateMatrix"
    using fx by (rule impI)
  have c5: "\<not> fixed_theta st \<longrightarrow>
          snd (getVariables mm_getVariables variables st)
          = and_then (normalizeMutationRates
                        (st\<lparr>mutation_model := mm,
                            theta := variables (getNDim (st\<lparr>mutation_model := mm\<rparr>))\<rparr>))
              updatePoMoStatesAndRateMatrix"
    using ux by (rule impI)
  have c6: "\<forall>st'. snd (getVariables mm_getVariables variables st) = Inr st' \<longrightarrow>
          mutation_model st' = mm
          \<and> theta st' = (if fixed_theta st then theta st
                          else variables (getNDim (st\<lparr>mutation_model := mm\<rparr>)))
          \<and> trace st' = trace st"
    using fr by blast
  from c1 c2 c3 c4 c5 c6 show ?thesis by (intro conjI)
qed

theorem C9_parameter_interface_witness:
  "getNDim example_pomo = 1
   \<and> setVariables example_mm_setVariables example_variables example_pomo
       = example_variables(1 := 1 / 10)
   \<and> (\<exists>st'. snd (getVariables example_mm_getVariables example_variables example_pomo) = Inr st'
         \<and> mutation_model st' = example_mm \<and> theta st' = 1 / 5 \<and> trace st' = [])
   \<and> getNDim (example_pomo\<lparr>fixed_theta := True\<rparr>) = 0
   \<and> setVariables example_mm_setVariables example_variables (example_pomo\<lparr>fixed_theta := True\<rparr>)
       = example_variables
   \<and> snd (getVariables example_mm_getVariables example_variables
             (example_pomo\<lparr>fixed_theta := True\<rparr>))
       = and_then (normalizeMutationRates (example_pomo\<lparr>fixed_theta := True\<rparr>))
           updatePoMoStatesAndRateMatrix"
proof -
  have g: "example_mm_getVariables example_variables (mutation_model example_pomo)
      = (False, example_mm)"
    by (simp add: example_mm_getVariables_def example_pomo_def)
  have g': "example_mm_getVariables example_variables
        (mutation_model (example_pomo\<lparr>fixed_theta := True\<rparr>)) = (False, example_mm)"
    by (simp add: example_mm_getVariables_def example_pomo_def)
  note u = C9_parameter_interface [where mm_getVariables = example_mm_getVariables
      and variables = example_variables and mm_setVariables = example_mm_setVariables, OF g]
  note f = C9_parameter_interface [where mm_getVariables = example_mm_getVariables
      and variables = example_variables and mm_setVariables = example_mm_setVariables, OF g']
  have uf: "\<not> fixed_theta example_pomo" "theta example_pomo = 1 / 10"
    "mm_ndim (mutation_model example_pomo) = 0"
    "mutation_model example_pomo = example_mm" "trace example_pomo = []"
    by (simp_all add: example_pomo_def example_mm_def)
  have ff: "fixed_theta (example_pomo\<lparr>fixed_theta := True\<rparr>)"
    "mm_ndim (mutation_model (example_pomo\<lparr>fixed_theta := True\<rparr>)) = 0"
    "(example_pomo\<lparr>fixed_theta := True\<rparr>)\<lparr>mutation_model := example_mm\<rparr>
       = example_pomo\<lparr>fixed_theta := True\<rparr>"
    "example_mm_setVariables (mutation_model (example_pomo\<lparr>fixed_theta := True\<rparr>))
       example_variables = example_variables"
    by (simp_all add: example_pomo_def example_mm_def example_mm_setVariables_def)
  have sv: "example_mm_setVariables (mutation_model example_pomo) example_variables
      = example_variables"
    by (simp add: example_mm_setVariables_def)
  have c1: "getNDim example_pomo = 1" using u uf by simp
  have c2: "setVariables example_mm_setVariables example_variables example_pomo
       = example_variables(1 := 1 / 10)"
    using u uf(1,2) c1 sv by simp
  obtain st' where r: "getVariables example_mm_getVariables example_variables example_pomo
      = (False, Inr st')"
    by (rule example_getVariables)
  then have r': "snd (getVariables example_mm_getVariables example_variables example_pomo)
      = Inr st'" by simp
  have nd: "getNDim (example_pomo\<lparr>mutation_model := example_mm\<rparr>) = 1"
    by (simp add: getNDim_def example_pomo_def example_mm_def)
  have ev: "example_variables 1 = 1 / 5" by (simp add: example_variables_def)
  from u r' have "mutation_model st' = example_mm
          \<and> theta st' = (if fixed_theta example_pomo then theta example_pomo
                          else example_variables (getNDim (example_pomo\<lparr>mutation_model := example_mm\<rparr>)))
          \<and> trace st' = trace example_pomo"
    by blast
  then have "mutation_model st' = example_mm \<and> theta st' = 1 / 5 \<and> trace st' = []"
    unfolding nd ev using uf(1,5) by simp
  with r' have c3: "\<exists>st'. snd (getVariables example_mm_getVariables example_variables example_pomo) = Inr st'
         \<and> mutation_model st' = example_mm \<and> theta st' = 1 / 5 \<and> trace st' = []"
    by (intro exI [of _ st'] conjI) simp_all
  have c4: "getNDim (example_pomo\<lparr>fixed_theta := True\<rparr>) = 0"
    using f ff(1,2) by simp
  have c5: "setVariables example_mm_setVariables example_variables (example_pomo\<lparr>fixed_theta := True\<rparr>)
       = example_variables"
    using f ff(1,4) by simp
  have c6: "snd (getVariables example_mm_getVariables example_variables
             (example_pomo\<lparr>fixed_theta := True\<rparr>))
       = and_then (normalizeMutationRates (example_pomo\<lparr>fixed_theta := True\<rparr>))
           updatePoMoStatesAndRateMatrix"
    using f ff(1) unfolding ff(3) by simp
  from c1 c2 c3 c4 c5 c6 show ?thesis by (intro conjI)
qed

section \<open>The check for polymorphism data\<close>

lemma fixed_sites_theta:
  "estimateEmpiricalWattersonTheta SAMPLING_SAMPLED fixed_sites_alignment example_pomo = Inr 0"
  by (simp add: estimateEmpiricalWattersonTheta_def Let_def fixed_sites_alignment_def
      n_alleles_def num_states_def num_states_of_eq example_pomo_def upto.simps fdiv_def)

lemma setInitialMutCoeff_check:
  "setInitialMutCoeff st
   = (if \<not> fixed_theta st
         \<and> (2 * freq_boundary_states st 1 * freq_boundary_states st 0
            + 2 * freq_boundary_states st 2 * freq_boundary_states st 0
            + 2 * freq_boundary_states st 2 * freq_boundary_states st 1
            + 2 * freq_boundary_states st 3 * freq_boundary_states st 0
            + 2 * freq_boundary_states st 3 * freq_boundary_states st 1
            + 2 * freq_boundary_states st 3 * freq_boundary_states st 2)
           * harmonic (N st - 1) \<le> 0
      then ([''We strongly discourage to use PoMo on data without polymorphisms.''],
            Inl (OutError
              ''Setting the level of polymorphism without population data is not yet supported.''))
      else ([], normalizeMutationRates
                  (st\<lparr>mutation_rate_matrix := (\<lambda>k. 0), mutation_rate_matrix_sym := (\<lambda>k. 0),
                      mutation_rate_matrix_asy := (\<lambda>k. 0)\<rparr>)))"
  by (simp add: setInitialMutCoeff_def Let_def computeSumFreqPolyStatesNoMut_eq
      freq_boundary_states_def)

lemma example_theta0_normalize:
  "\<exists>st'. normalizeMutationRates
      (example_pomo\<lparr>theta := 0, mutation_rate_matrix := (\<lambda>k. 0),
          mutation_rate_matrix_sym := (\<lambda>k. 0), mutation_rate_matrix_asy := (\<lambda>k. 0)\<rparr>) = Inr st'"
proof -
  let ?e = "example_pomo\<lparr>theta := 0, mutation_rate_matrix := (\<lambda>k. 0),
          mutation_rate_matrix_sym := (\<lambda>k. 0), mutation_rate_matrix_asy := (\<lambda>k. 0)\<rparr>"
  have nz: "mm_state_freq (mutation_model ?e) 0 \<noteq> 0"
    "mm_state_freq (mutation_model ?e) 1 \<noteq> 0"
    "mm_state_freq (mutation_model ?e) 2 \<noteq> 0"
    "mm_state_freq (mutation_model ?e) 3 \<noteq> 0"
    by (simp_all add: example_pomo_def example_mm_def)
  define st1 where "st1 = projr (raw_mutation_rates ?e)"
  have raw: "raw_mutation_rates ?e = Inr st1"
    unfolding st1_def raw_mutation_rates_Inr [OF nz] by simp
  have p: "computeSumFreqPolyStates st1 = 9 / 8"
    unfolding st1_def raw_mutation_rates_Inr [OF nz] sum.sel
    by (simp add: computeSumFreqPolyStates_eq symmetric_part_eq getQMatrix_def n_alleles_def
        freq_boundary_states_def harmonic_sum)
       (simp add: example_pomo_def example_mm_def sum_list_upto [symmetric] upto.simps)
  have hy: "2 \<le> N ?e" "computeSumFreqBoundaryStates ?e = 1"
    "harmonic (N ?e - 1) * theta ?e \<noteq> 1"
    by (simp_all add: example_pomo_def example_mm_def computeSumFreqBoundaryStates_eq
      freq_boundary_states_def)
  have p0: "computeSumFreqPolyStates st1 \<noteq> 0" "1 + computeSumFreqPolyStates st1 \<noteq> 0"
    by (simp_all add: p)
  from normalizeMutationRates_Inr [OF raw hy(1,2) p0 hy(3)] show ?thesis by blast
qed

text \<open>
  C8. The check of setInitialMutCoeff reads the flag \<open>fixed_theta\<close>, the boundary
  frequencies and the population size only: it warns and throws when theta is not fixed
  and \<open>\<Sum>\<^bsub>j<i\<^esub> 2 pi i pi j H(N - 1) \<le> 0\<close>, and goes on to normalizeMutationRates in every
  other case. For data without a polymorphic observation (the estimate of theta is 0),
  equal boundary frequencies and a theta that is not fixed, it gives no warning and no
  error, and the set-up succeeds.
\<close>

theorem C8_polymorphism_check:
  "setInitialMutCoeff st
   = (if \<not> fixed_theta st
         \<and> (2 * freq_boundary_states st 1 * freq_boundary_states st 0
            + 2 * freq_boundary_states st 2 * freq_boundary_states st 0
            + 2 * freq_boundary_states st 2 * freq_boundary_states st 1
            + 2 * freq_boundary_states st 3 * freq_boundary_states st 0
            + 2 * freq_boundary_states st 3 * freq_boundary_states st 1
            + 2 * freq_boundary_states st 3 * freq_boundary_states st 2)
           * harmonic (N st - 1) \<le> 0
      then ([''We strongly discourage to use PoMo on data without polymorphisms.''],
            Inl (OutError
              ''Setting the level of polymorphism without population data is not yet supported.''))
      else ([], normalizeMutationRates
                  (st\<lparr>mutation_rate_matrix := (\<lambda>k. 0), mutation_rate_matrix_sym := (\<lambda>k. 0),
                      mutation_rate_matrix_asy := (\<lambda>k. 0)\<rparr>)))
   \<and> estimateEmpiricalWattersonTheta SAMPLING_SAMPLED fixed_sites_alignment example_pomo = Inr 0
   \<and> \<not> fixed_theta (example_pomo\<lparr>theta := 0\<rparr>)
   \<and> fst (setInitialMutCoeff (example_pomo\<lparr>theta := 0\<rparr>)) = []
   \<and> (\<exists>st'. snd (setInitialMutCoeff (example_pomo\<lparr>theta := 0\<rparr>)) = Inr st')"
proof -
  have f: "\<not> fixed_theta (example_pomo\<lparr>theta := 0\<rparr>)" by (simp add: example_pomo_def)
  have l: "\<not> (2 * freq_boundary_states (example_pomo\<lparr>theta := 0\<rparr>) 1 * freq_boundary_states (example_pomo\<lparr>theta := 0\<rparr>) 0
            + 2 * freq_boundary_states (example_pomo\<lparr>theta := 0\<rparr>) 2 * freq_boundary_states (example_pomo\<lparr>theta := 0\<rparr>) 0
            + 2 * freq_boundary_states (example_pomo\<lparr>theta := 0\<rparr>) 2 * freq_boundary_states (example_pomo\<lparr>theta := 0\<rparr>) 1
            + 2 * freq_boundary_states (example_pomo\<lparr>theta := 0\<rparr>) 3 * freq_boundary_states (example_pomo\<lparr>theta := 0\<rparr>) 0
            + 2 * freq_boundary_states (example_pomo\<lparr>theta := 0\<rparr>) 3 * freq_boundary_states (example_pomo\<lparr>theta := 0\<rparr>) 1
            + 2 * freq_boundary_states (example_pomo\<lparr>theta := 0\<rparr>) 3 * freq_boundary_states (example_pomo\<lparr>theta := 0\<rparr>) 2)
           * harmonic (N (example_pomo\<lparr>theta := 0\<rparr>) - 1) \<le> 0"
    by (simp add: example_pomo_def example_mm_def freq_boundary_states_def harmonic_sum
        sum_list_upto [symmetric] upto.simps)
  have s: "setInitialMutCoeff (example_pomo\<lparr>theta := 0\<rparr>)
      = ([], normalizeMutationRates
           (example_pomo\<lparr>theta := 0, mutation_rate_matrix := (\<lambda>k. 0),
          mutation_rate_matrix_sym := (\<lambda>k. 0), mutation_rate_matrix_asy := (\<lambda>k. 0)\<rparr>))"
    unfolding setInitialMutCoeff_check using l by simp
  from example_theta0_normalize obtain st' where
    "snd (setInitialMutCoeff (example_pomo\<lparr>theta := 0\<rparr>)) = Inr st'"
    unfolding s by auto
  then have e: "\<exists>st'. snd (setInitialMutCoeff (example_pomo\<lparr>theta := 0\<rparr>)) = Inr st'" ..
  have w: "fst (setInitialMutCoeff (example_pomo\<lparr>theta := 0\<rparr>)) = []" unfolding s by simp
  from setInitialMutCoeff_check [of st] fixed_sites_theta f w e show ?thesis by (intro conjI)
qed

section \<open>Watterson's estimator\<close>



















end
